theory Spec2Isabelle
  imports Complex_Main "HOL-Library.AList"
begin

section \<open>InsightForge web dashboard: a shallow embedding\<close>

text \<open>
  The repository under study holds three variants of the browser dashboard of the
  InsightForge research agent:
  \<^item> \<^verbatim>\<open>InsightForge-main/webapp/app.js\<close>: the single-page dashboard
    (\<^verbatim>\<open>handleFiles\<close>, \<^verbatim>\<open>handleRunAnalysis\<close>, \<^verbatim>\<open>callAPI\<close>, \<^verbatim>\<open>displayResults\<close>);
  \<^item> the second module stored in \<^verbatim>\<open>InsightForge-main/webapp/config.js\<close>: a four-step
    wizard. As shipped this module binds the name \<^verbatim>\<open>runAnalysis\<close> three times (one
    import and two function declarations), which is an early error, so it never
    runs. Only the bodies of its functions are modelled here, each taken on its own:
    the data sources built in \<^verbatim>\<open>runAnalysis()\<close> and \<^verbatim>\<open>showResults\<close>;
  \<^item> \<^verbatim>\<open>InsiteForge-main/webapp/ui.js\<close> and the API client \<^verbatim>\<open>api.js\<close>
    (\<^verbatim>\<open>extractMeta\<close>, \<^verbatim>\<open>scoreToBadge\<close>, \<^verbatim>\<open>runAnalysis\<close>).

  Conventions of the embedding.
  \<^item> A JavaScript string is the list of its UTF-16 code units, each a natural number;
    \<open>js\<close> turns an ASCII literal into such a list.
  \<^item> Built-ins of the JavaScript engine that depend on tables or wordings which are not
    part of the repository (case mapping outside ASCII, the text of a number that is
    not an integer, the messages of the errors raised by the engine itself) are
    parameters, collected in a record \<open>js_engine\<close>.
  \<^item> A number of a JSON text is a \<^typ>\<open>real\<close>; the program sees the double nearest to
    it (\<open>fl\<close>), and a product of two doubles is rounded again.
  \<^item> An absent property (\<^verbatim>\<open>undefined\<close>) is \<^const>\<open>None\<close>.
  \<^item> A thrown error is the left injection of a sum.
  \<^item> What the network answers, and when, is an input of the model.
\<close>

subsection \<open>Strings\<close>

type_synonym jsstring = "nat list"

definition cu :: "char \<Rightarrow> nat" where
  "cu c = of_char c"

definition js :: "string \<Rightarrow> jsstring" where
  "js s = map cu s"

definition newline :: nat where
  "newline = 10"

text \<open>The ECMAScript classes WhiteSpace and LineTerminator: what \<^verbatim>\<open>trim()\<close> strips and
  what \<^verbatim>\<open>\s\<close> matches. These are TAB, LF, VT, FF, CR, SPACE, NO-BREAK SPACE, OGHAM SPACE
  MARK, U+2000 to U+200A, LINE SEPARATOR, PARAGRAPH SEPARATOR, NARROW NO-BREAK SPACE, MEDIUM
  MATHEMATICAL SPACE, IDEOGRAPHIC SPACE and the BYTE ORDER MARK.\<close>

definition is_space :: "nat \<Rightarrow> bool" where
  "is_space c =
     (c \<in> set [9, 10, 11, 12, 13, 32, 160, 5760, 8232, 8233, 8239, 8287, 12288, 65279]
      \<or> (8192 \<le> c \<and> c \<le> 8202))"

definition is_digit :: "nat \<Rightarrow> bool" where
  "is_digit c = (48 \<le> c \<and> c \<le> 57)"

definition is_upper :: "nat \<Rightarrow> bool" where
  "is_upper c = (65 \<le> c \<and> c \<le> 90)"

definition is_lower :: "nat \<Rightarrow> bool" where
  "is_lower c = (97 \<le> c \<and> c \<le> 122)"

text \<open>The class \<^verbatim>\<open>[A-Za-z]\<close>. Under the flag \<^verbatim>\<open>i\<close> (without \<^verbatim>\<open>u\<close>) it matches the
  same code units: a code unit above 127 is never folded to an ASCII one.\<close>

definition is_alpha :: "nat \<Rightarrow> bool" where
  "is_alpha c = (is_upper c \<or> is_lower c)"

text \<open>The class \<^verbatim>\<open>.\<close>: anything but the line terminators LF, CR, LINE SEPARATOR and
  PARAGRAPH SEPARATOR.\<close>

definition is_dot :: "nat \<Rightarrow> bool" where
  "is_dot c = (c \<noteq> 10 \<and> c \<noteq> 13 \<and> c \<noteq> 8232 \<and> c \<noteq> 8233)"

text \<open>Case mapping of ASCII code units. This is also the canonical form under which the
  flag \<^verbatim>\<open>i\<close> compares a code unit of the input with an ASCII character of a pattern:
  canonicalisation maps a code unit to its upper-case form unless that form is longer
  than one code unit, or is ASCII while the code unit is not; so only the two cases of
  an ASCII letter become equal to it.\<close>

definition ascii_upper :: "nat \<Rightarrow> nat" where
  "ascii_upper c = (if is_lower c then c - 32 else c)"

definition ascii_lower :: "nat \<Rightarrow> nat" where
  "ascii_lower c = (if is_upper c then c + 32 else c)"

text \<open>The errors that the engine raises by itself, all of type \<^verbatim>\<open>TypeError\<close>: reading
  a property of \<^verbatim>\<open>null\<close> or of \<^verbatim>\<open>undefined\<close>, calling what is not a function, and
  converting to a string an object that has no usable \<^verbatim>\<open>toString\<close>.\<close>

datatype engine_error =
    ReadPropertyOfNull jsstring
  | ReadPropertyOfUndefined jsstring
  | NotAFunction jsstring
  | CannotConvertToPrimitive

text \<open>The parameters of the engine: \<^verbatim>\<open>toUpperCase\<close> and \<^verbatim>\<open>toLowerCase\<close> on strings
  that are not ASCII, the text of a number that is not an integer below \<open>10^21\<close>, and
  the messages of its own errors.\<close>

record js_engine =
  upper_unicode :: "jsstring \<Rightarrow> jsstring"
  lower_unicode :: "jsstring \<Rightarrow> jsstring"
  number_text :: "real \<Rightarrow> jsstring"
  type_error_text :: "engine_error \<Rightarrow> jsstring"

definition toUpperCase :: "js_engine \<Rightarrow> jsstring \<Rightarrow> jsstring" where
  "toUpperCase E s = (if list_all (\<lambda>c. c < 128) s then map ascii_upper s else upper_unicode E s)"

definition toLowerCase :: "js_engine \<Rightarrow> jsstring \<Rightarrow> jsstring" where
  "toLowerCase E s = (if list_all (\<lambda>c. c < 128) s then map ascii_lower s else lower_unicode E s)"

definition trim :: "jsstring \<Rightarrow> jsstring" where
  "trim s = rev (dropWhile is_space (rev (dropWhile is_space s)))"

fun startsWith :: "jsstring \<Rightarrow> jsstring \<Rightarrow> bool" where
  "startsWith s [] = True"
| "startsWith [] (p # ps) = False"
| "startsWith (c # cs) (p # ps) = (c = p \<and> startsWith cs ps)"

text \<open>\<^verbatim>\<open>s.includes(sub)\<close>.\<close>

fun includes_str :: "jsstring \<Rightarrow> jsstring \<Rightarrow> bool" where
  "includes_str [] sub = (sub = [])"
| "includes_str (c # cs) sub = (startsWith (c # cs) sub \<or> includes_str cs sub)"

text \<open>\<^verbatim>\<open>s.replace(pat, rep)\<close> with a string pattern: only the first occurrence is replaced.\<close>

fun replace_first :: "jsstring \<Rightarrow> jsstring \<Rightarrow> jsstring \<Rightarrow> jsstring" where
  "replace_first pat rep [] = (if pat = [] then rep else [])"
| "replace_first pat rep (c # cs) =
     (if startsWith (c # cs) pat then rep @ drop (length pat) (c # cs)
      else c # replace_first pat rep cs)"

text \<open>\<^verbatim>\<open>s.split(sep)\<close> for a separator of one code unit. The result is never empty
  (\<^verbatim>\<open>"".split(",")\<close> is \<^verbatim>\<open>[""]\<close>), so the last case below is never taken.\<close>

fun split_on :: "nat \<Rightarrow> jsstring \<Rightarrow> jsstring list" where
  "split_on sep [] = [[]]"
| "split_on sep (c # cs) =
     (case split_on sep cs of
        x # xs \<Rightarrow> if c = sep then [] # x # xs else (c # x) # xs
      | [] \<Rightarrow> [[c]])"

text \<open>\<^verbatim>\<open>xs.join(sep)\<close> on strings.\<close>

definition join_with :: "jsstring \<Rightarrow> jsstring list \<Rightarrow> jsstring" where
  "join_with sep ls = (case ls of [] \<Rightarrow> [] | x # xs \<Rightarrow> foldl (\<lambda>a l. a @ sep @ l) x xs)"

text \<open>Decimal rendering of a natural number, and the value of a string of decimal digits.
  \<^verbatim>\<open>Number(ds)\<close> and \<^verbatim>\<open>parseInt(ds)\<close> return that value exactly as long as it
  does not exceed \<open>2^53\<close>; larger values are rounded to a double, which
  \<open>Number_digits\<close> does not follow.\<close>

fun dec :: "nat \<Rightarrow> jsstring" where
  "dec n = (if n < 10 then [48 + n] else dec (n div 10) @ [48 + n mod 10])"

declare dec.simps [simp del]

definition digit_val :: "nat \<Rightarrow> nat" where
  "digit_val c = c - 48"

definition Number_digits :: "jsstring \<Rightarrow> nat" where
  "Number_digits ds = foldl (\<lambda>a c. 10 * a + digit_val c) 0 ds"

text \<open>The text of an integer of magnitude below \<open>10^21\<close>.\<close>

definition show_int :: "int \<Rightarrow> jsstring" where
  "show_int i = (if i < 0 then cu CHR ''-'' # dec (nat (- i)) else dec (nat i))"

text \<open>\<^verbatim>\<open>x || d\<close> on an optional string: the empty string and an absent value are
  falsy.\<close>

definition or_str :: "jsstring option \<Rightarrow> jsstring \<Rightarrow> jsstring" where
  "or_str x d = (case x of None \<Rightarrow> d | Some s \<Rightarrow> if s = [] then d else s)"

text \<open>The glyphs of the messages: a cross mark, a check mark, a bullet and the
  sparkles.\<close>

definition cross_mark :: jsstring where
  "cross_mark = [10060]"

definition check_mark :: jsstring where
  "check_mark = [9989]"

definition bullet :: jsstring where
  "bullet = [8226]"

definition sparkles :: jsstring where
  "sparkles = [10024]"

subsection \<open>Numbers\<close>

text \<open>
  The double nearest to a real number, ties going to the even significand. The exponent
  of \<open>x\<close> is the largest \<open>e\<close> between -1022 and 1023 with \<open>2^e \<le> |x|\<close> (and -1022 when
  there is none, which covers zero and the subnormal numbers); the doubles at that
  exponent are the multiples of \<open>2^(e - 52)\<close>. Magnitudes from \<open>2^1024\<close> on, which
  JavaScript turns into \<^verbatim>\<open>Infinity\<close>, are outside this model.
\<close>

definition pow2 :: "int \<Rightarrow> real" where
  "pow2 k = 2 powi k"

fun exp_search :: "real \<Rightarrow> int \<Rightarrow> nat \<Rightarrow> int" where
  "exp_search a e 0 = e"
| "exp_search a e (Suc fuel) = (if pow2 e \<le> a then e else exp_search a (e - 1) fuel)"

definition exponent :: "real \<Rightarrow> int" where
  "exponent x = exp_search \<bar>x\<bar> 1023 2045"

definition round_even :: "real \<Rightarrow> int" where
  "round_even x =
     (let f = \<lfloor>x\<rfloor>; d = x - of_int f in
      if d < 1 / 2 then f else if 1 / 2 < d then f + 1 else if even f then f else f + 1)"

definition fl :: "real \<Rightarrow> real" where
  "fl x = (let u = pow2 (exponent x - 52) in of_int (round_even (x / u)) * u)"

text \<open>The product of two doubles.\<close>

definition times_double :: "real \<Rightarrow> real \<Rightarrow> real" where
  "times_double a b = fl (a * b)"

text \<open>\<^verbatim>\<open>Math.round\<close>: the nearest integer, halves rounded up.\<close>

definition Math_round :: "real \<Rightarrow> int" where
  "Math_round x = \<lfloor>x + 1 / 2\<rfloor>"

text \<open>\<^verbatim>\<open>x || d\<close> on an optional number: zero and an absent value are falsy.\<close>

definition or_number :: "real option \<Rightarrow> real \<Rightarrow> real" where
  "or_number x d = (case x of None \<Rightarrow> d | Some v \<Rightarrow> if v = 0 then d else v)"

subsection \<open>JSON values and errors\<close>

text \<open>A value produced by \<^verbatim>\<open>JSON.parse\<close>. An object is the list of its own properties.\<close>

datatype json =
    JNull
  | JBool bool
  | JNum real
  | JStr jsstring
  | JArr "json list"
  | JObj "(jsstring \<times> json) list"

definition truthy :: "json \<Rightarrow> bool" where
  "truthy j =
     (case j of
        JNull \<Rightarrow> False
      | JBool b \<Rightarrow> b
      | JNum x \<Rightarrow> fl x \<noteq> 0
      | JStr s \<Rightarrow> s \<noteq> []
      | JArr _ \<Rightarrow> True
      | JObj _ \<Rightarrow> True)"

definition number_string :: "js_engine \<Rightarrow> real \<Rightarrow> jsstring" where
  "number_string E x =
     (if x = of_int \<lfloor>x\<rfloor> \<and> \<bar>x\<bar> < 10 ^ 21 then show_int \<lfloor>x\<rfloor> else number_text E x)"

text \<open>The elements of an array joined by commas; the conversion of one element may
  fail.\<close>

definition join_comma :: "jsstring option list \<Rightarrow> jsstring option" where
  "join_comma xs =
     (if list_all (\<lambda>x. x \<noteq> None) xs then Some (join_with (js '','') (map the xs)) else None)"

text \<open>The conversion of a value to a string, as done by \<^verbatim>\<open>new Error(v)\<close>. An array
  is the join of its elements, where \<^verbatim>\<open>null\<close> counts as the empty string. An object is
  \<^verbatim>\<open>[object Object]\<close>, unless it has a property \<^verbatim>\<open>toString\<close> of its own: a JSON value
  is never a function, so the conversion then finds no method that returns a primitive
  and raises a \<^verbatim>\<open>TypeError\<close> (\<^const>\<open>None\<close>).\<close>

fun to_string :: "js_engine \<Rightarrow> json \<Rightarrow> jsstring option" where
  "to_string E JNull = Some (js ''null'')"
| "to_string E (JBool b) = Some (if b then js ''true'' else js ''false'')"
| "to_string E (JNum x) = Some (number_string E (fl x))"
| "to_string E (JStr s) = Some s"
| "to_string E (JArr xs) =
     join_comma (map (\<lambda>x. if x = JNull then Some [] else to_string E x) xs)"
| "to_string E (JObj props) =
     (if map_of props (js ''toString'') = None then Some (js ''[object Object]'') else None)"

text \<open>A thrown value: an \<^verbatim>\<open>Error\<close> created by the program with the given message, a
  \<^verbatim>\<open>TypeError\<close> of the engine, or the error that \<^verbatim>\<open>fetch\<close> or \<^verbatim>\<open>response.json()\<close>
  rejected with (name and message).\<close>

datatype js_error =
    Error jsstring
  | TypeError engine_error
  | Rejection jsstring jsstring

definition error_name :: "js_error \<Rightarrow> jsstring" where
  "error_name e =
     (case e of Error _ \<Rightarrow> js ''Error'' | TypeError _ \<Rightarrow> js ''TypeError'' | Rejection n _ \<Rightarrow> n)"

definition error_message :: "js_engine \<Rightarrow> js_error \<Rightarrow> jsstring" where
  "error_message E e =
     (case e of Error m \<Rightarrow> m | TypeError k \<Rightarrow> type_error_text E k | Rejection _ m \<Rightarrow> m)"

text \<open>\<^verbatim>\<open>new Error(d || fallback)\<close> for a property \<open>d\<close> that may be absent.\<close>

definition new_Error_or :: "js_engine \<Rightarrow> json option \<Rightarrow> jsstring \<Rightarrow> js_error" where
  "new_Error_or E d fallback =
     (case d of
        None \<Rightarrow> Error fallback
      | Some j \<Rightarrow>
          if truthy j then
            (case to_string E j of
               Some s \<Rightarrow> Error s
             | None \<Rightarrow> TypeError CannotConvertToPrimitive)
          else Error fallback)"

subsection \<open>Configuration (config.js)\<close>

record config =
  API_BASE_URL :: jsstring
  API_TIMEOUT :: nat
  MAX_RETRIES :: nat
  USE_MOCK_DATA_FALLBACK :: bool
  ENABLE_LOGGING :: bool

definition CONFIG :: config where
  "CONFIG = \<lparr> API_BASE_URL = js ''https://insightforge-production-57a5.up.railway.app'',
              API_TIMEOUT = 30000,
              MAX_RETRIES = 2,
              USE_MOCK_DATA_FALLBACK = True,
              ENABLE_LOGGING = True \<rparr>"

text \<open>\<^verbatim>\<open>CONFIG.DEFAULT_SOURCES\<close>.\<close>

record default_sources =
  ds_catalog :: jsstring
  ds_reviews :: jsstring
  ds_pricing :: jsstring
  ds_competitors :: jsstring
  ds_performance_signals :: jsstring

definition DEFAULT_SOURCES :: default_sources where
  "DEFAULT_SOURCES = \<lparr> ds_catalog = js ''catalog.json'',
                       ds_reviews = js ''reviews.json'',
                       ds_pricing = js ''pricing.json'',
                       ds_competitors = js ''competitors.json'',
                       ds_performance_signals = js ''performance_signals.json'' \<rparr>"

subsection \<open>Source handles, briefs and payloads\<close>

text \<open>A source handle of a brief is either \<^verbatim>\<open>{ path: p }\<close> or an inline array of rows.\<close>

datatype 'r handle = Path jsstring | Inline 'r

record 'r data_sources =
  catalog :: "'r handle"
  reviews :: "'r handle"
  pricing :: "'r handle"
  competitors :: "'r handle"
  performance_signals :: "'r handle"

text \<open>The brief and the request body built by \<^verbatim>\<open>handleRunAnalysis\<close> (app.js).\<close>

record 'r brief =
  product_name :: jsstring
  scope_type :: jsstring
  business_goal :: jsstring
  scope_value :: jsstring
  mode :: jsstring
  marketplace :: jsstring
  region :: jsstring
  data_sources :: "'r data_sources"

record 'r apiPayload =
  brief :: "'r brief"
  update_memory :: bool
  memory_path :: jsstring
  source_base_dir :: jsstring
  output_path :: jsstring

text \<open>The JSON object the API answers with. The fields of the report have the types
  that the specification gives them (section 6); \<open>detail\<close>, the field of an error
  body, is any JSON value when present.\<close>

datatype report_field = ReportText jsstring | ReportLines "jsstring list"

record api_result =
  detail :: "json option"
  report :: "report_field option"
  confidence_score :: "real option"
  data_completeness :: "real option"
  risks :: "jsstring list option"
  recommendations :: "jsstring list option"
  result_mode :: "jsstring option"

definition empty_object :: api_result where
  "empty_object = \<lparr> detail = None, report = None, confidence_score = None,
                    data_completeness = None, risks = None, recommendations = None,
                    result_mode = None \<rparr>"

text \<open>What a JSON body parses to: \<^verbatim>\<open>null\<close>, an object, or a value of another kind, on
  which every property that the dashboards read is absent.\<close>

datatype response_data =
    Null
  | Object api_result
  | Boolean bool
  | Number real
  | Text jsstring
  | Array "json list"

text \<open>\<^verbatim>\<open>data.detail\<close>.\<close>

definition get_detail :: "response_data \<Rightarrow> js_error + json option" where
  "get_detail data =
     (case data of
        Null \<Rightarrow> Inl (TypeError (ReadPropertyOfNull (js ''detail'')))
      | Object obj \<Rightarrow> Inr (detail obj)
      | _ \<Rightarrow> Inr None)"

text \<open>An HTTP response: \<open>body\<close> is what \<^verbatim>\<open>response.json()\<close> resolves to, or the
  message of the \<^verbatim>\<open>SyntaxError\<close> it rejects with when the body is not JSON.\<close>

record http_response =
  ok :: bool
  http_status :: nat
  body :: "jsstring + response_data"

text \<open>What \<^verbatim>\<open>fetch\<close> settles to: a response, or a rejection with an error of
  the given name and message.\<close>

datatype fetch_outcome = Responded http_response | Rejected jsstring jsstring

text \<open>When a promise settles: after so many milliseconds with a value, or never.\<close>

datatype 'a settles = SettlesAfter nat 'a | NeverSettles

text \<open>The behaviour of the network on one request: when \<^verbatim>\<open>fetch\<close> settles if nobody
  aborts it, and how long after the arrival of a response the reading of its body
  takes (\<^const>\<open>None\<close>: the body never ends).\<close>

record network_reply =
  fetch_settles :: "fetch_outcome settles"
  body_after :: "nat option"

subsection \<open>app.js: uploads\<close>

record js_file =
  file_name :: jsstring
  file_text :: jsstring

record 'r appState =
  isDashboardVisible :: bool
  analysisRunning :: bool
  uploadedFiles :: "js_file list"
  parsedData :: "(jsstring \<times> 'r) list"

text \<open>The key of \<^verbatim>\<open>appState.parsedData\<close> that the \<^verbatim>\<open>complete\<close> callback of
  \<^verbatim>\<open>handleFiles\<close> assigns the rows of a file to.\<close>

definition handleFiles_key :: "js_engine \<Rightarrow> jsstring \<Rightarrow> jsstring" where
  "handleFiles_key E name =
     (if includes_str (toLowerCase E name) (js ''review'') then js ''reviews''
      else if includes_str (toLowerCase E name) (js ''price'')
               \<or> includes_str (toLowerCase E name) (js ''pricing'')
        then js ''pricing''
      else js ''catalog'')"

text \<open>\<^verbatim>\<open>handleFiles\<close>. \<open>papa\<close> is PapaParse (an external library): \<^const>\<open>None\<close> when
  it is not loaded, otherwise the function from a file to its parsed rows. The
  \<^verbatim>\<open>complete\<close> callbacks are taken in the order of the files.\<close>

definition handleFiles ::
  "js_engine \<Rightarrow> (js_file \<Rightarrow> 'r) option \<Rightarrow> js_file list \<Rightarrow> 'r appState \<Rightarrow> 'r appState" where
  "handleFiles E papa fs st =
     (case papa of
        None \<Rightarrow> st\<lparr> uploadedFiles := fs \<rparr>
      | Some parse \<Rightarrow>
          st\<lparr> uploadedFiles := fs,
              parsedData :=
                foldl (\<lambda>pd f. AList.update (handleFiles_key E (file_name f)) (parse f) pd) [] fs \<rparr>)"

subsection \<open>app.js: running an analysis\<close>

text \<open>What \<^verbatim>\<open>handleRunAnalysis\<close> reads from the page. A field is \<^const>\<open>None\<close> when the
  element is missing or, for the radio groups, when no button is checked.\<close>

record form_inputs =
  productInput :: "jsstring option"
  goal_checked :: "jsstring option"
  mode_checked :: "jsstring option"
  marketplace_input :: "jsstring option"
  region_input :: "jsstring option"
  dataMode_checked :: "jsstring option"

definition or_handle :: "'r option \<Rightarrow> 'r handle \<Rightarrow> 'r handle" where
  "or_handle rows h = (case rows of Some r \<Rightarrow> Inline r | None \<Rightarrow> h)"

definition default_data_sources :: "'r data_sources" where
  "default_data_sources =
     \<lparr> catalog = Path (js ''catalog.json''),
       reviews = Path (js ''reviews.json''),
       pricing = Path (js ''pricing.json''),
       competitors = Path (js ''competitors.json''),
       performance_signals = Path (js ''performance_signals.json'') \<rparr>"

text \<open>The body of the \<^verbatim>\<open>try\<close> block of \<^verbatim>\<open>handleRunAnalysis\<close> up to the call of
  \<^verbatim>\<open>callAPI\<close>; \<open>p\<close> is the trimmed product input. Parsed rows are arrays, hence truthy.\<close>

definition build_brief :: "js_engine \<Rightarrow> jsstring \<Rightarrow> form_inputs \<Rightarrow> 'r appState \<Rightarrow> 'r brief" where
  "build_brief E p inp st =
     (let ds = default_data_sources;
          isCustomMode = (dataMode_checked inp = Some (js ''custom''));
          pd = parsedData st;
          ds' = (if isCustomMode \<and> pd \<noteq> [] then
                   ds\<lparr> catalog := or_handle (map_of pd (js ''catalog'')) (catalog ds),
                       reviews := or_handle (map_of pd (js ''reviews'')) (reviews ds),
                       pricing := or_handle (map_of pd (js ''pricing'')) (pricing ds) \<rparr>
                 else ds)
      in \<lparr> product_name = p,
           scope_type = js ''SKU'',
           business_goal = or_str (goal_checked inp) (js ''growth''),
           scope_value = toUpperCase E p,
           mode = or_str (mode_checked inp) (js ''quick''),
           marketplace = or_str (marketplace_input inp) (js ''Amazon''),
           region = or_str (region_input inp) (js ''Global''),
           data_sources = ds' \<rparr>)"

definition build_payload ::
  "js_engine \<Rightarrow> jsstring \<Rightarrow> form_inputs \<Rightarrow> 'r appState \<Rightarrow> 'r apiPayload" where
  "build_payload E p inp st =
     \<lparr> brief = build_brief E p inp st,
       update_memory = False,
       memory_path = js ''data/domain_memory.json'',
       source_base_dir = js ''datasets/processed'',
       output_path = js ''out/api_report.md'' \<rparr>"

text \<open>The delay of the abort timer of \<^verbatim>\<open>callAPI\<close>: \<^verbatim>\<open>CONFIG.API_TIMEOUT || 30000\<close>.\<close>

definition callAPI_timeout :: "config \<Rightarrow> nat" where
  "callAPI_timeout cfg = (if API_TIMEOUT cfg = 0 then 30000 else API_TIMEOUT cfg)"

definition timeout_message :: jsstring where
  "timeout_message = js ''API request timed out (30s). The server might be busy or offline.''"

text \<open>What \<^verbatim>\<open>callAPI\<close> does with a response once its body has been read.\<close>

definition callAPI_response :: "js_engine \<Rightarrow> http_response \<Rightarrow> js_error + response_data" where
  "callAPI_response E r =
     (if \<not> ok r then
        (case get_detail (case body r of Inl _ \<Rightarrow> Object empty_object | Inr e \<Rightarrow> e) of
           Inl err \<Rightarrow> Inl err
         | Inr d \<Rightarrow> Inl (new_Error_or E d (js ''API Error: '' @ dec (http_status r))))
      else
        (case body r of
           Inl m \<Rightarrow> Inl (Rejection (js ''SyntaxError'') m)
         | Inr data \<Rightarrow> Inr data))"

text \<open>\<^verbatim>\<open>callAPI\<close>. The timer is armed before the request. If \<^verbatim>\<open>fetch\<close> has not settled
  when the timer fires, the request is aborted, \<^verbatim>\<open>fetch\<close> rejects with an
  \<^verbatim>\<open>AbortError\<close>, and the time-out message is thrown. If \<^verbatim>\<open>fetch\<close> settles first, the
  timer is cleared and plays no further part: the body is read without a bound.
  A settlement at the very instant of the timer counts as late.\<close>

definition callAPI ::
  "js_engine \<Rightarrow> config \<Rightarrow> network_reply \<Rightarrow> (js_error + response_data) settles" where
  "callAPI E cfg reply =
     (case fetch_settles reply of
        NeverSettles \<Rightarrow> SettlesAfter (callAPI_timeout cfg) (Inl (Error timeout_message))
      | SettlesAfter t outcome \<Rightarrow>
          if callAPI_timeout cfg \<le> t then
            SettlesAfter (callAPI_timeout cfg) (Inl (Error timeout_message))
          else
            (case outcome of
               Rejected name message \<Rightarrow>
                 SettlesAfter t
                   (Inl (if name = js ''AbortError'' then Error timeout_message
                         else Rejection name message))
             | Responded r \<Rightarrow>
                 (case body_after reply of
                    None \<Rightarrow> NeverSettles
                  | Some d \<Rightarrow> SettlesAfter (t + d) (callAPI_response E r))))"

text \<open>What \<^verbatim>\<open>displayResults\<close> writes into the results panel. A percentage text
  \<^verbatim>\<open>N%\<close> is a string; the width of the meter is kept as the number in front of the
  percent sign. \<^const>\<open>None\<close> in the last three fields means that the element is left
  as it was.\<close>

record results_panel =
  confidenceScore_text :: jsstring
  completenessScore_text :: jsstring
  completenessMeter_width :: real
  confidenceBadge_text :: jsstring
  riskList_items :: "jsstring list option"
  recommendations_items :: "jsstring list option"
  report_content :: "jsstring option"

text \<open>The badge of \<^verbatim>\<open>displayResults\<close>, on the 0..1 scale. The bounds are the doubles
  that the literals \<^verbatim>\<open>0.8\<close> and \<^verbatim>\<open>0.5\<close> denote.\<close>

definition displayResults_badge :: "real \<Rightarrow> jsstring" where
  "displayResults_badge conf =
     (if conf \<ge> fl 0.8 then js ''High'' else if conf \<ge> fl 0.5 then js ''Medium'' else js ''Low'')"

definition displayResults :: "js_engine \<Rightarrow> api_result \<Rightarrow> results_panel" where
  "displayResults E result =
     (let confidence = or_number (map_option fl (confidence_score result)) (fl 0.75);
          completeness = or_number (map_option fl (data_completeness result)) (fl 0.8)
      in \<lparr> confidenceScore_text =
             number_string E (of_int (Math_round (times_double confidence 100))) @ js ''%'',
           completenessScore_text =
             number_string E (of_int (Math_round (times_double completeness 100))) @ js ''%'',
           completenessMeter_width = times_double completeness 100,
           confidenceBadge_text = displayResults_badge confidence,
           riskList_items =
             (case risks result of
                None \<Rightarrow> None
              | Some rs \<Rightarrow> if rs = [] then None else Some (take 5 rs)),
           recommendations_items =
             (case recommendations result of
                None \<Rightarrow> None
              | Some rs \<Rightarrow> if rs = [] then None else Some (take 5 rs)),
           report_content =
             (case report result of
                None \<Rightarrow> None
              | Some (ReportText t) \<Rightarrow> if t = [] then None else Some t
              | Some (ReportLines ls) \<Rightarrow> Some (join_with [newline] ls)) \<rparr>)"

text \<open>\<^verbatim>\<open>displayResults\<close> on what \<^verbatim>\<open>callAPI\<close> returned: the first property read fails
  on \<^verbatim>\<open>null\<close>.\<close>

definition displayResults_of :: "js_engine \<Rightarrow> response_data \<Rightarrow> js_error + results_panel" where
  "displayResults_of E data =
     (case data of
        Null \<Rightarrow> Inl (TypeError (ReadPropertyOfNull (js ''confidence_score'')))
      | Object result \<Rightarrow> Inr (displayResults E result)
      | _ \<Rightarrow> Inr (displayResults E empty_object))"

text \<open>The visible outcome of one click on the run button: the request handed to
  \<^verbatim>\<open>fetch\<close> (if any), the toast (message and type), the status line, the results
  panel (if \<^verbatim>\<open>displayResults\<close> ran to its end), and the time in milliseconds after
  which the handler has finished (\<^const>\<open>None\<close>: it never does).\<close>

record 'r run_outcome =
  request :: "'r apiPayload option"
  toast :: "(jsstring \<times> jsstring) option"
  status_text :: "jsstring option"
  panel :: "results_panel option"
  finished_after :: "nat option"

definition run_failed :: "js_engine \<Rightarrow> 'r apiPayload \<Rightarrow> nat \<Rightarrow> js_error \<Rightarrow> 'r run_outcome" where
  "run_failed E apiPayload t err =
     \<lparr> request = Some apiPayload,
       toast = Some (error_message E err, js ''error''),
       status_text = Some (cross_mark @ js '' '' @ error_message E err),
       panel = None,
       finished_after = Some t \<rparr>"

text \<open>\<^verbatim>\<open>handleRunAnalysis\<close>; \<open>net\<close> is the network: how it behaves on a request
  body. All the elements of the page that the handler writes to are taken to exist.\<close>

definition handleRunAnalysis ::
  "js_engine \<Rightarrow> form_inputs \<Rightarrow> 'r appState \<Rightarrow> ('r apiPayload \<Rightarrow> network_reply) \<Rightarrow> 'r run_outcome" where
  "handleRunAnalysis E inp st net =
     (case map_option trim (productInput inp) of
        None \<Rightarrow>
          \<lparr> request = None, toast = Some (js ''Please enter a product name'', js ''error''),
            status_text = None, panel = None, finished_after = Some 0 \<rparr>
      | Some p \<Rightarrow>
          if p = [] then
            \<lparr> request = None, toast = Some (js ''Please enter a product name'', js ''error''),
              status_text = None, panel = None, finished_after = Some 0 \<rparr>
          else
            (let apiPayload = build_payload E p inp st in
             case callAPI E CONFIG (net apiPayload) of
               NeverSettles \<Rightarrow>
                 \<lparr> request = Some apiPayload, toast = None,
                   status_text = Some (js ''Running analysis...''), panel = None,
                   finished_after = None \<rparr>
             | SettlesAfter t (Inl err) \<Rightarrow> run_failed E apiPayload t err
             | SettlesAfter t (Inr data) \<Rightarrow>
                 (case displayResults_of E data of
                    Inl err \<Rightarrow> run_failed E apiPayload t err
                  | Inr shown \<Rightarrow>
                      \<lparr> request = Some apiPayload,
                        toast = Some (check_mark @ js '' Analysis complete!'', js ''success''),
                        status_text = Some (check_mark @ js '' Analysis complete!''),
                        panel = Some shown,
                        finished_after = Some t \<rparr>)))"

subsection \<open>api.js: the API client\<close>

text \<open>The request of \<^verbatim>\<open>runAnalysis(payload, apiKey, baseUrlOverride)\<close>.\<close>

record 'p analyze_request =
  rq_url :: jsstring
  rq_headers :: "(jsstring \<times> jsstring) list"
  rq_body :: 'p

definition runAnalysis_request ::
  "'p \<Rightarrow> jsstring option \<Rightarrow> jsstring option \<Rightarrow> 'p analyze_request" where
  "runAnalysis_request payload apiKey baseUrlOverride =
     \<lparr> rq_url = or_str baseUrlOverride (API_BASE_URL CONFIG) @ js ''/analyze'',
       rq_headers =
         (case apiKey of
            None \<Rightarrow> [(js ''Content-Type'', js ''application/json'')]
          | Some key \<Rightarrow>
              if key = [] then [(js ''Content-Type'', js ''application/json'')]
              else [(js ''Content-Type'', js ''application/json''), (js ''x-api-key'', key)]),
       rq_body = payload \<rparr>"

text \<open>\<^verbatim>\<open>runAnalysis\<close> of api.js, from the point where \<^verbatim>\<open>fetch\<close> has settled and the
  body has been read.\<close>

definition runAnalysis :: "js_engine \<Rightarrow> fetch_outcome \<Rightarrow> js_error + response_data" where
  "runAnalysis E outcome =
     (case outcome of
        Rejected name message \<Rightarrow> Inl (Rejection name message)
      | Responded response \<Rightarrow>
          (let data = (case body response of Inr d \<Rightarrow> d | Inl _ \<Rightarrow> Object empty_object) in
           if \<not> ok response then
             (case get_detail data of
                Inl err \<Rightarrow> Inl err
              | Inr d \<Rightarrow> Inl (new_Error_or E d (js ''Analysis failed'')))
           else Inr data))"

subsection \<open>Regular expressions\<close>

text \<open>
  The patterns of the dashboards use literals, the classes \<^verbatim>\<open>\s\<close>, \<^verbatim>\<open>\d\<close>,
  \<^verbatim>\<open>[A-Za-z]\<close> and \<^verbatim>\<open>.\<close>, the quantifiers \<^verbatim>\<open>*\<close>, \<^verbatim>\<open>+\<close> and \<^verbatim>\<open>*?\<close> on
  a class, optional non-capturing groups and capture groups, all under the flag
  \<^verbatim>\<open>i\<close>. The matcher follows the backtracking semantics of ECMAScript: a matcher takes
  the rest of the input, the captures so far and a continuation, and tries its
  alternatives in priority order until the continuation succeeds. The literals of the
  patterns are ASCII characters.
\<close>

datatype regex =
    Epsilon
  | Lit nat
  | Cls "nat \<Rightarrow> bool"
  | Seq regex regex
  | StarG "nat \<Rightarrow> bool"
  | StarL "nat \<Rightarrow> bool"
  | Opt regex
  | Grp nat regex

type_synonym captures = "nat \<Rightarrow> jsstring option"

fun rmatch :: "regex \<Rightarrow> jsstring \<Rightarrow> captures \<Rightarrow> (jsstring \<Rightarrow> captures \<Rightarrow> 'a option) \<Rightarrow> 'a option" where
  "rmatch Epsilon s caps k = k s caps"
| "rmatch (Lit c) s caps k =
     (case s of
        [] \<Rightarrow> None
      | d # ds \<Rightarrow> if ascii_upper d = ascii_upper c then k ds caps else None)"
| "rmatch (Cls p) s caps k =
     (case s of [] \<Rightarrow> None | d # ds \<Rightarrow> if p d then k ds caps else None)"
| "rmatch (Seq a b) s caps k = rmatch a s caps (\<lambda>s' caps'. rmatch b s' caps' k)"
| "rmatch (StarG p) s caps k =
     (case s of
        [] \<Rightarrow> k [] caps
      | d # ds \<Rightarrow>
          if p d then
            (case rmatch (StarG p) ds caps k of Some r \<Rightarrow> Some r | None \<Rightarrow> k s caps)
          else k s caps)"
| "rmatch (StarL p) s caps k =
     (case k s caps of
        Some r \<Rightarrow> Some r
      | None \<Rightarrow>
          (case s of [] \<Rightarrow> None | d # ds \<Rightarrow> if p d then rmatch (StarL p) ds caps k else None))"
| "rmatch (Opt a) s caps k =
     (case rmatch a s caps k of Some r \<Rightarrow> Some r | None \<Rightarrow> k s caps)"
| "rmatch (Grp n a) s caps k =
     rmatch a s caps (\<lambda>s' caps'. k s' (caps'(n := Some (take (length s - length s') s))))"

text \<open>\<^verbatim>\<open>c+\<close> is \<^verbatim>\<open>cc*\<close>; a literal string is the sequence of its characters.\<close>

definition PlusG :: "(nat \<Rightarrow> bool) \<Rightarrow> regex" where
  "PlusG p = Seq (Cls p) (StarG p)"

fun Str :: "jsstring \<Rightarrow> regex" where
  "Str [] = Epsilon"
| "Str (c # cs) = Seq (Lit c) (Str cs)"

text \<open>An attempt to match at the start of \<open>s\<close>: the captures of the match, or
  \<^const>\<open>None\<close>.\<close>

definition match_at :: "regex \<Rightarrow> jsstring \<Rightarrow> captures option" where
  "match_at re s = rmatch re s (\<lambda>_. None) (\<lambda>_ caps. Some caps)"

text \<open>\<^verbatim>\<open>text.match(re)\<close> for a pattern without the flag \<^verbatim>\<open>g\<close>: the match at the
  leftmost position where one exists; the result is the captures, or \<^const>\<open>None\<close> for
  \<^verbatim>\<open>null\<close>.\<close>

fun str_match :: "regex \<Rightarrow> jsstring \<Rightarrow> captures option" where
  "str_match re s =
     (case match_at re s of
        Some caps \<Rightarrow> Some caps
      | None \<Rightarrow> (case s of [] \<Rightarrow> None | _ # rest \<Rightarrow> str_match re rest))"

declare str_match.simps [simp del]

text \<open>The pattern matches at no position inside \<open>pre\<close> when \<open>pre\<close> is followed by
  \<open>rest\<close>.\<close>

fun no_match_in :: "regex \<Rightarrow> jsstring \<Rightarrow> jsstring \<Rightarrow> bool" where
  "no_match_in re [] rest = True"
| "no_match_in re (c # cs) rest =
     (Option.is_none (match_at re (c # cs @ rest)) \<and> no_match_in re cs rest)"

text \<open>\<^verbatim>\<open>/Confidence Score:\s*(\d+)%/i\<close> (ui.js and the wizard).\<close>

definition re_confidence :: regex where
  "re_confidence =
     Seq (Str (js ''Confidence Score:''))
       (Seq (StarG is_space) (Seq (Grp 1 (PlusG is_digit)) (Lit (cu CHR ''%''))))"

text \<open>\<^verbatim>\<open>/Data Completeness(?: Assessment)?:\s*([A-Za-z]+)(?:\s*\((\d+)%\))?/i\<close> (ui.js).\<close>

definition re_completeness :: regex where
  "re_completeness =
     Seq (Str (js ''Data Completeness''))
       (Seq (Opt (Str (js '' Assessment'')))
         (Seq (Lit (cu CHR '':''))
           (Seq (StarG is_space)
             (Seq (Grp 1 (PlusG is_alpha))
               (Opt (Seq (StarG is_space)
                      (Seq (Lit (cu CHR ''(''))
                        (Seq (Grp 2 (PlusG is_digit))
                          (Seq (Lit (cu CHR ''%'')) (Lit (cu CHR '')'')))))))))))"

text \<open>\<^verbatim>\<open>/Data Completeness.*?:\s*(\d+)%/i\<close> (the wizard).\<close>

definition re_completeness_wizard :: regex where
  "re_completeness_wizard =
     Seq (Str (js ''Data Completeness''))
       (Seq (StarL is_dot)
         (Seq (Lit (cu CHR '':''))
           (Seq (StarG is_space) (Seq (Grp 1 (PlusG is_digit)) (Lit (cu CHR ''%''))))))"

subsection \<open>ui.js: reading the scores out of the report\<close>

record meta =
  confidence :: "nat option"
  completenessLabel :: "jsstring option"
  completenessScore :: "nat option"

text \<open>\<^verbatim>\<open>extractMeta\<close>. A capture group that took part in a match of \<^verbatim>\<open>\d+\<close> holds a
  non-empty string of digits, hence a truthy one.\<close>

definition extractMeta :: "jsstring \<Rightarrow> meta" where
  "extractMeta report_text =
     (let confidenceMatch = str_match re_confidence report_text;
          completenessMatch = str_match re_completeness report_text
      in \<lparr> confidence =
             (case confidenceMatch of
                None \<Rightarrow> None
              | Some g \<Rightarrow> map_option Number_digits (g 1)),
           completenessLabel =
             (case completenessMatch of None \<Rightarrow> None | Some g \<Rightarrow> g 1),
           completenessScore =
             (case completenessMatch of
                None \<Rightarrow> None
              | Some g \<Rightarrow>
                  (case g 2 of
                     None \<Rightarrow> None
                   | Some ds \<Rightarrow> if ds = [] then None else Some (Number_digits ds))) \<rparr>)"

text \<open>The label of \<^verbatim>\<open>scoreToBadge\<close>, on the 0..100 scale.\<close>

definition scoreToBadge :: "real \<Rightarrow> jsstring" where
  "scoreToBadge score =
     (if score \<ge> 75 then js ''High'' else if score \<ge> 50 then js ''Medium'' else js ''Low'')"

subsection \<open>The wizard: the data sources of the brief\<close>

text \<open>\<^verbatim>\<open>state.formData\<close>.\<close>

record formData =
  fd_product :: jsstring
  fd_marketplace :: jsstring
  fd_mode :: jsstring
  fd_goal :: jsstring
  fd_dataMode :: jsstring
  fd_files :: "js_file list"

definition initial_formData :: formData where
  "initial_formData =
     \<lparr> fd_product = [], fd_marketplace = [], fd_mode = js ''quick'', fd_goal = js ''growth'',
       fd_dataMode = js ''sample'', fd_files = [] \<rparr>"

text \<open>A parsed row is an object from the trimmed header names to the cells; a cell
  missing in a short row is \<^verbatim>\<open>undefined\<close>.\<close>

type_synonym csv_row = "(jsstring \<times> jsstring option) list"

definition nth_opt :: "'a list \<Rightarrow> nat \<Rightarrow> 'a option" where
  "nth_opt xs i = (if i < length xs then Some (xs ! i) else None)"

definition csv_object :: "jsstring list \<Rightarrow> jsstring list \<Rightarrow> csv_row" where
  "csv_object headers row =
     foldl (\<lambda>obj (i, h). AList.update (trim h) (nth_opt row i) obj) [] (enumerate 0 headers)"

text \<open>The in-line parser of \<^verbatim>\<open>runAnalysis()\<close>; \<open>rows\<close> is never empty.\<close>

definition csv_data :: "jsstring \<Rightarrow> csv_row list" where
  "csv_data content =
     (let rows = map (split_on (cu CHR '','')) (split_on newline content) in
      case rows of [] \<Rightarrow> [] | headers # rest \<Rightarrow> map (csv_object headers) rest)"

definition fileData_of :: "js_file list \<Rightarrow> (jsstring \<times> csv_row list) list" where
  "fileData_of fs =
     foldl (\<lambda>fileData f.
              AList.update (replace_first (js ''.csv'') [] (file_name f)) (csv_data (file_text f))
                fileData)
       [] fs"

text \<open>The data sources that the body of \<^verbatim>\<open>runAnalysis()\<close> builds.\<close>

definition wizard_dataSources :: "formData \<Rightarrow> csv_row list data_sources" where
  "wizard_dataSources fd =
     (let dataSources =
            \<lparr> catalog = Path (ds_catalog DEFAULT_SOURCES),
              reviews = Path (ds_reviews DEFAULT_SOURCES),
              pricing = Path (ds_pricing DEFAULT_SOURCES),
              competitors = Path (ds_competitors DEFAULT_SOURCES),
              performance_signals = Path (ds_performance_signals DEFAULT_SOURCES) \<rparr>
      in if fd_dataMode fd = js ''upload'' \<and> fd_files fd \<noteq> [] then
           (let fileData = fileData_of (fd_files fd) in
            \<lparr> catalog = or_handle (map_of fileData (js ''catalog'')) (catalog dataSources),
              reviews = or_handle (map_of fileData (js ''reviews'')) (reviews dataSources),
              pricing = or_handle (map_of fileData (js ''pricing'')) (pricing dataSources),
              competitors =
                or_handle (map_of fileData (js ''competitors'')) (competitors dataSources),
              performance_signals =
                or_handle (map_of fileData (js ''performance''))
                  (performance_signals dataSources) \<rparr>)
         else dataSources)"

subsection \<open>The wizard: showing the results\<close>

record wizard_results =
  resultsTitle :: jsstring
  resultsSubtitle :: jsstring
  wr_confidenceScore :: "jsstring option"
  wr_confidenceBadge :: "jsstring option"
  wr_completenessScore :: "jsstring option"
  wr_completenessMeter :: "jsstring option"
  wr_report :: jsstring

text \<open>What is on the page when \<^verbatim>\<open>showResults\<close> throws: the title and the subtitle are
  already written.\<close>

record wizard_failure =
  failed_title :: jsstring
  failed_subtitle :: jsstring
  failure :: js_error

definition showResults_mode_label :: "jsstring \<Rightarrow> jsstring" where
  "showResults_mode_label mode_arg = (if mode_arg = js ''quick'' then js ''Quick'' else js ''Deep'')"

text \<open>The badge that \<^verbatim>\<open>showResults\<close> computes from the parsed score.\<close>

definition showResults_badge :: "real \<Rightarrow> jsstring" where
  "showResults_badge c =
     (if c \<ge> 75 then js ''High'' else if c \<ge> 50 then js ''Medium'' else js ''Low'')"

text \<open>\<^verbatim>\<open>showResults(result, product, mode)\<close>. When \<^verbatim>\<open>result.report\<close> is absent or
  an array, the call of \<^verbatim>\<open>match\<close> throws a \<^verbatim>\<open>TypeError\<close> after the title and the
  subtitle have been written. In a result, the fields that are \<^const>\<open>None\<close> are left as
  they were. The lists of risks and recommendations, which the function also fills, are
  not part of this model.\<close>

definition showResults ::
  "api_result \<Rightarrow> jsstring \<Rightarrow> jsstring \<Rightarrow> wizard_failure + wizard_results" where
  "showResults result product_arg mode_arg =
     (let title = sparkles @ js '' Analysis Complete'';
          subtitle = product_arg @ js '' '' @ bullet @ js '' '' @ showResults_mode_label mode_arg
                       @ js '' Analysis''
      in case report result of
        None \<Rightarrow>
          Inl \<lparr> failed_title = title, failed_subtitle = subtitle,
                failure = TypeError (ReadPropertyOfUndefined (js ''match'')) \<rparr>
      | Some (ReportLines _) \<Rightarrow>
          Inl \<lparr> failed_title = title, failed_subtitle = subtitle,
                failure = TypeError (NotAFunction (js ''match'')) \<rparr>
      | Some (ReportText text) \<Rightarrow>
          (let confidenceMatch = str_match re_confidence text;
               completenessMatch = str_match re_completeness_wizard text;
               conf = (case confidenceMatch of
                         None \<Rightarrow> None
                       | Some g \<Rightarrow> map_option Number_digits (g 1));
               compl = (case completenessMatch of
                          None \<Rightarrow> None
                        | Some g \<Rightarrow> map_option Number_digits (g 1))
           in Inr \<lparr> resultsTitle = title,
                    resultsSubtitle = subtitle,
                    wr_confidenceScore = map_option (\<lambda>c. dec c @ js ''%'') conf,
                    wr_confidenceBadge = map_option (\<lambda>c. showResults_badge (real c)) conf,
                    wr_completenessScore = map_option (\<lambda>c. dec c @ js ''%'') compl,
                    wr_completenessMeter = map_option (\<lambda>c. dec c @ js ''%'') compl,
                    wr_report = text \<rparr>))"

subsection \<open>Sample inputs\<close>

text \<open>The initial \<^verbatim>\<open>appState\<close> of app.js, a filled-in form in custom data mode, the
  same form in sample data mode, and the same form with a product field made of a space,
  a NO-BREAK SPACE and an IDEOGRAPHIC SPACE.\<close>

definition initial_appState :: "'r appState" where
  "initial_appState =
     \<lparr> isDashboardVisible = False, analysisRunning = False, uploadedFiles = [],
       parsedData = [] \<rparr>"

definition sample_inputs :: form_inputs where
  "sample_inputs =
     \<lparr> productInput = Some (js '' sku-472 ''), goal_checked = None,
       mode_checked = Some (js ''deep''), marketplace_input = Some (js ''Amazon''),
       region_input = Some [], dataMode_checked = Some (js ''custom'') \<rparr>"

definition builtin_data_inputs :: form_inputs where
  "builtin_data_inputs = sample_inputs\<lparr> dataMode_checked := Some (js ''sample'') \<rparr>"

definition blank_inputs :: form_inputs where
  "blank_inputs = sample_inputs\<lparr> productInput := Some [32, 160, 12288] \<rparr>"

text \<open>Networks: one that never answers, one that sends the head of a response after
  120 ms and then stalls, one that answers after 31 s, and one that sends a given
  response after 120 ms and its body 15 ms later.\<close>

definition never_answers :: "'p \<Rightarrow> network_reply" where
  "never_answers payload = \<lparr> fetch_settles = NeverSettles, body_after = None \<rparr>"

definition answers :: "http_response \<Rightarrow> 'p \<Rightarrow> network_reply" where
  "answers r payload = \<lparr> fetch_settles = SettlesAfter 120 (Responded r), body_after = Some 15 \<rparr>"

definition stalls_after_head :: "http_response \<Rightarrow> 'p \<Rightarrow> network_reply" where
  "stalls_after_head r payload =
     \<lparr> fetch_settles = SettlesAfter 120 (Responded r), body_after = None \<rparr>"

definition answers_late :: "http_response \<Rightarrow> 'p \<Rightarrow> network_reply" where
  "answers_late r payload =
     \<lparr> fetch_settles = SettlesAfter 31000 (Responded r), body_after = Some 15 \<rparr>"

text \<open>Responses of the API: an error whose \<^verbatim>\<open>detail\<close> is the empty string, an error
  with a message, a validation error whose \<^verbatim>\<open>detail\<close> is a list holding one object,
  an error whose \<^verbatim>\<open>detail\<close> is an object with a property \<^verbatim>\<open>toString\<close>, an error
  whose body is \<^verbatim>\<open>null\<close>, an error page that is not JSON, a server error, and two
  successes.\<close>

definition empty_detail_response :: http_response where
  "empty_detail_response =
     \<lparr> ok = False, http_status = 400,
       body = Inr (Object (empty_object\<lparr> detail := Some (JStr []) \<rparr>)) \<rparr>"

definition invalid_brief_response :: http_response where
  "invalid_brief_response =
     \<lparr> ok = False, http_status = 422,
       body = Inr (Object (empty_object\<lparr> detail := Some (JStr (js ''Invalid brief'')) \<rparr>)) \<rparr>"

definition validation_error :: json where
  "validation_error =
     JArr [JObj [(js ''loc'', JArr [JStr (js ''body''), JStr (js ''brief'')]),
                 (js ''msg'', JStr (js ''field required'')),
                 (js ''type'', JStr (js ''value_error.missing''))]]"

definition validation_error_response :: http_response where
  "validation_error_response =
     \<lparr> ok = False, http_status = 422,
       body = Inr (Object (empty_object\<lparr> detail := Some validation_error \<rparr>)) \<rparr>"

definition unprintable_detail_response :: http_response where
  "unprintable_detail_response =
     \<lparr> ok = False, http_status = 400,
       body = Inr (Object (empty_object
                \<lparr> detail := Some (JObj [(js ''toString'', JStr (js ''oops''))]) \<rparr>)) \<rparr>"

definition null_body_response :: http_response where
  "null_body_response = \<lparr> ok = False, http_status = 500, body = Inr Null \<rparr>"

definition gateway_error_response :: http_response where
  "gateway_error_response =
     \<lparr> ok = False, http_status = 502, body = Inl (js ''Unexpected token < in JSON'') \<rparr>"

definition server_error_response :: http_response where
  "server_error_response =
     \<lparr> ok = False, http_status = 500,
       body = Inr (Object (empty_object\<lparr> detail := Some (JStr (js ''Internal Server Error'')) \<rparr>)) \<rparr>"

definition zero_score_result :: api_result where
  "zero_score_result =
     empty_object\<lparr> report := Some (ReportText (js ''Confidence Score: 0%'')),
                   confidence_score := Some 0, data_completeness := Some 0,
                   result_mode := Some (js ''quick'') \<rparr>"

definition success_response :: http_response where
  "success_response = \<lparr> ok = True, http_status = 200, body = Inr (Object zero_score_result) \<rparr>"

definition garbled_success_response :: http_response where
  "garbled_success_response =
     \<lparr> ok = True, http_status = 200, body = Inl (js ''Unexpected end of JSON input'') \<rparr>"

text \<open>Uploaded files. \<open>sample_parse\<close> stands for PapaParse in the examples: any function
  of the file will do. The first two files have the same content.\<close>

definition sample_parse :: "js_file \<Rightarrow> csv_row list" where
  "sample_parse f = csv_data (file_text f)"

definition reviews_upload :: js_file where
  "reviews_upload =
     \<lparr> file_name = js ''reviews.csv'', file_text = js ''sku,rating'' @ [newline] @ js ''A1,5'' \<rparr>"

definition items_upload :: js_file where
  "items_upload =
     \<lparr> file_name = js ''items.csv'', file_text = js ''sku,rating'' @ [newline] @ js ''A1,5'' \<rparr>"

definition pricing_upload :: js_file where
  "pricing_upload =
     \<lparr> file_name = js ''pricing.csv'',
       file_text = js ''sku,our_price,competitor,competitor_price'' @ [newline]
         @ js ''A1,100,Acme,80'' \<rparr>"

definition catalog_upload :: js_file where
  "catalog_upload =
     \<lparr> file_name = js ''catalog.csv'',
       file_text = js ''sku,category,price,stock,features'' @ [newline]
         @ js ''A1,audio,100,7,anc'' \<rparr>"

definition competitors_upload :: js_file where
  "competitors_upload =
     \<lparr> file_name = js ''competitors.csv'',
       file_text = js ''competitor,competitor_sku,category,price,features'' @ [newline]
         @ js ''Acme,AC-1,audio,80,anc'' \<rparr>"

definition performance_upload :: js_file where
  "performance_upload =
     \<lparr> file_name = js ''performance.csv'',
       file_text = js ''sku,views,conversions,returns'' @ [newline] @ js ''A1,1000,20,5'' \<rparr>"

definition upload_formData :: "js_file list \<Rightarrow> formData" where
  "upload_formData fs =
     initial_formData\<lparr> fd_product := js ''sku-472'', fd_dataMode := js ''upload'',
                       fd_files := fs \<rparr>"

definition five_uploads :: "js_file list" where
  "five_uploads =
     [catalog_upload, reviews_upload, pricing_upload, competitors_upload, performance_upload]"

text \<open>The last section of a report with both scores written as bare percentages.\<close>

definition bare_scores_report :: jsstring where
  "bare_scores_report =
     js ''Confidence Score: 82%'' @ [newline] @ js ''Data Completeness: 80%''"

section \<open>Properties\<close>

subsection \<open>Strings\<close>

lemmas js_eval = js_def cu_def

lemma js_simps: "js [] = []" "js (c # cs) = cu c # js cs"
  by (simp_all add: js_def)

lemma js_append: "js (a @ b) = js a @ js b"
  by (simp add: js_def)

lemma js_Nil_iff [simp]: "js s = [] \<longleftrightarrow> s = []"
  by (simp add: js_def)

lemma all_dropWhile: "(\<forall>x\<in>set (dropWhile P v). P x) = (\<forall>x\<in>set v. P x)"
  by (induction v) auto

lemma trim_empty_iff: "trim v = [] \<longleftrightarrow> (\<forall>c\<in>set v. is_space c)"
proof -
  have "trim v = [] \<longleftrightarrow> (\<forall>c\<in>set (dropWhile is_space v). is_space c)"
    by (simp add: trim_def)
  then show ?thesis by (simp only: all_dropWhile)
qed

lemma trim_sample: "trim (js '' sku-472 '') = js ''sku-472''"
  by (simp add: trim_def is_space_def js_eval)

lemma trim_blank: "trim [32, 160, 12288] = []"
  by (simp add: trim_def is_space_def)

lemma upper_sample: "toUpperCase E (js ''sku-472'') = js ''SKU-472''"
  by (simp add: toUpperCase_def ascii_upper_def is_lower_def js_eval)

subsection \<open>Doubles\<close>

text \<open>The exponent found by the search, bounds on the rounded significand, and the
  doubles denoted by the literals of \<^verbatim>\<open>displayResults\<close> with their products by 100.\<close>

lemma pow2_mono: "a \<le> b \<Longrightarrow> pow2 a \<le> pow2 b"
  by (simp add: pow2_def power_int_increasing)

lemma pow2_pos: "0 < pow2 k"
  by (simp add: pow2_def)

lemma pow2_add: "pow2 (a + b) = pow2 a * pow2 b"
  by (simp add: pow2_def power_int_add)

lemma exp_search_range: "s - int fuel \<le> exp_search a s fuel \<and> exp_search a s fuel \<le> s"
proof (induction fuel arbitrary: s)
  case 0
  show ?case by simp
next
  case (Suc fuel)
  from Suc [of "s - 1"] show ?case by simp
qed

lemma exp_search_lower: "exp_search a s fuel = s - int fuel \<or> pow2 (exp_search a s fuel) \<le> a"
proof (induction fuel arbitrary: s)
  case 0
  show ?case by simp
next
  case (Suc fuel)
  from Suc [of "s - 1"] show ?case by (simp add: algebra_simps)
qed

lemma exp_search_upper: "exp_search a s fuel = s \<or> a < pow2 (exp_search a s fuel + 1)"
proof (induction fuel arbitrary: s)
  case 0
  show ?case by simp
next
  case (Suc fuel)
  show ?case
  proof (cases "pow2 s \<le> a")
    case True
    then show ?thesis by simp
  next
    case False
    with Suc [of "s - 1"] show ?thesis by auto
  qed
qed

lemma exponent_range: "- 1022 \<le> exponent x" "exponent x \<le> 1023"
  using exp_search_range [of 1023 2045 "\<bar>x\<bar>"] by (simp_all add: exponent_def)

lemma exponent_lower: "exponent x = - 1022 \<or> pow2 (exponent x) \<le> \<bar>x\<bar>"
  using exp_search_lower [of "\<bar>x\<bar>" 1023 2045] by (simp add: exponent_def)

lemma exponent_upper: "exponent x = 1023 \<or> \<bar>x\<bar> < pow2 (exponent x + 1)"
  using exp_search_upper [of "\<bar>x\<bar>" 1023 2045] by (simp add: exponent_def)

lemma round_even_cases: "round_even x = \<lfloor>x\<rfloor> \<or> (round_even x = \<lfloor>x\<rfloor> + 1 \<and> of_int \<lfloor>x\<rfloor> < x)"
  by (auto simp: round_even_def Let_def)

lemma round_even_ge: "of_int n \<le> x \<Longrightarrow> n \<le> round_even x"
proof -
  assume "of_int n \<le> x"
  then have "n \<le> \<lfloor>x\<rfloor>" by (simp add: le_floor_iff)
  with round_even_cases [of x] show ?thesis by auto
qed

lemma round_even_le: "x \<le> of_int n \<Longrightarrow> round_even x \<le> n"
proof -
  assume h: "x \<le> of_int n"
  then have f: "\<lfloor>x\<rfloor> \<le> n" by (simp add: floor_le_iff)
  from round_even_cases [of x] show ?thesis
  proof
    assume "round_even x = \<lfloor>x\<rfloor>"
    with f show ?thesis by simp
  next
    assume a: "round_even x = \<lfloor>x\<rfloor> + 1 \<and> of_int \<lfloor>x\<rfloor> < x"
    with h have "real_of_int \<lfloor>x\<rfloor> < of_int n" by linarith
    then have "\<lfloor>x\<rfloor> < n" by (simp only: of_int_less_iff)
    with a show ?thesis by simp
  qed
qed

lemma exp_search_eq:
  "e \<le> s \<Longrightarrow> nat (s - e) \<le> fuel \<Longrightarrow> pow2 e \<le> a \<Longrightarrow> a < pow2 (e + 1) \<Longrightarrow>
     exp_search a s fuel = e"
proof (induction fuel arbitrary: s)
  case 0
  then show ?case by simp
next
  case (Suc fuel)
  show ?case
  proof (cases "s = e")
    case True
    with Suc.prems show ?thesis by simp
  next
    case False
    with Suc.prems have lt: "e + 1 \<le> s" by simp
    then have "pow2 (e + 1) \<le> pow2 s" by (rule pow2_mono)
    with Suc.prems have "\<not> pow2 s \<le> a" by simp
    moreover have "exp_search a (s - 1) fuel = e"
      using Suc.prems lt by (intro Suc.IH) simp_all
    ultimately show ?thesis by simp
  qed
qed

lemma exponent_eq:
  "- 1022 \<le> e \<Longrightarrow> e \<le> 1023 \<Longrightarrow> pow2 e \<le> \<bar>x\<bar> \<Longrightarrow> \<bar>x\<bar> < pow2 (e + 1) \<Longrightarrow> exponent x = e"
  unfolding exponent_def by (rule exp_search_eq) simp_all

lemma fl_at:
  "- 1022 \<le> e \<Longrightarrow> e \<le> 1023 \<Longrightarrow> pow2 e \<le> \<bar>x\<bar> \<Longrightarrow> \<bar>x\<bar> < pow2 (e + 1) \<Longrightarrow>
     fl x = of_int (round_even (x / pow2 (e - 52))) * pow2 (e - 52)"
  by (simp add: fl_def exponent_eq Let_def)

lemma fl_zero: "fl 0 = 0"
  by (simp add: fl_def round_even_def Let_def)

lemma fl_three_quarters: "fl (3 / 4) = 3 / 4"
  by (subst fl_at [where e = "- 1"]) (simp_all add: pow2_def round_even_def Let_def)

lemma fl_half: "fl (1 / 2) = 1 / 2"
  by (subst fl_at [where e = "- 1"]) (simp_all add: pow2_def round_even_def Let_def)

lemma fl_four_fifths: "fl (4 / 5) = 7205759403792794 / 9007199254740992"
  by (subst fl_at [where e = "- 1"]) (simp_all add: pow2_def round_even_def Let_def)

lemma fl_literals:
  "fl 0.75 = 3 / 4" "fl 0.5 = 1 / 2" "fl 0.8 = 7205759403792794 / 9007199254740992"
  by (simp_all add: fl_three_quarters fl_half fl_four_fifths)

lemma times_75: "times_double (3 / 4) 100 = 75"
  unfolding times_double_def
  by (subst fl_at [where e = 6]) (simp_all add: pow2_def round_even_def Let_def)

lemma times_80: "times_double (7205759403792794 / 9007199254740992) 100 = 80"
  unfolding times_double_def
  by (subst fl_at [where e = 6]) (simp_all add: pow2_def round_even_def Let_def)

text \<open>No double lies between 0.8 and the double that the literal \<^verbatim>\<open>0.8\<close> denotes.\<close>

lemma double_threshold: "(fl (4 / 5) \<le> fl c) = (4 / 5 \<le> fl c)"
proof
  assume "fl (4 / 5) \<le> fl c"
  then show "4 / 5 \<le> fl c" by (simp add: fl_four_fifths)
next
  assume h: "4 / 5 \<le> fl c"
  let ?e = "exponent c"
  let ?u = "pow2 (?e - 52)"
  let ?k = "round_even (c / ?u)"
  have fl: "fl c = of_int ?k * ?u" by (simp add: fl_def Let_def)
  have u: "0 < ?u" by (rule pow2_pos)
  have kpos: "0 < ?k"
  proof (rule ccontr)
    assume "\<not> 0 < ?k"
    then have "real_of_int ?k \<le> 0" by simp
    with u have "real_of_int ?k * ?u \<le> 0" by (intro mult_nonpos_nonneg) simp_all
    with h fl show False by simp
  qed
  have cpos: "0 < c"
  proof (rule ccontr)
    assume "\<not> 0 < c"
    with u have "c / ?u \<le> of_int 0" by (simp add: divide_nonpos_pos)
    then have "?k \<le> 0" by (rule round_even_le)
    with kpos show False by simp
  qed
  consider "?e \<le> - 2" | "?e = - 1" | "0 \<le> ?e" by linarith
  then show "fl (4 / 5) \<le> fl c"
  proof cases
    case 1
    then have "?e \<noteq> 1023" by simp
    with exponent_upper [of c] cpos have "c < pow2 (?e + 1)" by simp
    also have "pow2 (?e + 1) = pow2 53 * ?u"
      using pow2_add [of 53 "?e - 52"] by (simp add: algebra_simps)
    finally have "c / ?u \<le> of_int (2 ^ 53)"
      using u by (simp add: pow2_def pos_divide_le_eq)
    then have "?k \<le> 2 ^ 53" by (rule round_even_le)
    then have "real_of_int ?k \<le> 2 ^ 53" by (metis of_int_le_iff of_int_numeral of_int_power)
    with u have "fl c \<le> 2 ^ 53 * ?u" by (simp add: fl)
    also have "2 ^ 53 * ?u = pow2 (?e + 1)"
      using pow2_add [of 53 "?e - 52"] by (simp add: algebra_simps pow2_def)
    also from 1 have "pow2 (?e + 1) \<le> pow2 (- 1)" by (intro pow2_mono) simp
    finally have "fl c \<le> 1 / 2" by (simp add: pow2_def)
    with h show ?thesis by simp
  next
    case 2
    with fl have k: "fl c = of_int ?k / 9007199254740992" by (simp add: pow2_def)
    with h have "real_of_int (?k * 5) \<ge> real_of_int 36028797018963968" by simp
    then have "?k * 5 \<ge> 36028797018963968" by (simp only: of_int_le_iff)
    then have "?k \<ge> 7205759403792794" by arith
    then have "real_of_int ?k \<ge> 7205759403792794" by linarith
    with k show ?thesis by (simp add: fl_four_fifths)
  next
    case 3
    with exponent_lower [of c] cpos have "pow2 ?e \<le> c" by simp
    moreover have "pow2 ?e = pow2 52 * ?u"
      using pow2_add [of 52 "?e - 52"] by simp
    ultimately have "of_int (2 ^ 52) \<le> c / ?u"
      using u by (simp add: pow2_def pos_le_divide_eq)
    then have "2 ^ 52 \<le> ?k" by (rule round_even_ge)
    then have "(2 ^ 52 :: real) \<le> real_of_int ?k" by (metis of_int_le_iff of_int_numeral of_int_power)
    with u have "2 ^ 52 * ?u \<le> fl c" by (simp add: fl)
    moreover have "2 ^ 52 * ?u = pow2 ?e"
      using pow2_add [of 52 "?e - 52"] by (simp add: pow2_def)
    moreover from 3 have "pow2 0 \<le> pow2 ?e" by (rule pow2_mono)
    ultimately have "1 \<le> fl c" by (simp add: pow2_def)
    then show ?thesis by (simp add: fl_four_fifths)
  qed
qed

lemma dec_samples:
  "dec 82 = js ''82''" "dec 80 = js ''80''" "dec 75 = js ''75''" "dec 0 = js ''0''"
  "dec 500 = js ''500''"
  by (simp_all add: dec.simps js_eval)

lemma number_string_nat: "n < 10 ^ 21 \<Longrightarrow> number_string E (of_int (int n)) = dec n"
  by (simp add: number_string_def show_int_def)

subsection \<open>Digits and character classes\<close>

text \<open>The decimal rendering consists of digits, is never empty, and is read back by
  \<open>Number_digits\<close>. The classes of digits, letters and white space are disjoint.\<close>

lemma dec_digits: "\<forall>c\<in>set (dec n). is_digit c"
proof (induction n rule: dec.induct)
  case (1 n)
  show ?case
  proof (cases "n < 10")
    case True
    then show ?thesis by (subst dec.simps) (simp add: is_digit_def)
  next
    case False
    with 1 have "\<forall>c\<in>set (dec (n div 10)). is_digit c" by simp
    moreover have "is_digit (48 + n mod 10)" by (simp add: is_digit_def)
    ultimately show ?thesis using False by (subst dec.simps) simp
  qed
qed

lemma dec_nonempty: "dec n \<noteq> []"
  by (subst dec.simps) simp

lemma Number_digits_snoc: "Number_digits (ds @ [c]) = 10 * Number_digits ds + digit_val c"
  by (simp add: Number_digits_def)

lemma Number_digits_dec: "Number_digits (dec n) = n"
proof (induction n rule: dec.induct)
  case (1 n)
  show ?case
  proof (cases "n < 10")
    case True
    then show ?thesis by (subst dec.simps) (simp add: Number_digits_def digit_val_def)
  next
    case False
    with 1 have "Number_digits (dec (n div 10)) = n div 10" by simp
    then have "Number_digits (dec (n div 10) @ [48 + n mod 10]) = n"
      by (simp add: Number_digits_snoc digit_val_def)
    with False show ?thesis by (subst dec.simps) simp
  qed
qed

lemma dec_inject: "dec a = dec b \<Longrightarrow> a = b"
  by (metis Number_digits_dec)

subsection \<open>Runs of the handler\<close>

text \<open>The handler on a form with a usable product value, by what \<^verbatim>\<open>callAPI\<close> does.\<close>

lemma run_with_product:
  assumes "productInput inp = Some v" "\<not> (\<forall>c\<in>set v. is_space c)"
  shows "handleRunAnalysis E inp st net =
     (let apiPayload = build_payload E (trim v) inp st in
      case callAPI E CONFIG (net apiPayload) of
        NeverSettles \<Rightarrow>
          \<lparr> request = Some apiPayload, toast = None,
            status_text = Some (js ''Running analysis...''), panel = None,
            finished_after = None \<rparr>
      | SettlesAfter t (Inl err) \<Rightarrow> run_failed E apiPayload t err
      | SettlesAfter t (Inr data) \<Rightarrow>
          (case displayResults_of E data of
             Inl err \<Rightarrow> run_failed E apiPayload t err
           | Inr shown \<Rightarrow>
               \<lparr> request = Some apiPayload,
                 toast = Some (check_mark @ js '' Analysis complete!'', js ''success''),
                 status_text = Some (check_mark @ js '' Analysis complete!''),
                 panel = Some shown,
                 finished_after = Some t \<rparr>))"
proof -
  from assms(2) have "trim v \<noteq> []" by (simp add: trim_empty_iff)
  with assms(1) show ?thesis by (simp add: handleRunAnalysis_def)
qed

lemma run_without_product:
  assumes "productInput inp = None \<or> (\<exists>v. productInput inp = Some v \<and> (\<forall>c\<in>set v. is_space c))"
  shows "handleRunAnalysis E inp st net =
     \<lparr> request = None, toast = Some (js ''Please enter a product name'', js ''error''),
       status_text = None, panel = None, finished_after = Some 0 \<rparr>"
  using assms by (auto simp: handleRunAnalysis_def trim_empty_iff)

lemma request_of_run:
  "productInput inp = Some v \<Longrightarrow> \<not> (\<forall>c\<in>set v. is_space c) \<Longrightarrow>
     request (handleRunAnalysis E inp st net) = Some (build_payload E (trim v) inp st)"
  by (simp add: run_with_product Let_def run_failed_def split: settles.splits sum.splits)

lemma callAPI_timed_out:
  "fetch_settles reply = NeverSettles
     \<or> (\<exists>t out. fetch_settles reply = SettlesAfter t out \<and> callAPI_timeout cfg \<le> t) \<Longrightarrow>
   callAPI E cfg reply = SettlesAfter (callAPI_timeout cfg) (Inl (Error timeout_message))"
  by (auto simp: callAPI_def)

lemma sample_product:
  "productInput sample_inputs = Some (js '' sku-472 '')"
  "\<not> (\<forall>c\<in>set (js '' sku-472 ''). is_space c)"
  by (simp_all add: sample_inputs_def is_space_def js_eval)

lemma blank_product:
  "productInput blank_inputs = Some [32, 160, 12288]" "\<forall>c\<in>set [32, 160, 12288]. is_space c"
  by (simp_all add: blank_inputs_def sample_inputs_def is_space_def)

lemma sample_run_timed_out:
  "handleRunAnalysis E sample_inputs initial_appState never_answers =
     \<lparr> request = Some (build_payload E (js ''sku-472'') sample_inputs initial_appState),
       toast = Some (timeout_message, js ''error''),
       status_text = Some (cross_mark @ js '' '' @ timeout_message),
       panel = None,
       finished_after = Some 30000 \<rparr>"
  by (simp add: handleRunAnalysis_def sample_inputs_def trim_sample Let_def never_answers_def
      callAPI_def callAPI_timeout_def CONFIG_def run_failed_def error_message_def)

subsection \<open>The memory flag of the payload\<close>

text \<open>
  Claim C7. Every payload that the run handler of app.js hands to \<^verbatim>\<open>fetch\<close> carries
  \<^verbatim>\<open>update_memory: false\<close>: whatever the form, the uploaded data and the network are,
  if \<^verbatim>\<open>handleRunAnalysis\<close> issues a request then its memory-update flag is off.
\<close>

theorem handleRunAnalysis_update_memory_off:
  "request (handleRunAnalysis E inp st net) = Some pl \<Longrightarrow> update_memory pl = False"
  by (auto simp: handleRunAnalysis_def build_payload_def Let_def run_failed_def
      split: option.splits if_splits sum.splits settles.splits)

text \<open>The sample form issues a request, and its flag is off.\<close>

theorem handleRunAnalysis_update_memory_off_witness:
  "\<forall>E. request (handleRunAnalysis E sample_inputs (initial_appState :: unit appState) never_answers)
         = Some (build_payload E (js ''sku-472'') sample_inputs initial_appState)
       \<and> update_memory
           (build_payload E (js ''sku-472'') sample_inputs (initial_appState :: unit appState))
         = False"
proof
  fix E
  have h: "request (handleRunAnalysis E sample_inputs (initial_appState :: unit appState)
        never_answers)
     = Some (build_payload E (js ''sku-472'') sample_inputs initial_appState)"
    by (simp add: sample_run_timed_out)
  from handleRunAnalysis_update_memory_off [OF h] h
  show "request (handleRunAnalysis E sample_inputs (initial_appState :: unit appState)
          never_answers)
         = Some (build_payload E (js ''sku-472'') sample_inputs initial_appState)
       \<and> update_memory
           (build_payload E (js ''sku-472'') sample_inputs (initial_appState :: unit appState))
         = False"
    by simp
qed

subsection \<open>Defaults for falsy scores\<close>

lemma displayResults_fields:
  "confidenceScore_text (displayResults E r) =
     number_string E (of_int (Math_round
       (times_double (or_number (map_option fl (confidence_score r)) (fl 0.75)) 100))) @ js ''%''"
  "completenessScore_text (displayResults E r) =
     number_string E (of_int (Math_round
       (times_double (or_number (map_option fl (data_completeness r)) (fl 0.8)) 100))) @ js ''%''"
  "completenessMeter_width (displayResults E r) =
     times_double (or_number (map_option fl (data_completeness r)) (fl 0.8)) 100"
  "confidenceBadge_text (displayResults E r) =
     displayResults_badge (or_number (map_option fl (confidence_score r)) (fl 0.75))"
  by (simp_all add: displayResults_def Let_def)

lemma falsy_confidence:
  "confidence_score r = None \<or> confidence_score r = Some 0 \<Longrightarrow>
     or_number (map_option fl (confidence_score r)) (fl 0.75) = 3 / 4"
  using fl_three_quarters by (auto simp: or_number_def fl_zero)

lemma falsy_completeness:
  "data_completeness r = None \<or> data_completeness r = Some 0 \<Longrightarrow>
     or_number (map_option fl (data_completeness r)) (fl 0.8) = 7205759403792794 / 9007199254740992"
  using fl_four_fifths by (auto simp: or_number_def fl_zero)

lemma badge_three_quarters: "displayResults_badge (3 / 4) = js ''Medium''"
  using fl_four_fifths fl_half by (simp add: displayResults_badge_def)

lemma percent_texts:
  "number_string E (of_int (Math_round 75)) @ js ''%'' = js ''75%''"
  "number_string E (of_int (Math_round 80)) @ js ''%'' = js ''80%''"
  "js ''75%'' \<noteq> js ''0%''" "js ''80%'' \<noteq> js ''0%''"
  by (simp_all add: Math_round_def number_string_def show_int_def dec.simps js_eval)

text \<open>
  Claim C10. When the confidence score of the response is zero or absent,
  \<^verbatim>\<open>displayResults\<close> shows 75% and the badge of 0.75 (Medium); when the data
  completeness is zero or absent, it shows 80% and sets the meter to 80%. Hence a
  reported score of zero is never shown as 0%.
\<close>

theorem displayResults_falsy_defaults:
  "(confidence_score r = None \<or> confidence_score r = Some 0 \<longrightarrow>
      confidenceScore_text (displayResults E r) = js ''75%''
      \<and> confidenceBadge_text (displayResults E r) = displayResults_badge 0.75
      \<and> confidenceBadge_text (displayResults E r) = js ''Medium''
      \<and> confidenceScore_text (displayResults E r) \<noteq> js ''0%'')
   \<and> (data_completeness r = None \<or> data_completeness r = Some 0 \<longrightarrow>
      completenessScore_text (displayResults E r) = js ''80%''
      \<and> completenessMeter_width (displayResults E r) = 80
      \<and> completenessScore_text (displayResults E r) \<noteq> js ''0%'')"
proof (intro conjI impI)
  assume h: "confidence_score r = None \<or> confidence_score r = Some 0"
  show "confidenceScore_text (displayResults E r) = js ''75%''"
    by (simp only: displayResults_fields falsy_confidence [OF h] times_75 percent_texts)
  then show "confidenceScore_text (displayResults E r) \<noteq> js ''0%''"
    by (simp only: percent_texts) simp
  show "confidenceBadge_text (displayResults E r) = displayResults_badge 0.75"
    by (simp only: displayResults_fields falsy_confidence [OF h]) simp
  show "confidenceBadge_text (displayResults E r) = js ''Medium''"
    by (simp only: displayResults_fields falsy_confidence [OF h] badge_three_quarters)
next
  assume h: "data_completeness r = None \<or> data_completeness r = Some 0"
  show "completenessScore_text (displayResults E r) = js ''80%''"
    by (simp only: displayResults_fields falsy_completeness [OF h] times_80 percent_texts)
  then show "completenessScore_text (displayResults E r) \<noteq> js ''0%''"
    by (simp only: percent_texts) simp
  show "completenessMeter_width (displayResults E r) = 80"
    by (simp only: displayResults_fields falsy_completeness [OF h] times_80)
qed

text \<open>A response reporting zero for both scores, and the empty object.\<close>

theorem displayResults_falsy_defaults_witness:
  "\<forall>E. confidence_score zero_score_result = Some 0
   \<and> data_completeness zero_score_result = Some 0
   \<and> confidenceScore_text (displayResults E zero_score_result) = js ''75%''
   \<and> completenessScore_text (displayResults E zero_score_result) = js ''80%''
   \<and> confidence_score empty_object = None
   \<and> data_completeness empty_object = None
   \<and> confidenceBadge_text (displayResults E empty_object) = js ''Medium''
   \<and> completenessMeter_width (displayResults E empty_object) = 80"
proof
  fix E
  have z: "confidence_score zero_score_result = Some 0"
    "data_completeness zero_score_result = Some 0"
    by (simp_all add: zero_score_result_def empty_object_def)
  have e: "confidence_score empty_object = None" "data_completeness empty_object = None"
    by (simp_all add: empty_object_def)
  from displayResults_falsy_defaults [of zero_score_result E]
    displayResults_falsy_defaults [of empty_object E] z e
  show "confidence_score zero_score_result = Some 0
   \<and> data_completeness zero_score_result = Some 0
   \<and> confidenceScore_text (displayResults E zero_score_result) = js ''75%''
   \<and> completenessScore_text (displayResults E zero_score_result) = js ''80%''
   \<and> confidence_score empty_object = None
   \<and> data_completeness empty_object = None
   \<and> confidenceBadge_text (displayResults E empty_object) = js ''Medium''
   \<and> completenessMeter_width (displayResults E empty_object) = 80"
    by blast
qed

subsection \<open>The confidence badges\<close>

lemma badge_of_score:
  "confidence_score r = Some c \<Longrightarrow>
     confidenceBadge_text (displayResults E r) =
       displayResults_badge (if fl c = 0 then 3 / 4 else fl c)"
  by (simp add: displayResults_def Let_def or_number_def fl_three_quarters)

lemma labels_distinct:
  "js ''High'' \<noteq> js ''Medium''" "js ''High'' \<noteq> js ''Low''" "js ''Medium'' \<noteq> js ''Low''"
  "js ''Medium'' \<noteq> js ''High''" "js ''Low'' \<noteq> js ''High''" "js ''Low'' \<noteq> js ''Medium''"
  by (simp_all add: js_eval)

lemma displayResults_badge_double:
  "displayResults_badge (fl c) =
     (if 4 / 5 \<le> fl c then js ''High'' else if 1 / 2 \<le> fl c then js ''Medium''
      else js ''Low'')"
  using double_threshold [of c] fl_half by (simp add: displayResults_badge_def)

lemma showResults_badge_shown:
  assumes "showResults result p md = Inr v" "wr_confidenceScore v = Some (dec n @ js ''%'')"
  shows "wr_confidenceBadge v = Some (showResults_badge (real n))"
proof -
  from assms(1) obtain conf where
    c: "wr_confidenceScore v = map_option (\<lambda>c. dec c @ js ''%'') conf"
       "wr_confidenceBadge v = map_option (\<lambda>c. showResults_badge (real c)) conf"
    by (auto simp: showResults_def Let_def split: option.splits report_field.splits)
  with assms(2) obtain k where k: "conf = Some k" "dec k @ js ''%'' = dec n @ js ''%''"
    by (cases conf) auto
  then have "k = n" by (simp add: dec_inject)
  with c(2) k(1) show ?thesis by simp
qed

text \<open>
  Claim C8, as stated: the three badge classifiers agree on every confidence \<open>c\<close>
  between 0 and 1. They do not: for a response whose confidence score is 0.75 the badge
  of \<^verbatim>\<open>displayResults\<close> is Medium, while \<^verbatim>\<open>scoreToBadge\<close> and \<^verbatim>\<open>showResults\<close>
  give High for 75.
\<close>

theorem badges_differ_at_three_quarters:
  "\<forall>E. confidenceBadge_text (displayResults E (empty_object\<lparr> confidence_score := Some (3 / 4) \<rparr>))
         = js ''Medium''
       \<and> scoreToBadge (100 * (3 / 4)) = js ''High''
       \<and> showResults_badge (100 * (3 / 4)) = js ''High''"
proof
  fix E
  have "confidence_score (empty_object\<lparr> confidence_score := Some (3 / 4) \<rparr>) = Some (3 / 4)"
    by simp
  then have "confidenceBadge_text
      (displayResults E (empty_object\<lparr> confidence_score := Some (3 / 4) \<rparr>)) = js ''Medium''"
    by (simp add: badge_of_score [where c = "3 / 4"] fl_three_quarters badge_three_quarters)
  then show "confidenceBadge_text
         (displayResults E (empty_object\<lparr> confidence_score := Some (3 / 4) \<rparr>)) = js ''Medium''
       \<and> scoreToBadge (100 * (3 / 4)) = js ''High''
       \<and> showResults_badge (100 * (3 / 4)) = js ''High''"
    by (simp add: scoreToBadge_def showResults_badge_def)
qed

text \<open>
  Claim C8, amended. \<^verbatim>\<open>scoreToBadge\<close> and the badge of \<^verbatim>\<open>showResults\<close> agree on every
  score, and the badge that \<^verbatim>\<open>showResults\<close> puts next to a score of \<open>N%\<close> is the one
  of \<^verbatim>\<open>scoreToBadge\<close> for \<open>N\<close>. For a response with a confidence score, let \<open>c\<close> be
  the double that the program reads from it. The badge shown by \<^verbatim>\<open>displayResults\<close>
  equals theirs at \<open>100 c\<close> exactly when \<open>c\<close> is not zero and lies outside the interval
  from 0.75 (included) to 0.8 (excluded): a score of zero, like an absent one, is
  replaced by 0.75 and shown as Medium, where the two others give Low for 0.
\<close>

theorem badges_agree_outside_gap:
  "scoreToBadge s = showResults_badge s
   \<and> (showResults result p md = Inr v \<and> wr_confidenceScore v = Some (dec n @ js ''%'') \<longrightarrow>
        wr_confidenceBadge v = Some (scoreToBadge (real n)))
   \<and> (confidence_score r = Some x \<and> c = fl x \<longrightarrow>
        (confidenceBadge_text (displayResults E r) = scoreToBadge (100 * c))
          = (c \<noteq> 0 \<and> \<not> (3 / 4 \<le> c \<and> c < 4 / 5)))
   \<and> (confidence_score r = None \<or> confidence_score r = Some 0 \<longrightarrow>
        confidenceBadge_text (displayResults E r) = js ''Medium''
        \<and> scoreToBadge (100 * 0) = js ''Low'')"
proof (intro conjI impI)
  show a: "scoreToBadge s = showResults_badge s" for s
    by (simp add: scoreToBadge_def showResults_badge_def)
  show "wr_confidenceBadge v = Some (scoreToBadge (real n))"
    if "showResults result p md = Inr v \<and> wr_confidenceScore v = Some (dec n @ js ''%'')"
    using that showResults_badge_shown [of result p md v n] by (simp add: a)
  show "(confidenceBadge_text (displayResults E r) = scoreToBadge (100 * c))
          = (c \<noteq> 0 \<and> \<not> (3 / 4 \<le> c \<and> c < 4 / 5))"
    if h: "confidence_score r = Some x \<and> c = fl x"
  proof (cases "c = 0")
    case True
    with h have "confidenceBadge_text (displayResults E r) = js ''Medium''"
      by (simp add: badge_of_score [of r x] badge_three_quarters)
    with True show ?thesis by (simp add: scoreToBadge_def labels_distinct)
  next
    case False
    with h have "confidenceBadge_text (displayResults E r) = displayResults_badge (fl x)"
      by (simp add: badge_of_score [of r x])
    with h False show ?thesis
      by (auto simp: displayResults_badge_double scoreToBadge_def labels_distinct)
  qed
  show "confidenceBadge_text (displayResults E r) = js ''Medium''"
    if "confidence_score r = None \<or> confidence_score r = Some 0"
    by (simp only: displayResults_fields falsy_confidence [OF that] badge_three_quarters)
  show "scoreToBadge (100 * 0) = js ''Low''"
    by (simp add: scoreToBadge_def)
qed

text \<open>A report showing 82%, and responses with the scores 0.875 (High everywhere),
  0.78125 (Medium against High), 0 (Medium against Low) and no score (Medium).\<close>

theorem badges_agree_outside_gap_witness:
  "\<forall>E. scoreToBadge 90 = showResults_badge 90
   \<and> (\<exists>v. showResults (empty_object\<lparr> report := Some (ReportText (js ''Confidence Score: 82%'')) \<rparr>)
             (js ''SKU-472'') (js ''deep'') = Inr v
          \<and> wr_confidenceScore v = Some (dec 82 @ js ''%'')
          \<and> wr_confidenceBadge v = Some (scoreToBadge 82))
   \<and> confidenceBadge_text (displayResults E (empty_object\<lparr> confidence_score := Some (7 / 8) \<rparr>))
       = scoreToBadge (100 * (7 / 8))
   \<and> confidenceBadge_text (displayResults E (empty_object\<lparr> confidence_score := Some (25 / 32) \<rparr>))
       \<noteq> scoreToBadge (100 * (25 / 32))
   \<and> confidenceBadge_text (displayResults E (empty_object\<lparr> confidence_score := Some 0 \<rparr>))
       \<noteq> scoreToBadge (100 * 0)
   \<and> confidenceBadge_text (displayResults E empty_object) = js ''Medium''"
proof
  fix E
  let ?r = "\<lambda>c. empty_object\<lparr> confidence_score := Some c \<rparr>"
  let ?rep = "empty_object\<lparr> report := Some (ReportText (js ''Confidence Score: 82%'')) \<rparr>"
  have d1: "fl (7 / 8) = 7 / 8"
    by (subst fl_at [where e = "- 1"]) (simp_all add: pow2_def round_even_def Let_def)
  have d2: "fl (25 / 32) = 25 / 32"
    by (subst fl_at [where e = "- 1"]) (simp_all add: pow2_def round_even_def Let_def)
  have m: "str_match re_confidence (js ''Confidence Score: 82%'')
      = Some ((\<lambda>_. None)(1 := Some (js ''82'')))"
    by (subst str_match.simps)
      (simp add: match_at_def re_confidence_def js_eval ascii_upper_def is_lower_def
        is_space_def PlusG_def is_digit_def)
  have "\<exists>v. showResults ?rep (js ''SKU-472'') (js ''deep'') = Inr v
      \<and> wr_confidenceScore v = Some (dec 82 @ js ''%'')"
    by (simp add: showResults_def Let_def m)
      (simp add: Number_digits_def digit_val_def js_eval dec.simps)
  then obtain v where v: "showResults ?rep (js ''SKU-472'') (js ''deep'') = Inr v"
    "wr_confidenceScore v = Some (dec 82 @ js ''%'')"
    by blast
  note t = badges_agree_outside_gap [where E = E and result = ?rep and p = "js ''SKU-472''"
      and md = "js ''deep''" and v = v and n = 82]
  have r1: "scoreToBadge 90 = showResults_badge 90"
    by (rule t [where s = 90, THEN conjunct1])
  have "wr_confidenceBadge v = Some (scoreToBadge (real 82))"
    by (rule t [THEN conjunct2, THEN conjunct1, THEN mp]) (intro conjI v)
  with v have r2: "\<exists>v. showResults ?rep (js ''SKU-472'') (js ''deep'') = Inr v
          \<and> wr_confidenceScore v = Some (dec 82 @ js ''%'')
          \<and> wr_confidenceBadge v = Some (scoreToBadge 82)"
    by auto
  have u: "(confidenceBadge_text (displayResults E r) = scoreToBadge (100 * c))
          = (c \<noteq> 0 \<and> \<not> (3 / 4 \<le> c \<and> c < 4 / 5))"
    if "confidence_score r = Some c \<and> c = fl c" for r c
    using that
    by (rule badges_agree_outside_gap [THEN conjunct2, THEN conjunct2, THEN conjunct1, THEN mp])
  have "(confidenceBadge_text (displayResults E (?r (7 / 8))) = scoreToBadge (100 * (7 / 8)))
      = (7 / 8 \<noteq> (0::real) \<and> \<not> (3 / 4 \<le> (7 / 8 :: real) \<and> (7 / 8 :: real) < 4 / 5))"
    by (rule u) (simp add: d1)
  then have r3: "confidenceBadge_text (displayResults E (?r (7 / 8))) = scoreToBadge (100 * (7 / 8))"
    by simp
  have "(confidenceBadge_text (displayResults E (?r (25 / 32))) = scoreToBadge (100 * (25 / 32)))
      = (25 / 32 \<noteq> (0::real) \<and> \<not> (3 / 4 \<le> (25 / 32 :: real) \<and> (25 / 32 :: real) < 4 / 5))"
    by (rule u) (simp add: d2)
  then have r4: "confidenceBadge_text (displayResults E (?r (25 / 32)))
      \<noteq> scoreToBadge (100 * (25 / 32))"
    by simp
  have "(confidenceBadge_text (displayResults E (?r 0)) = scoreToBadge (100 * 0))
      = (0 \<noteq> (0::real) \<and> \<not> (3 / 4 \<le> (0 :: real) \<and> (0 :: real) < 4 / 5))"
    by (rule u) (simp add: fl_zero)
  then have r5: "confidenceBadge_text (displayResults E (?r 0)) \<noteq> scoreToBadge (100 * 0)"
    by simp
  have "confidenceBadge_text (displayResults E empty_object) = js ''Medium''
      \<and> scoreToBadge (100 * 0) = js ''Low''"
    by (rule badges_agree_outside_gap [THEN conjunct2, THEN conjunct2, THEN conjunct2, THEN mp])
      (simp add: empty_object_def)
  then have r6: "confidenceBadge_text (displayResults E empty_object) = js ''Medium''"
    by (rule conjunct1)
  show "scoreToBadge 90 = showResults_badge 90
   \<and> (\<exists>v. showResults ?rep (js ''SKU-472'') (js ''deep'') = Inr v
          \<and> wr_confidenceScore v = Some (dec 82 @ js ''%'')
          \<and> wr_confidenceBadge v = Some (scoreToBadge 82))
   \<and> confidenceBadge_text (displayResults E (?r (7 / 8))) = scoreToBadge (100 * (7 / 8))
   \<and> confidenceBadge_text (displayResults E (?r (25 / 32))) \<noteq> scoreToBadge (100 * (25 / 32))
   \<and> confidenceBadge_text (displayResults E (?r 0)) \<noteq> scoreToBadge (100 * 0)
   \<and> confidenceBadge_text (displayResults E empty_object) = js ''Medium''"
    by (intro conjI r1 r2 r3 r4 r5 r6)
qed

subsection \<open>The API client\<close>

lemma validation_error_text:
  "truthy validation_error" "to_string E validation_error = Some (js ''[object Object]'')"
  by (simp_all add: validation_error_def truthy_def join_comma_def join_with_def js_eval)

lemma runAnalysis_not_ok:
  "\<not> ok r \<Longrightarrow>
     runAnalysis E (Responded r) =
       (case get_detail (case body r of Inr d \<Rightarrow> d | Inl _ \<Rightarrow> Object empty_object) of
          Inl err \<Rightarrow> Inl err
        | Inr d \<Rightarrow> Inl (new_Error_or E d (js ''Analysis failed'')))"
  by (simp add: runAnalysis_def Let_def)

text \<open>
  Claim C9, as stated: when the status is not ok, the message of the error thrown by
  \<^verbatim>\<open>runAnalysis\<close> is the \<^verbatim>\<open>detail\<close> field of the body whenever that field is
  present. An error body whose \<^verbatim>\<open>detail\<close> is the empty string has the field, and the
  message is \<^verbatim>\<open>Analysis failed\<close>, not the empty string. An error body whose
  \<^verbatim>\<open>detail\<close> is a list holding one object has the field, and the message is the
  text \<^verbatim>\<open>[object Object]\<close>.
\<close>

theorem runAnalysis_empty_detail:
  "\<forall>E. \<not> ok empty_detail_response
   \<and> body empty_detail_response = Inr (Object (empty_object\<lparr> detail := Some (JStr []) \<rparr>))
   \<and> detail (empty_object\<lparr> detail := Some (JStr []) \<rparr>) = Some (JStr [])
   \<and> runAnalysis E (Responded empty_detail_response) = Inl (Error (js ''Analysis failed''))
   \<and> runAnalysis E (Responded empty_detail_response) \<noteq> Inl (Error [])
   \<and> \<not> ok validation_error_response
   \<and> body validation_error_response
       = Inr (Object (empty_object\<lparr> detail := Some validation_error \<rparr>))
   \<and> runAnalysis E (Responded validation_error_response) = Inl (Error (js ''[object Object]''))"
  by (simp add: runAnalysis_not_ok empty_detail_response_def validation_error_response_def
      get_detail_def new_Error_or_def truthy_def validation_error_text [unfolded truthy_def])

text \<open>
  Claim C9, amended. Given a response, \<^verbatim>\<open>runAnalysis\<close> throws exactly when its status
  is not ok. What it throws then depends on the body.
  \<^item> The body is an object whose \<^verbatim>\<open>detail\<close> is a non-empty string: an \<^verbatim>\<open>Error\<close>
    with that string as message.
  \<^item> The body is an object whose \<^verbatim>\<open>detail\<close> is another truthy value (a list, an
    object, \<^verbatim>\<open>true\<close>, a number other than zero): an \<^verbatim>\<open>Error\<close> whose message is the
    text of that value, or a \<^verbatim>\<open>TypeError\<close> when the value has no text.
  \<^item> The body is an object without \<^verbatim>\<open>detail\<close> or with a falsy one (\<^verbatim>\<open>null\<close>,
    \<^verbatim>\<open>false\<close>, zero, the empty string), or is not JSON, or is a JSON value other
    than an object and \<^verbatim>\<open>null\<close>: an \<^verbatim>\<open>Error\<close> with the message
    \<^verbatim>\<open>Analysis failed\<close>.
  \<^item> The body is \<^verbatim>\<open>null\<close>: the \<^verbatim>\<open>TypeError\<close> of reading \<^verbatim>\<open>detail\<close> from it.

  When the status is ok it returns the parsed body, and the empty object when the body
  is not JSON. A rejected \<^verbatim>\<open>fetch\<close> is passed on.
\<close>

theorem runAnalysis_outcomes:
  "((\<exists>e. runAnalysis E (Responded r) = Inl e) \<longleftrightarrow> \<not> ok r)
   \<and> (\<not> ok r \<and> body r = Inr (Object d) \<and> detail d = Some (JStr msg) \<and> msg \<noteq> [] \<longrightarrow>
        runAnalysis E (Responded r) = Inl (Error msg))
   \<and> (\<not> ok r \<and> body r = Inr (Object d) \<and> detail d = Some j \<and> truthy j
        \<and> to_string E j = Some s \<longrightarrow>
        runAnalysis E (Responded r) = Inl (Error s))
   \<and> (\<not> ok r \<and> body r = Inr (Object d) \<and> detail d = Some j \<and> truthy j
        \<and> to_string E j = None \<longrightarrow>
        runAnalysis E (Responded r) = Inl (TypeError CannotConvertToPrimitive))
   \<and> (\<not> ok r \<and> body r = Inr (Object d)
        \<and> (detail d = None \<or> (\<exists>f. detail d = Some f \<and> \<not> truthy f)) \<longrightarrow>
        runAnalysis E (Responded r) = Inl (Error (js ''Analysis failed'')))
   \<and> (\<not> ok r \<and> body r = Inr Null \<longrightarrow>
        runAnalysis E (Responded r) = Inl (TypeError (ReadPropertyOfNull (js ''detail''))))
   \<and> (\<not> ok r \<and> (body r = Inl e \<or> body r = Inr (Boolean b) \<or> body r = Inr (Number x)
                  \<or> body r = Inr (Text t) \<or> body r = Inr (Array xs)) \<longrightarrow>
        runAnalysis E (Responded r) = Inl (Error (js ''Analysis failed'')))
   \<and> (ok r \<and> body r = Inr data \<longrightarrow> runAnalysis E (Responded r) = Inr data)
   \<and> (ok r \<and> body r = Inl e \<longrightarrow> runAnalysis E (Responded r) = Inr (Object empty_object))
   \<and> runAnalysis E (Rejected name message) = Inl (Rejection name message)"
proof (intro conjI impI)
  show "(\<exists>e. runAnalysis E (Responded r) = Inl e) \<longleftrightarrow> \<not> ok r"
    by (auto simp: runAnalysis_def Let_def split: sum.splits)
  show "runAnalysis E (Responded r) = Inl (Error msg)"
    if "\<not> ok r \<and> body r = Inr (Object d) \<and> detail d = Some (JStr msg) \<and> msg \<noteq> []"
    using that by (simp add: runAnalysis_not_ok get_detail_def new_Error_or_def truthy_def)
  show "runAnalysis E (Responded r) = Inl (Error s)"
    if "\<not> ok r \<and> body r = Inr (Object d) \<and> detail d = Some j \<and> truthy j
        \<and> to_string E j = Some s"
    using that by (simp add: runAnalysis_not_ok get_detail_def new_Error_or_def)
  show "runAnalysis E (Responded r) = Inl (TypeError CannotConvertToPrimitive)"
    if "\<not> ok r \<and> body r = Inr (Object d) \<and> detail d = Some j \<and> truthy j
        \<and> to_string E j = None"
    using that by (simp add: runAnalysis_not_ok get_detail_def new_Error_or_def)
  show "runAnalysis E (Responded r) = Inl (Error (js ''Analysis failed''))"
    if "\<not> ok r \<and> body r = Inr (Object d)
        \<and> (detail d = None \<or> (\<exists>f. detail d = Some f \<and> \<not> truthy f))"
    using that by (auto simp: runAnalysis_not_ok get_detail_def new_Error_or_def)
  show "runAnalysis E (Responded r) = Inl (TypeError (ReadPropertyOfNull (js ''detail'')))"
    if "\<not> ok r \<and> body r = Inr Null"
    using that by (simp add: runAnalysis_not_ok get_detail_def)
  show "runAnalysis E (Responded r) = Inl (Error (js ''Analysis failed''))"
    if "\<not> ok r \<and> (body r = Inl e \<or> body r = Inr (Boolean b) \<or> body r = Inr (Number x)
                  \<or> body r = Inr (Text t) \<or> body r = Inr (Array xs))"
    using that
    by (auto simp: runAnalysis_not_ok get_detail_def new_Error_or_def empty_object_def)
  show "runAnalysis E (Responded r) = Inr data" if "ok r \<and> body r = Inr data"
    using that by (simp add: runAnalysis_def)
  show "runAnalysis E (Responded r) = Inr (Object empty_object)" if "ok r \<and> body r = Inl e"
    using that by (simp add: runAnalysis_def)
  show "runAnalysis E (Rejected name message) = Inl (Rejection name message)"
    by (simp add: runAnalysis_def)
qed

text \<open>One response for each case.\<close>

theorem runAnalysis_outcomes_witness:
  "\<forall>E. runAnalysis E (Responded invalid_brief_response) = Inl (Error (js ''Invalid brief''))
   \<and> runAnalysis E (Responded validation_error_response) = Inl (Error (js ''[object Object]''))
   \<and> runAnalysis E (Responded unprintable_detail_response)
       = Inl (TypeError CannotConvertToPrimitive)
   \<and> runAnalysis E (Responded empty_detail_response) = Inl (Error (js ''Analysis failed''))
   \<and> runAnalysis E (Responded null_body_response)
       = Inl (TypeError (ReadPropertyOfNull (js ''detail'')))
   \<and> runAnalysis E (Responded gateway_error_response) = Inl (Error (js ''Analysis failed''))
   \<and> runAnalysis E (Responded success_response) = Inr (Object zero_score_result)
   \<and> runAnalysis E (Responded garbled_success_response) = Inr (Object empty_object)"
proof
  fix E
  let ?u = "JObj [(js ''toString'', JStr (js ''oops''))]"
  let ?d4 = "empty_object\<lparr> detail := Some ?u \<rparr>"
  have b': "\<not> ok unprintable_detail_response \<and> body unprintable_detail_response = Inr (Object ?d4)
      \<and> detail ?d4 = Some ?u \<and> truthy ?u \<and> to_string E ?u = None"
    by (simp add: unprintable_detail_response_def truthy_def)
  let ?d1 = "empty_object\<lparr> detail := Some (JStr (js ''Invalid brief'')) \<rparr>"
  let ?d2 = "empty_object\<lparr> detail := Some validation_error \<rparr>"
  let ?d3 = "empty_object\<lparr> detail := Some (JStr []) \<rparr>"
  have a: "\<not> ok invalid_brief_response \<and> body invalid_brief_response = Inr (Object ?d1)
      \<and> detail ?d1 = Some (JStr (js ''Invalid brief'')) \<and> js ''Invalid brief'' \<noteq> []"
    by (simp add: invalid_brief_response_def)
  have b: "\<not> ok validation_error_response \<and> body validation_error_response = Inr (Object ?d2)
      \<and> detail ?d2 = Some validation_error \<and> truthy validation_error
      \<and> to_string E validation_error = Some (js ''[object Object]'')"
    by (simp add: validation_error_response_def validation_error_text)
  have c: "\<not> ok empty_detail_response \<and> body empty_detail_response = Inr (Object ?d3)
      \<and> (detail ?d3 = None \<or> (\<exists>f. detail ?d3 = Some f \<and> \<not> truthy f))"
    by (simp add: empty_detail_response_def truthy_def)
  have d: "\<not> ok null_body_response \<and> body null_body_response = Inr Null"
    by (simp add: null_body_response_def)
  have e: "\<not> ok gateway_error_response
      \<and> (body gateway_error_response = Inl (js ''Unexpected token < in JSON'')
          \<or> body gateway_error_response = Inr (Boolean True)
          \<or> body gateway_error_response = Inr (Number 0)
          \<or> body gateway_error_response = Inr (Text [])
          \<or> body gateway_error_response = Inr (Array []))"
    by (simp add: gateway_error_response_def)
  have f: "ok success_response \<and> body success_response = Inr (Object zero_score_result)"
    by (simp add: success_response_def)
  have g: "ok garbled_success_response
      \<and> body garbled_success_response = Inl (js ''Unexpected end of JSON input'')"
    by (simp add: garbled_success_response_def)
  note t = runAnalysis_outcomes [where E = E]
  have r1: "runAnalysis E (Responded invalid_brief_response) = Inl (Error (js ''Invalid brief''))"
    using a by (rule t [THEN conjunct2, THEN conjunct1, THEN mp])
  have r2: "runAnalysis E (Responded validation_error_response)
      = Inl (Error (js ''[object Object]''))"
    using b by (rule t [THEN conjunct2, THEN conjunct2, THEN conjunct1, THEN mp])
  have r2': "runAnalysis E (Responded unprintable_detail_response)
      = Inl (TypeError CannotConvertToPrimitive)"
    using b'
    by (rule t [THEN conjunct2, THEN conjunct2, THEN conjunct2, THEN conjunct1, THEN mp])
  have r3: "runAnalysis E (Responded empty_detail_response) = Inl (Error (js ''Analysis failed''))"
    using c
    by (rule t [THEN conjunct2, THEN conjunct2, THEN conjunct2, THEN conjunct2, THEN conjunct1,
          THEN mp])
  have r4: "runAnalysis E (Responded null_body_response)
      = Inl (TypeError (ReadPropertyOfNull (js ''detail'')))"
    using d
    by (rule t [THEN conjunct2, THEN conjunct2, THEN conjunct2, THEN conjunct2, THEN conjunct2,
          THEN conjunct1, THEN mp])
  have r5: "runAnalysis E (Responded gateway_error_response)
      = Inl (Error (js ''Analysis failed''))"
    using e
    by (rule t [THEN conjunct2, THEN conjunct2, THEN conjunct2, THEN conjunct2, THEN conjunct2,
          THEN conjunct2, THEN conjunct1, THEN mp])
  have r6: "runAnalysis E (Responded success_response) = Inr (Object zero_score_result)"
    using f
    by (rule t [THEN conjunct2, THEN conjunct2, THEN conjunct2, THEN conjunct2, THEN conjunct2,
          THEN conjunct2, THEN conjunct2, THEN conjunct1, THEN mp])
  have r7: "runAnalysis E (Responded garbled_success_response) = Inr (Object empty_object)"
    using g
    by (rule t [THEN conjunct2, THEN conjunct2, THEN conjunct2, THEN conjunct2, THEN conjunct2,
          THEN conjunct2, THEN conjunct2, THEN conjunct2, THEN conjunct1, THEN mp])
  show "runAnalysis E (Responded invalid_brief_response) = Inl (Error (js ''Invalid brief''))
   \<and> runAnalysis E (Responded validation_error_response) = Inl (Error (js ''[object Object]''))
   \<and> runAnalysis E (Responded unprintable_detail_response)
       = Inl (TypeError CannotConvertToPrimitive)
   \<and> runAnalysis E (Responded empty_detail_response) = Inl (Error (js ''Analysis failed''))
   \<and> runAnalysis E (Responded null_body_response)
       = Inl (TypeError (ReadPropertyOfNull (js ''detail'')))
   \<and> runAnalysis E (Responded gateway_error_response) = Inl (Error (js ''Analysis failed''))
   \<and> runAnalysis E (Responded success_response) = Inr (Object zero_score_result)
   \<and> runAnalysis E (Responded garbled_success_response) = Inr (Object empty_object)"
    by (intro conjI r1 r2 r2' r3 r4 r5 r6 r7)
qed

subsection \<open>Timeouts\<close>

text \<open>
  Claim C5, as stated: no call of \<^verbatim>\<open>callAPI\<close> blocks indefinitely, and a run whose
  request timed out falls back to a templated rendering of the structured data instead
  of failing. Neither holds. When the network never answers the request of the sample
  form, the timer aborts it and \<^verbatim>\<open>handleRunAnalysis\<close> shows the time-out message as
  an error and renders nothing into the results panel. When the head of a response
  arrives after 120 ms and its body never ends, the handler never finishes.
\<close>

theorem timed_out_run_renders_nothing:
  "\<forall>E. panel (handleRunAnalysis E sample_inputs (initial_appState :: unit appState)
            never_answers) = None
   \<and> toast (handleRunAnalysis E sample_inputs (initial_appState :: unit appState) never_answers)
       = Some (timeout_message, js ''error'')
   \<and> finished_after (handleRunAnalysis E sample_inputs (initial_appState :: unit appState)
        (stalls_after_head success_response)) = None"
proof
  fix E
  have a: "panel (handleRunAnalysis E sample_inputs (initial_appState :: unit appState)
      never_answers) = None"
    "toast (handleRunAnalysis E sample_inputs (initial_appState :: unit appState) never_answers)
       = Some (timeout_message, js ''error'')"
    by (simp_all add: sample_run_timed_out)
  have "callAPI E CONFIG (stalls_after_head success_response pl) = NeverSettles" for pl :: "unit apiPayload"
    by (simp add: stalls_after_head_def callAPI_def callAPI_timeout_def CONFIG_def)
  then have b: "finished_after (handleRunAnalysis E sample_inputs
      (initial_appState :: unit appState) (stalls_after_head success_response)) = None"
    by (simp add: run_with_product [OF sample_product] Let_def)
  show "panel (handleRunAnalysis E sample_inputs (initial_appState :: unit appState)
            never_answers) = None
   \<and> toast (handleRunAnalysis E sample_inputs (initial_appState :: unit appState) never_answers)
       = Some (timeout_message, js ''error'')
   \<and> finished_after (handleRunAnalysis E sample_inputs (initial_appState :: unit appState)
        (stalls_after_head success_response)) = None"
    by (intro conjI a b)
qed

text \<open>
  Claim C5, amended. \<^verbatim>\<open>callAPI\<close> arms an abort timer whose delay is the setting
  \<^verbatim>\<open>API_TIMEOUT\<close> of the configuration, or 30000 ms when that setting is zero; the
  shipped configuration sets 30000 ms.
  \<^item> If \<^verbatim>\<open>fetch\<close> has not settled when the timer fires, the request is aborted and
    \<^verbatim>\<open>callAPI\<close> throws the time-out message at that moment. The run handler then
    shows that message as an error toast and status and renders no result; it has
    finished after 30000 ms.
  \<^item> If \<^verbatim>\<open>fetch\<close> settles before, the timer is cleared. A rejection is passed on at
    once. After a response, the call lasts as long as the reading of the body, which
    may go beyond the delay of the timer, and it never ends when the body never does;
    the run handler then never finishes.
\<close>

theorem callAPI_abort_timer:
  "(fetch_settles reply = NeverSettles
      \<or> (\<exists>t out. fetch_settles reply = SettlesAfter t out
            \<and> (if API_TIMEOUT cfg = 0 then 30000 else API_TIMEOUT cfg) \<le> t) \<longrightarrow>
      callAPI E cfg reply =
        SettlesAfter (if API_TIMEOUT cfg = 0 then 30000 else API_TIMEOUT cfg)
          (Inl (Error timeout_message)))
   \<and> (fetch_settles reply = SettlesAfter t (Responded r)
        \<and> t < (if API_TIMEOUT cfg = 0 then 30000 else API_TIMEOUT cfg)
        \<and> body_after reply = Some d \<longrightarrow>
      callAPI E cfg reply = SettlesAfter (t + d) (callAPI_response E r))
   \<and> (fetch_settles reply = SettlesAfter t (Responded r)
        \<and> t < (if API_TIMEOUT cfg = 0 then 30000 else API_TIMEOUT cfg)
        \<and> body_after reply = None \<longrightarrow>
      callAPI E cfg reply = NeverSettles)
   \<and> (fetch_settles reply = SettlesAfter t (Rejected name message)
        \<and> t < (if API_TIMEOUT cfg = 0 then 30000 else API_TIMEOUT cfg)
        \<and> name \<noteq> js ''AbortError'' \<longrightarrow>
      callAPI E cfg reply = SettlesAfter t (Inl (Rejection name message)))
   \<and> API_TIMEOUT CONFIG = 30000
   \<and> (productInput inp = Some v \<and> \<not> (\<forall>c\<in>set v. is_space c)
        \<and> (fetch_settles (net (build_payload E (trim v) inp st)) = NeverSettles
            \<or> (\<exists>t out. fetch_settles (net (build_payload E (trim v) inp st)) = SettlesAfter t out
                  \<and> 30000 \<le> t)) \<longrightarrow>
      handleRunAnalysis E inp st net =
        \<lparr> request = Some (build_payload E (trim v) inp st),
          toast = Some (timeout_message, js ''error''),
          status_text = Some (cross_mark @ js '' '' @ timeout_message),
          panel = None,
          finished_after = Some 30000 \<rparr>)
   \<and> (productInput inp = Some v \<and> \<not> (\<forall>c\<in>set v. is_space c)
        \<and> fetch_settles (net (build_payload E (trim v) inp st)) = SettlesAfter t (Responded r)
        \<and> t < 30000 \<and> body_after (net (build_payload E (trim v) inp st)) = None \<longrightarrow>
      finished_after (handleRunAnalysis E inp st net) = None
      \<and> toast (handleRunAnalysis E inp st net) = None
      \<and> panel (handleRunAnalysis E inp st net) = None)"
proof (intro conjI impI)
  let ?T = "if API_TIMEOUT cfg = 0 then 30000 else API_TIMEOUT cfg"
  let ?pl = "build_payload E (trim v) inp st"
  have T: "callAPI_timeout cfg = ?T"
    by (simp add: callAPI_timeout_def)
  have C: "callAPI_timeout CONFIG = 30000"
    by (simp add: callAPI_timeout_def CONFIG_def)
  show "callAPI E cfg reply = SettlesAfter ?T (Inl (Error timeout_message))"
    if "fetch_settles reply = NeverSettles
      \<or> (\<exists>t out. fetch_settles reply = SettlesAfter t out \<and> ?T \<le> t)"
    using that callAPI_timed_out [of reply cfg E] by (simp only: T)
  show "callAPI E cfg reply = SettlesAfter (t + d) (callAPI_response E r)"
    if "fetch_settles reply = SettlesAfter t (Responded r) \<and> t < ?T \<and> body_after reply = Some d"
    using that by (simp add: callAPI_def T)
  show "callAPI E cfg reply = NeverSettles"
    if "fetch_settles reply = SettlesAfter t (Responded r) \<and> t < ?T \<and> body_after reply = None"
    using that by (simp add: callAPI_def T)
  show "callAPI E cfg reply = SettlesAfter t (Inl (Rejection name message))"
    if "fetch_settles reply = SettlesAfter t (Rejected name message) \<and> t < ?T
        \<and> name \<noteq> js ''AbortError''"
    using that by (simp add: callAPI_def T)
  show "API_TIMEOUT CONFIG = 30000"
    by (simp add: CONFIG_def)
  show "handleRunAnalysis E inp st net =
        \<lparr> request = Some ?pl, toast = Some (timeout_message, js ''error''),
          status_text = Some (cross_mark @ js '' '' @ timeout_message),
          panel = None, finished_after = Some 30000 \<rparr>"
    if h: "productInput inp = Some v \<and> \<not> (\<forall>c\<in>set v. is_space c)
        \<and> (fetch_settles (net ?pl) = NeverSettles
            \<or> (\<exists>t out. fetch_settles (net ?pl) = SettlesAfter t out \<and> 30000 \<le> t))"
  proof -
    from h have "callAPI E CONFIG (net ?pl) = SettlesAfter 30000 (Inl (Error timeout_message))"
      using callAPI_timed_out [of "net ?pl" CONFIG E] by (simp only: C)
    with h show ?thesis
      by (simp add: run_with_product Let_def run_failed_def error_message_def)
  qed
  show "finished_after (handleRunAnalysis E inp st net) = None"
    "toast (handleRunAnalysis E inp st net) = None"
    "panel (handleRunAnalysis E inp st net) = None"
    if h: "productInput inp = Some v \<and> \<not> (\<forall>c\<in>set v. is_space c)
        \<and> fetch_settles (net ?pl) = SettlesAfter t (Responded r)
        \<and> t < 30000 \<and> body_after (net ?pl) = None"
  proof -
    from h have "callAPI E CONFIG (net ?pl) = NeverSettles"
      by (simp add: callAPI_def C)
    with h show "finished_after (handleRunAnalysis E inp st net) = None"
      "toast (handleRunAnalysis E inp st net) = None"
      "panel (handleRunAnalysis E inp st net) = None"
      by (simp_all add: run_with_product Let_def)
  qed
qed

text \<open>A late answer under a delay of 5 s, no answer under a configuration without a
  delay, an answer in time, a stalled body, a network error, and the sample form on a
  network that never answers and on one that stalls.\<close>

theorem callAPI_abort_timer_witness:
  "\<forall>E. callAPI E (CONFIG\<lparr> API_TIMEOUT := 5000 \<rparr>)
         \<lparr> fetch_settles = SettlesAfter 6000 (Responded success_response), body_after = Some 15 \<rparr>
       = SettlesAfter 5000 (Inl (Error timeout_message))
   \<and> callAPI E (CONFIG\<lparr> API_TIMEOUT := 0 \<rparr>) (never_answers ())
       = SettlesAfter 30000 (Inl (Error timeout_message))
   \<and> callAPI E CONFIG (answers success_response ())
       = SettlesAfter 135 (callAPI_response E success_response)
   \<and> callAPI E CONFIG (stalls_after_head success_response ()) = NeverSettles
   \<and> callAPI E CONFIG
         \<lparr> fetch_settles = SettlesAfter 40 (Rejected (js ''TypeError'') (js ''Failed to fetch'')),
           body_after = None \<rparr>
       = SettlesAfter 40 (Inl (Rejection (js ''TypeError'') (js ''Failed to fetch'')))
   \<and> handleRunAnalysis E sample_inputs (initial_appState :: unit appState) never_answers
       = \<lparr> request = Some (build_payload E (js ''sku-472'') sample_inputs initial_appState),
           toast = Some (timeout_message, js ''error''),
           status_text = Some (cross_mark @ js '' '' @ timeout_message),
           panel = None,
           finished_after = Some 30000 \<rparr>
   \<and> finished_after (handleRunAnalysis E sample_inputs (initial_appState :: unit appState)
        (stalls_after_head success_response)) = None"
proof
  fix E
  let ?late = "\<lparr> fetch_settles = SettlesAfter 6000 (Responded success_response),
      body_after = Some 15 \<rparr>"
  let ?down = "\<lparr> fetch_settles = SettlesAfter 40 (Rejected (js ''TypeError'') (js ''Failed to fetch'')),
      body_after = None \<rparr>"
  let ?st = "initial_appState :: unit appState"
  let ?pl = "build_payload E (trim (js '' sku-472 '')) sample_inputs ?st"
  have r1: "callAPI E (CONFIG\<lparr> API_TIMEOUT := 5000 \<rparr>) ?late
      = SettlesAfter 5000 (Inl (Error timeout_message))"
    using callAPI_abort_timer [where reply = ?late and cfg = "CONFIG\<lparr> API_TIMEOUT := 5000 \<rparr>"
        and E = E, THEN conjunct1]
    by simp
  have r2: "callAPI E (CONFIG\<lparr> API_TIMEOUT := 0 \<rparr>) (never_answers ())
      = SettlesAfter 30000 (Inl (Error timeout_message))"
    using callAPI_abort_timer [where reply = "never_answers ()"
        and cfg = "CONFIG\<lparr> API_TIMEOUT := 0 \<rparr>" and E = E, THEN conjunct1]
    by (simp add: never_answers_def)
  have r3: "callAPI E CONFIG (answers success_response ())
      = SettlesAfter 135 (callAPI_response E success_response)"
    using callAPI_abort_timer [where reply = "answers success_response ()" and cfg = CONFIG
        and E = E and t = 120 and r = success_response and d = 15,
        THEN conjunct2, THEN conjunct1]
    by (simp add: answers_def CONFIG_def)
  have r4: "callAPI E CONFIG (stalls_after_head success_response ()) = NeverSettles"
    using callAPI_abort_timer [where reply = "stalls_after_head success_response ()"
        and cfg = CONFIG and E = E and t = 120 and r = success_response,
        THEN conjunct2, THEN conjunct2, THEN conjunct1]
    by (simp add: stalls_after_head_def CONFIG_def)
  have r5: "callAPI E CONFIG ?down
      = SettlesAfter 40 (Inl (Rejection (js ''TypeError'') (js ''Failed to fetch'')))"
    using callAPI_abort_timer [where reply = ?down and cfg = CONFIG and E = E and t = 40
        and name = "js ''TypeError''" and message = "js ''Failed to fetch''",
        THEN conjunct2, THEN conjunct2, THEN conjunct2, THEN conjunct1]
    by (simp add: CONFIG_def js_eval)
  note u = callAPI_abort_timer [where E = E and inp = sample_inputs and v = "js '' sku-472 ''"
      and st = ?st, THEN conjunct2, THEN conjunct2, THEN conjunct2, THEN conjunct2, THEN conjunct2]
  have "handleRunAnalysis E sample_inputs ?st never_answers
      = \<lparr> request = Some ?pl, toast = Some (timeout_message, js ''error''),
          status_text = Some (cross_mark @ js '' '' @ timeout_message),
          panel = None, finished_after = Some 30000 \<rparr>"
    by (rule u [THEN conjunct1, THEN mp]) (simp add: sample_product never_answers_def)
  then have r6: "handleRunAnalysis E sample_inputs ?st never_answers
      = \<lparr> request = Some (build_payload E (js ''sku-472'') sample_inputs initial_appState),
          toast = Some (timeout_message, js ''error''),
          status_text = Some (cross_mark @ js '' '' @ timeout_message),
          panel = None, finished_after = Some 30000 \<rparr>"
    by (simp only: trim_sample)
  have "finished_after (handleRunAnalysis E sample_inputs ?st (stalls_after_head success_response))
        = None
      \<and> toast (handleRunAnalysis E sample_inputs ?st (stalls_after_head success_response)) = None
      \<and> panel (handleRunAnalysis E sample_inputs ?st (stalls_after_head success_response)) = None"
    by (rule callAPI_abort_timer [where E = E and inp = sample_inputs
          and v = "js '' sku-472 ''" and st = ?st and t = 120 and r = success_response,
          THEN conjunct2, THEN conjunct2, THEN conjunct2, THEN conjunct2, THEN conjunct2,
          THEN conjunct2, THEN mp])
      (simp add: sample_product stalls_after_head_def)
  then have r7: "finished_after (handleRunAnalysis E sample_inputs ?st
      (stalls_after_head success_response)) = None"
    by (rule conjunct1)
  show "callAPI E (CONFIG\<lparr> API_TIMEOUT := 5000 \<rparr>) ?late
       = SettlesAfter 5000 (Inl (Error timeout_message))
   \<and> callAPI E (CONFIG\<lparr> API_TIMEOUT := 0 \<rparr>) (never_answers ())
       = SettlesAfter 30000 (Inl (Error timeout_message))
   \<and> callAPI E CONFIG (answers success_response ())
       = SettlesAfter 135 (callAPI_response E success_response)
   \<and> callAPI E CONFIG (stalls_after_head success_response ()) = NeverSettles
   \<and> callAPI E CONFIG ?down
       = SettlesAfter 40 (Inl (Rejection (js ''TypeError'') (js ''Failed to fetch'')))
   \<and> handleRunAnalysis E sample_inputs ?st never_answers
       = \<lparr> request = Some (build_payload E (js ''sku-472'') sample_inputs initial_appState),
           toast = Some (timeout_message, js ''error''),
           status_text = Some (cross_mark @ js '' '' @ timeout_message),
           panel = None,
           finished_after = Some 30000 \<rparr>
   \<and> finished_after (handleRunAnalysis E sample_inputs ?st
        (stalls_after_head success_response)) = None"
    by (intro conjI r1 r2 r3 r4 r5 r6 r7)
qed

subsection \<open>The missing scope\<close>

lemma server_error_run:
  "handleRunAnalysis E sample_inputs initial_appState (answers server_error_response) =
     \<lparr> request = Some (build_payload E (js ''sku-472'') sample_inputs initial_appState),
       toast = Some (js ''Internal Server Error'', js ''error''),
       status_text = Some (cross_mark @ js '' '' @ js ''Internal Server Error''),
       panel = None,
       finished_after = Some 135 \<rparr>"
proof -
  have "callAPI E CONFIG (answers server_error_response pl)
      = SettlesAfter 135 (Inl (Error (js ''Internal Server Error'')))" for pl :: "'a apiPayload"
    by (simp add: answers_def callAPI_def callAPI_timeout_def CONFIG_def callAPI_response_def
        server_error_response_def get_detail_def new_Error_or_def truthy_def)
  then show ?thesis
    by (simp add: run_with_product [OF sample_product] Let_def run_failed_def error_message_def
        trim_sample)
qed

text \<open>
  Claim C6, as stated: only a missing scope is a hard user-facing failure. It is not
  the only one: the sample form has a scope, its request is issued, and when the
  server answers with an error the run ends with an error message and no result.
\<close>

theorem failure_with_a_scope:
  "\<forall>E. productInput sample_inputs = Some (js '' sku-472 '')
   \<and> trim (js '' sku-472 '') = js ''sku-472''
   \<and> request (handleRunAnalysis E sample_inputs (initial_appState :: unit appState)
        (answers server_error_response))
       = Some (build_payload E (js ''sku-472'') sample_inputs initial_appState)
   \<and> toast (handleRunAnalysis E sample_inputs (initial_appState :: unit appState)
        (answers server_error_response))
       = Some (js ''Internal Server Error'', js ''error'')
   \<and> panel (handleRunAnalysis E sample_inputs (initial_appState :: unit appState)
        (answers server_error_response)) = None"
  by (simp add: server_error_run sample_product trim_sample)

text \<open>
  Claim C6, amended. In app.js a missing scope is a hard user-facing failure, and the
  only one that is raised before a request: \<^verbatim>\<open>handleRunAnalysis\<close> issues no request
  exactly when the product field is missing, empty or made of white space only, and it
  then shows the error toast \<^verbatim>\<open>Please enter a product name\<close> and no result. For every
  other product value it issues a request whose brief has the trimmed input as product
  name and its upper-case form as scope value. A request that fails (an error status, a
  rejected \<^verbatim>\<open>fetch\<close>, a time-out) is a user-facing failure as well: the message of
  the error is shown as an error toast, and no result is rendered.
\<close>

theorem missing_scope_is_rejected:
  "((request (handleRunAnalysis E inp st net) = None) =
      (productInput inp = None \<or> (\<exists>u. productInput inp = Some u \<and> (\<forall>c\<in>set u. is_space c))))
   \<and> (productInput inp = None \<or> (\<exists>u. productInput inp = Some u \<and> (\<forall>c\<in>set u. is_space c)) \<longrightarrow>
      toast (handleRunAnalysis E inp st net) = Some (js ''Please enter a product name'', js ''error'')
      \<and> panel (handleRunAnalysis E inp st net) = None)
   \<and> (productInput inp = Some v \<and> \<not> (\<forall>c\<in>set v. is_space c) \<longrightarrow>
      (\<exists>pl. request (handleRunAnalysis E inp st net) = Some pl
         \<and> product_name (brief pl) = trim v \<and> trim v \<noteq> []
         \<and> scope_value (brief pl) = toUpperCase E (trim v)))
   \<and> (productInput inp = Some v \<and> \<not> (\<forall>c\<in>set v. is_space c)
        \<and> callAPI E CONFIG (net (build_payload E (trim v) inp st)) = SettlesAfter t (Inl err) \<longrightarrow>
      toast (handleRunAnalysis E inp st net) = Some (error_message E err, js ''error'')
      \<and> panel (handleRunAnalysis E inp st net) = None)"
proof (intro conjI impI)
  let ?missing = "productInput inp = None
      \<or> (\<exists>u. productInput inp = Some u \<and> (\<forall>c\<in>set u. is_space c))"
  show "(request (handleRunAnalysis E inp st net) = None) = ?missing"
  proof (cases ?missing)
    case True
    then show ?thesis by (simp add: run_without_product)
  next
    case False
    then obtain u where "productInput inp = Some u" "\<not> (\<forall>c\<in>set u. is_space c)"
      by (cases "productInput inp") auto
    with False show ?thesis by (simp add: request_of_run)
  qed
  show "toast (handleRunAnalysis E inp st net) = Some (js ''Please enter a product name'', js ''error'')"
    "panel (handleRunAnalysis E inp st net) = None"
    if ?missing
    using that by (simp_all add: run_without_product)
  show "\<exists>pl. request (handleRunAnalysis E inp st net) = Some pl
         \<and> product_name (brief pl) = trim v \<and> trim v \<noteq> []
         \<and> scope_value (brief pl) = toUpperCase E (trim v)"
    if "productInput inp = Some v \<and> \<not> (\<forall>c\<in>set v. is_space c)"
    using that
    by (simp add: request_of_run build_payload_def build_brief_def Let_def trim_empty_iff)
  show "toast (handleRunAnalysis E inp st net) = Some (error_message E err, js ''error'')"
    "panel (handleRunAnalysis E inp st net) = None"
    if "productInput inp = Some v \<and> \<not> (\<forall>c\<in>set v. is_space c)
        \<and> callAPI E CONFIG (net (build_payload E (trim v) inp st)) = SettlesAfter t (Inl err)"
    using that by (simp_all add: run_with_product Let_def run_failed_def)
qed

text \<open>A product field made of a space, a NO-BREAK SPACE and an IDEOGRAPHIC SPACE; the
  sample form, whose upper-case scope value is \<^verbatim>\<open>SKU-472\<close>; and the sample form on a
  network that never answers.\<close>

theorem missing_scope_is_rejected_witness:
  "\<forall>E. productInput blank_inputs = Some [32, 160, 12288] \<and> trim [32, 160, 12288] = []
   \<and> request (handleRunAnalysis E blank_inputs (initial_appState :: unit appState) never_answers)
       = None
   \<and> toast (handleRunAnalysis E blank_inputs (initial_appState :: unit appState) never_answers)
       = Some (js ''Please enter a product name'', js ''error'')
   \<and> productInput sample_inputs = Some (js '' sku-472 '')
   \<and> trim (js '' sku-472 '') = js ''sku-472''
   \<and> (\<exists>pl. request (handleRunAnalysis E sample_inputs (initial_appState :: unit appState)
               never_answers) = Some pl
          \<and> product_name (brief pl) = js ''sku-472''
          \<and> scope_value (brief pl) = js ''SKU-472'')
   \<and> toast (handleRunAnalysis E sample_inputs (initial_appState :: unit appState) never_answers)
       = Some (timeout_message, js ''error'')"
proof
  fix E
  let ?st = "initial_appState :: unit appState"
  have m: "productInput blank_inputs = None
      \<or> (\<exists>u. productInput blank_inputs = Some u \<and> (\<forall>c\<in>set u. is_space c))"
    using blank_product by blast
  have p: "productInput sample_inputs = Some (js '' sku-472 '')
      \<and> \<not> (\<forall>c\<in>set (js '' sku-472 ''). is_space c)"
    using sample_product by blast
  have c: "callAPI E CONFIG
      (never_answers (build_payload E (trim (js '' sku-472 '')) sample_inputs ?st))
      = SettlesAfter 30000 (Inl (Error timeout_message))"
    by (simp add: never_answers_def callAPI_def callAPI_timeout_def CONFIG_def)
  note t1 = missing_scope_is_rejected [where E = E and inp = blank_inputs and st = ?st
      and net = never_answers]
  note t2 = missing_scope_is_rejected [where E = E and inp = sample_inputs and st = ?st
      and net = never_answers and v = "js '' sku-472 ''" and t = 30000
      and err = "Error timeout_message"]
  have r1: "request (handleRunAnalysis E blank_inputs ?st never_answers) = None"
    using t1 [THEN conjunct1] m by (rule iffD2)
  have r2: "toast (handleRunAnalysis E blank_inputs ?st never_answers)
      = Some (js ''Please enter a product name'', js ''error'')"
    using t1 [THEN conjunct2, THEN conjunct1, THEN mp, OF m] by (rule conjunct1)
  have "\<exists>pl. request (handleRunAnalysis E sample_inputs ?st never_answers) = Some pl
         \<and> product_name (brief pl) = trim (js '' sku-472 '') \<and> trim (js '' sku-472 '') \<noteq> []
         \<and> scope_value (brief pl) = toUpperCase E (trim (js '' sku-472 ''))"
    using p by (rule t2 [THEN conjunct2, THEN conjunct2, THEN conjunct1, THEN mp])
  then have r3: "\<exists>pl. request (handleRunAnalysis E sample_inputs ?st never_answers) = Some pl
          \<and> product_name (brief pl) = js ''sku-472''
          \<and> scope_value (brief pl) = js ''SKU-472''"
    by (auto simp only: trim_sample upper_sample)
  have "toast (handleRunAnalysis E sample_inputs ?st never_answers)
        = Some (error_message E (Error timeout_message), js ''error'')
      \<and> panel (handleRunAnalysis E sample_inputs ?st never_answers) = None"
    by (rule t2 [THEN conjunct2, THEN conjunct2, THEN conjunct2, THEN mp]) (intro conjI p [THEN conjunct1] p [THEN conjunct2] c)
  then have r4: "toast (handleRunAnalysis E sample_inputs ?st never_answers)
      = Some (timeout_message, js ''error'')"
    by (simp add: error_message_def)
  show "productInput blank_inputs = Some [32, 160, 12288] \<and> trim [32, 160, 12288] = []
   \<and> request (handleRunAnalysis E blank_inputs ?st never_answers) = None
   \<and> toast (handleRunAnalysis E blank_inputs ?st never_answers)
       = Some (js ''Please enter a product name'', js ''error'')
   \<and> productInput sample_inputs = Some (js '' sku-472 '')
   \<and> trim (js '' sku-472 '') = js ''sku-472''
   \<and> (\<exists>pl. request (handleRunAnalysis E sample_inputs ?st never_answers) = Some pl
          \<and> product_name (brief pl) = js ''sku-472''
          \<and> scope_value (brief pl) = js ''SKU-472'')
   \<and> toast (handleRunAnalysis E sample_inputs ?st never_answers)
       = Some (timeout_message, js ''error'')"
    by (intro conjI blank_product(1) trim_blank r1 r2 sample_product(1) trim_sample r3 r4)
qed

subsection \<open>Character classes and the building blocks of the matcher\<close>

lemma class_disjoint:
  "is_digit c \<Longrightarrow> \<not> is_space c" "is_digit c \<Longrightarrow> \<not> is_alpha c" "is_alpha c \<Longrightarrow> \<not> is_space c"
  by (auto simp: is_digit_def is_space_def is_alpha_def is_upper_def is_lower_def)

lemma class_facts:
  "is_space (cu CHR '' '')" "\<not> is_alpha (cu CHR '' '')" "\<not> is_digit (cu CHR ''%'')"
  "\<not> is_space (cu CHR ''('')" "\<not> is_digit (cu CHR '' '')" "is_dot (cu CHR '':'')"
  by (simp_all add: is_space_def is_alpha_def is_upper_def is_lower_def is_digit_def is_dot_def
      cu_def)

lemma digit_not_letter:
  "is_digit c \<Longrightarrow> ascii_upper c \<noteq> cu CHR ''D''" "is_digit c \<Longrightarrow> ascii_upper c \<noteq> cu CHR ''C''"
  by (simp_all add: is_digit_def ascii_upper_def is_lower_def cu_def)

lemma not_a_letter:
  "ascii_upper (cu CHR ''%'') \<noteq> cu CHR ''D''" "ascii_upper (cu CHR '' '') \<noteq> cu CHR ''D''"
  "ascii_upper (cu CHR ''-'') \<noteq> cu CHR ''D''" "ascii_upper (cu CHR ''-'') \<noteq> cu CHR ''C''"
  "ascii_upper (cu CHR '' '') \<noteq> cu CHR ''C''" "ascii_upper newline \<noteq> cu CHR ''D''"
  by (simp_all add: ascii_upper_def is_lower_def cu_def newline_def)

lemma StarG_all:
  "\<forall>c\<in>set ds. p c \<Longrightarrow> \<not> p x \<Longrightarrow> k (x # rest) caps = Some r \<Longrightarrow>
     rmatch (StarG p) (ds @ x # rest) caps k = Some r"
  by (induction ds) auto

lemma Grp_PlusG:
  assumes "ds \<noteq> []" "\<forall>c\<in>set ds. p c" "\<not> p x" "k (x # rest) (caps(g := Some ds)) = Some r"
  shows "rmatch (Grp g (PlusG p)) (ds @ x # rest) caps k = Some r"
proof -
  from assms(1) obtain d ds' where ds: "ds = d # ds'" by (cases ds) auto
  let ?K = "\<lambda>s' caps'.
      k s' (caps'(g := Some (take (length (ds @ x # rest) - length s') (ds @ x # rest))))"
  have "?K (x # rest) caps = Some r" using assms(4) by simp
  with assms(2,3) ds have "rmatch (StarG p) (ds' @ x # rest) caps ?K = Some r"
    by (intro StarG_all) auto
  with assms(2) ds show ?thesis by (simp add: PlusG_def)
qed

lemma Str_match: "rmatch (Str lit) (lit @ s) caps k = k s caps"
  by (induction lit) auto

lemma Seq_Str: "rmatch (Seq (Str lit) R) (lit @ s) caps k = rmatch R s caps k"
  by (simp add: Str_match)

lemma Seq_Lit: "rmatch (Seq (Lit c) R) (c # s) caps k = rmatch R s caps k"
  by simp

lemma Lit_same: "rmatch (Lit c) (c # s) caps k = k s caps"
  by simp

lemma StarL_now: "k s caps = Some r \<Longrightarrow> rmatch (StarL p) s caps k = Some r"
  by simp

lemma no_Assessment:
  "rmatch (Opt (Str (js '' Assessment''))) (cu CHR '':'' # s) caps k = k (cu CHR '':'' # s) caps"
  by (simp add: js_simps ascii_upper_def is_lower_def cu_def)

lemma str_match_here: "match_at re s = Some c \<Longrightarrow> str_match re s = Some c"
  by (subst str_match.simps) simp

lemma str_match_skip: "no_match_in re pre rest \<Longrightarrow> str_match re (pre @ rest) = str_match re rest"
proof (induction pre)
  case Nil
  then show ?case by simp
next
  case (Cons c cs)
  then have "match_at re (c # cs @ rest) = None" and "no_match_in re cs rest"
    by (simp_all add: Option.is_none_def)
  with Cons.IH show ?case by (subst str_match.simps) simp
qed

lemma no_match_in_append:
  "no_match_in re (a @ b) rest = (no_match_in re a (b @ rest) \<and> no_match_in re b rest)"
  by (induction a) auto

subsection \<open>Matching the score lines\<close>

text \<open>What the three patterns do on a line that starts at the current position, and how
  \<open>str_match\<close> gets there: positions at which the pattern does not match are skipped.\<close>

lemma digits_then_percent:
  "rmatch (Seq (Grp 1 (PlusG is_digit)) (Lit (cu CHR ''%''))) (dec n @ cu CHR ''%'' # post) caps
      (\<lambda>_ c. Some c) = Some (caps(1 := Some (dec n)))"
  by (simp only: rmatch.simps(4))
    (rule Grp_PlusG; simp add: dec_nonempty dec_digits class_facts)

lemma space_digits_then_percent:
  "rmatch (Seq (StarG is_space) (Seq (Grp 1 (PlusG is_digit)) (Lit (cu CHR ''%''))))
      (js '' '' @ dec n @ cu CHR ''%'' # post) caps (\<lambda>_ c. Some c)
     = Some (caps(1 := Some (dec n)))"
proof -
  obtain d ds' where d: "dec n = d # ds'" using dec_nonempty [of n] by (cases "dec n") auto
  with dec_digits [of n] have "is_digit d" by auto
  then have nsp: "\<not> is_space d" by (rule class_disjoint)
  have "rmatch (StarG is_space) (js '' '' @ d # ds' @ cu CHR ''%'' # post) caps
      (\<lambda>s' caps'. rmatch (Seq (Grp 1 (PlusG is_digit)) (Lit (cu CHR ''%''))) s' caps'
         (\<lambda>_ c. Some c))
      = Some (caps(1 := Some (dec n)))"
  proof (rule StarG_all)
    show "\<forall>c\<in>set (js '' ''). is_space c" by (simp add: class_facts js_simps)
    show "\<not> is_space d" by (rule nsp)
    show "rmatch (Seq (Grp 1 (PlusG is_digit)) (Lit (cu CHR ''%'')))
        (d # ds' @ cu CHR ''%'' # post) caps (\<lambda>_ c. Some c) = Some (caps(1 := Some (dec n)))"
      using digits_then_percent [of n post caps] d by simp
  qed
  with d show ?thesis by (simp only: rmatch.simps(4) append_Cons append_Nil)
qed

lemma confidence_line:
  "match_at re_confidence (js ''Confidence Score: '' @ dec n @ js ''%'' @ post)
     = Some ((\<lambda>_. None)(1 := Some (dec n)))"
proof -
  have "js ''Confidence Score: '' @ dec n @ js ''%'' @ post
      = js ''Confidence Score:'' @ js '' '' @ dec n @ cu CHR ''%'' # post"
    by (simp add: js_simps)
  then show ?thesis
    by (simp only: match_at_def re_confidence_def Seq_Str space_digits_then_percent)
qed

lemma paren_score:
  "rmatch (Seq (StarG is_space)
      (Seq (Lit (cu CHR ''(''))
        (Seq (Grp 2 (PlusG is_digit)) (Seq (Lit (cu CHR ''%'')) (Lit (cu CHR '')''))))))
      (js '' ('' @ dec m @ js ''%)'' @ post) caps (\<lambda>_ c. Some c)
     = Some (caps(2 := Some (dec m)))"
proof -
  have g: "rmatch (Grp 2 (PlusG is_digit)) (dec m @ cu CHR ''%'' # cu CHR '')'' # post) caps
      (\<lambda>s' caps'. rmatch (Seq (Lit (cu CHR ''%'')) (Lit (cu CHR '')''))) s' caps'
         (\<lambda>_ c. Some c))
      = Some (caps(2 := Some (dec m)))"
    by (rule Grp_PlusG; simp add: dec_nonempty dec_digits class_facts)
  have "rmatch (StarG is_space)
      (js '' '' @ cu CHR ''('' # dec m @ cu CHR ''%'' # cu CHR '')'' # post) caps
      (\<lambda>s' caps'. rmatch (Seq (Lit (cu CHR ''(''))
          (Seq (Grp 2 (PlusG is_digit)) (Seq (Lit (cu CHR ''%'')) (Lit (cu CHR '')''))))) s' caps'
          (\<lambda>_ c. Some c))
      = Some (caps(2 := Some (dec m)))"
  proof (rule StarG_all)
    show "\<forall>c\<in>set (js '' ''). is_space c" by (simp add: class_facts js_simps)
    show "\<not> is_space (cu CHR ''('')" by (simp add: class_facts)
    show "rmatch (Seq (Lit (cu CHR ''(''))
          (Seq (Grp 2 (PlusG is_digit)) (Seq (Lit (cu CHR ''%'')) (Lit (cu CHR '')'')))))
          (cu CHR ''('' # dec m @ cu CHR ''%'' # cu CHR '')'' # post) caps (\<lambda>_ c. Some c)
        = Some (caps(2 := Some (dec m)))"
      using g by (simp only: rmatch.simps(4) Lit_same)
  qed
  then show ?thesis by (simp only: rmatch.simps(4) append_Cons append_Nil js_simps)
qed

lemma label_then_score:
  assumes "L \<noteq> []" "\<forall>c\<in>set L. is_alpha c"
  shows "rmatch (Seq (StarG is_space)
       (Seq (Grp 1 (PlusG is_alpha))
         (Opt (Seq (StarG is_space)
            (Seq (Lit (cu CHR ''('')) (Seq (Grp 2 (PlusG is_digit))
               (Seq (Lit (cu CHR ''%'')) (Lit (cu CHR '')'')))))))))
      (js '' '' @ L @ js '' ('' @ dec m @ js ''%)'' @ post) caps (\<lambda>_ c. Some c)
    = Some (caps(1 := Some L, 2 := Some (dec m)))"
proof -
  let ?tail = "Opt (Seq (StarG is_space)
            (Seq (Lit (cu CHR ''('')) (Seq (Grp 2 (PlusG is_digit))
               (Seq (Lit (cu CHR ''%'')) (Lit (cu CHR '')''))))))"
  from assms(1) obtain l ls where l: "L = l # ls" by (cases L) auto
  with assms(2) have "is_alpha l" by simp
  then have nsp: "\<not> is_space l" by (rule class_disjoint)
  have t: "rmatch ?tail (js '' ('' @ dec m @ js ''%)'' @ post) (caps(1 := Some L))
      (\<lambda>_ c. Some c) = Some (caps(1 := Some L, 2 := Some (dec m)))"
    using paren_score [of m post "caps(1 := Some L)"]
    by (simp only: rmatch.simps(7) option.case)
  have g: "rmatch (Grp 1 (PlusG is_alpha)) (L @ cu CHR '' '' # js ''('' @ dec m @ js ''%)'' @ post)
      caps (\<lambda>s' caps'. rmatch ?tail s' caps' (\<lambda>_ c. Some c))
      = Some (caps(1 := Some L, 2 := Some (dec m)))"
    by (rule Grp_PlusG) (use assms t in \<open>simp_all add: class_facts js_simps\<close>)
  have "rmatch (StarG is_space)
      (js '' '' @ l # ls @ cu CHR '' '' # js ''('' @ dec m @ js ''%)'' @ post) caps
      (\<lambda>s' caps'. rmatch (Seq (Grp 1 (PlusG is_alpha)) ?tail) s' caps' (\<lambda>_ c. Some c))
      = Some (caps(1 := Some L, 2 := Some (dec m)))"
  proof (rule StarG_all)
    show "\<forall>c\<in>set (js '' ''). is_space c" by (simp add: class_facts js_simps)
    show "\<not> is_space l" by (rule nsp)
    show "rmatch (Seq (Grp 1 (PlusG is_alpha)) ?tail)
        (l # ls @ cu CHR '' '' # js ''('' @ dec m @ js ''%)'' @ post) caps (\<lambda>_ c. Some c)
        = Some (caps(1 := Some L, 2 := Some (dec m)))"
      using g l by (simp only: rmatch.simps(4) append_Cons)
  qed
  moreover have "js '' '' @ L @ js '' ('' @ dec m @ js ''%)'' @ post
      = js '' '' @ l # ls @ cu CHR '' '' # js ''('' @ dec m @ js ''%)'' @ post"
    using l by (simp add: js_simps)
  ultimately show ?thesis by (simp only: rmatch.simps(4))
qed

lemma completeness_labelled_line:
  assumes "L \<noteq> []" "\<forall>c\<in>set L. is_alpha c"
  shows "match_at re_completeness
      (js ''Data Completeness: '' @ L @ js '' ('' @ dec m @ js ''%)'' @ post)
     = Some ((\<lambda>_. None)(1 := Some L, 2 := Some (dec m)))"
proof -
  have e: "js ''Data Completeness: '' @ L @ js '' ('' @ dec m @ js ''%)'' @ post
      = js ''Data Completeness'' @ cu CHR '':''
          # (js '' '' @ L @ js '' ('' @ dec m @ js ''%)'' @ post)"
    by (simp add: js_simps)
  show ?thesis
    unfolding match_at_def re_completeness_def e Seq_Str
    by (simp only: rmatch.simps(4) [of "Opt (Str (js '' Assessment''))"] no_Assessment Seq_Lit
        label_then_score [OF assms])
qed

lemma wizard_bare_line:
  "match_at re_completeness_wizard (js ''Data Completeness: '' @ dec m @ js ''%'' @ post)
     = Some ((\<lambda>_. None)(1 := Some (dec m)))"
proof -
  have e: "js ''Data Completeness: '' @ dec m @ js ''%'' @ post
      = js ''Data Completeness'' @ cu CHR '':'' # (js '' '' @ dec m @ cu CHR ''%'' # post)"
    by (simp add: js_simps)
  show ?thesis
    unfolding match_at_def re_completeness_wizard_def e Seq_Str
    by (simp only: rmatch.simps(4) [of "StarL is_dot"])
      (rule StarL_now, simp only: Seq_Lit space_digits_then_percent)
qed

lemma upper_D: "ascii_upper (cu CHR ''D'') = cu CHR ''D''" "ascii_upper (cu CHR ''C'') = cu CHR ''C''"
  by (simp_all add: ascii_upper_def is_lower_def cu_def)

lemma first_letter_D:
  "ascii_upper c \<noteq> cu CHR ''D'' \<Longrightarrow> match_at re_completeness (c # s) = None"
  "ascii_upper c \<noteq> cu CHR ''D'' \<Longrightarrow> match_at re_completeness_wizard (c # s) = None"
  by (simp_all add: match_at_def re_completeness_def re_completeness_wizard_def js_simps
      upper_D)

lemma first_letter_C:
  "ascii_upper c \<noteq> cu CHR ''C'' \<Longrightarrow> match_at re_confidence (c # s) = None"
  by (simp add: match_at_def re_confidence_def js_simps upper_D)

lemma bare_line_start:
  assumes "is_digit d"
  shows "match_at re_completeness (js ''Data Completeness: '' @ d # rest) = None"
proof -
  have e: "js ''Data Completeness: '' @ d # rest
      = js ''Data Completeness'' @ cu CHR '':'' # cu CHR '' '' # d # rest"
    by (simp add: js_simps)
  from assms have nd: "\<not> is_space d" "\<not> is_alpha d" by (simp_all add: class_disjoint)
  show ?thesis
    unfolding match_at_def re_completeness_def e Seq_Str
    by (simp only: rmatch.simps(4) [of "Opt (Str (js '' Assessment''))"] no_Assessment Seq_Lit)
      (simp add: nd class_facts PlusG_def)
qed

lemma digits_no_match:
  "\<forall>c\<in>set ds. is_digit c \<Longrightarrow> no_match_in re_completeness ds rest"
  "\<forall>c\<in>set ds. is_digit c \<Longrightarrow> no_match_in re_completeness_wizard ds rest"
  "\<forall>c\<in>set ds. is_digit c \<Longrightarrow> no_match_in re_confidence ds rest"
  by (induction ds) (simp_all add: first_letter_D first_letter_C digit_not_letter)

text \<open>No match of the labelled pattern begins inside the text \<^verbatim>\<open>ata Completeness: \<close>:
  none of its characters is a \<^verbatim>\<open>D\<close>.\<close>

lemma no_D_inside: "no_match_in re_completeness (js ''ata Completeness: '') rest"
  by (simp add: js_simps first_letter_D ascii_upper_def is_lower_def cu_def)

lemma bare_line_no_match:
  "no_match_in re_completeness (js ''Data Completeness: '' @ dec m @ js ''%'') post"
proof -
  obtain d ds' where d: "dec m = d # ds'" using dec_nonempty [of m] by (cases "dec m") auto
  with dec_digits [of m] have dd: "is_digit d" by auto
  have "match_at re_completeness (js ''Data Completeness: '' @ dec m @ js ''%'' @ post) = None"
    using bare_line_start [OF dd, of "ds' @ js ''%'' @ post"] by (simp add: d)
  moreover have "js ''Data Completeness: '' = cu CHR ''D'' # js ''ata Completeness: ''"
    by (simp add: js_simps)
  ultimately have a: "no_match_in re_completeness (js ''Data Completeness: '')
      (dec m @ js ''%'' @ post)"
    using no_D_inside [of "dec m @ js ''%'' @ post"] by simp
  have b: "no_match_in re_completeness (dec m) (js ''%'' @ post)"
    by (rule digits_no_match) (rule dec_digits)
  have c: "no_match_in re_completeness (js ''%'') post"
    by (simp add: js_simps first_letter_D not_a_letter)
  from a b c show ?thesis by (simp only: no_match_in_append append_assoc)
qed

lemma extractMeta_confidence:
  assumes "no_match_in re_confidence pre (js ''Confidence Score: '' @ dec n @ js ''%'' @ post)"
  shows "str_match re_confidence (pre @ js ''Confidence Score: '' @ dec n @ js ''%'' @ post)
     = Some ((\<lambda>_. None)(1 := Some (dec n)))"
  by (simp only: str_match_skip [OF assms] str_match_here [OF confidence_line])

lemma extractMeta_labelled:
  assumes "L \<noteq> []" "\<forall>c\<in>set L. is_alpha c"
    and "no_match_in re_completeness pre
      (js ''Data Completeness: '' @ L @ js '' ('' @ dec m @ js ''%)'' @ post)"
  shows "str_match re_completeness
      (pre @ js ''Data Completeness: '' @ L @ js '' ('' @ dec m @ js ''%)'' @ post)
     = Some ((\<lambda>_. None)(1 := Some L, 2 := Some (dec m)))"
  by (simp only: str_match_skip [OF assms(3)]
      str_match_here [OF completeness_labelled_line [OF assms(1,2)]])

lemma extractMeta_bare:
  assumes "no_match_in re_completeness pre (js ''Data Completeness: '' @ dec m @ js ''%'' @ post)"
    and "str_match re_completeness post = None"
  shows "str_match re_completeness (pre @ js ''Data Completeness: '' @ dec m @ js ''%'' @ post)
     = None"
proof -
  have "str_match re_completeness ((js ''Data Completeness: '' @ dec m @ js ''%'') @ post)
      = str_match re_completeness post"
    by (rule str_match_skip) (rule bare_line_no_match)
  with assms(2) str_match_skip [OF assms(1)] show ?thesis by simp
qed

lemma showResults_bare:
  assumes "no_match_in re_completeness_wizard pre
      (js ''Data Completeness: '' @ dec m @ js ''%'' @ post)"
  shows "str_match re_completeness_wizard
      (pre @ js ''Data Completeness: '' @ dec m @ js ''%'' @ post)
     = Some ((\<lambda>_. None)(1 := Some (dec m)))"
  by (simp only: str_match_skip [OF assms] str_match_here [OF wizard_bare_line])

lemma str_match_empty: "str_match re_completeness [] = None"
  by (subst str_match.simps) (simp add: match_at_def re_completeness_def js_simps)

lemma record_fields:
  "confidence (extractMeta t) =
     (case str_match re_confidence t of None \<Rightarrow> None | Some g \<Rightarrow> map_option Number_digits (g 1))"
  "completenessLabel (extractMeta t) =
     (case str_match re_completeness t of None \<Rightarrow> None | Some g \<Rightarrow> g 1)"
  "completenessScore (extractMeta t) =
     (case str_match re_completeness t of
        None \<Rightarrow> None
      | Some g \<Rightarrow> (case g 2 of None \<Rightarrow> None
                  | Some ds \<Rightarrow> if ds = [] then None else Some (Number_digits ds)))"
  by (simp_all add: extractMeta_def Let_def)

lemma showResults_fields:
  "\<exists>v. showResults (r\<lparr> report := Some (ReportText t) \<rparr>) p md = Inr v
     \<and> wr_confidenceScore v =
         map_option (\<lambda>c. dec c @ js ''%'')
           (case str_match re_confidence t of None \<Rightarrow> None
            | Some g \<Rightarrow> map_option Number_digits (g 1))
     \<and> wr_completenessScore v =
         map_option (\<lambda>c. dec c @ js ''%'')
           (case str_match re_completeness_wizard t of None \<Rightarrow> None
            | Some g \<Rightarrow> map_option Number_digits (g 1))
     \<and> wr_completenessMeter v = wr_completenessScore v"
  by (simp add: showResults_def Let_def)

subsection \<open>Reading the scores back from the report\<close>

text \<open>
  Claim C4, as stated: for a report holding the lines \<^verbatim>\<open>Confidence Score: N%\<close> and
  \<^verbatim>\<open>Data Completeness: M%\<close>, \<^verbatim>\<open>extractMeta\<close> returns \<open>N\<close> and \<open>M\<close>. For the
  report made of the lines \<^verbatim>\<open>Confidence Score: 82%\<close> and \<^verbatim>\<open>Data Completeness: 80%\<close>
  it returns the confidence 82, but neither a completeness label nor a completeness
  score: its pattern wants a word after the colon.
\<close>

theorem extractMeta_misses_bare_completeness:
  "confidence (extractMeta bare_scores_report) = Some 82
   \<and> completenessLabel (extractMeta bare_scores_report) = None
   \<and> completenessScore (extractMeta bare_scores_report) = None"
proof -
  have e1: "bare_scores_report
      = [] @ js ''Confidence Score: '' @ dec 82 @ js ''%''
          @ (newline # js ''Data Completeness: 80%'')"
    by (simp add: bare_scores_report_def dec_samples js_simps)
  have e2: "bare_scores_report
      = (js ''Confidence Score: 82%'' @ [newline])
          @ js ''Data Completeness: '' @ dec 80 @ js ''%'' @ []"
    by (simp add: bare_scores_report_def dec_samples js_simps)
  have n2: "no_match_in re_completeness (js ''Confidence Score: 82%'' @ [newline])
      (js ''Data Completeness: '' @ dec 80 @ js ''%'' @ [])"
    by (simp add: match_at_def re_completeness_def js_simps ascii_upper_def is_lower_def cu_def
        newline_def)
  have s1: "str_match re_confidence bare_scores_report = Some ((\<lambda>_. None)(1 := Some (dec 82)))"
    unfolding e1 by (rule extractMeta_confidence) simp
  have s2: "str_match re_completeness bare_scores_report = None"
    unfolding e2 by (rule extractMeta_bare [OF n2 str_match_empty])
  show ?thesis
    unfolding record_fields s1 s2 by (simp add: Number_digits_dec)
qed

text \<open>
  Claim C4, amended. Let no match of the pattern in question begin before the line.
  \<^item> From a line \<^verbatim>\<open>Confidence Score: N%\<close>, \<^verbatim>\<open>extractMeta\<close> returns the confidence
    \<open>N\<close>.
  \<^item> From a line \<^verbatim>\<open>Data Completeness: L (M%)\<close>, where \<open>L\<close> is a non-empty word of
    letters, it returns the label \<open>L\<close> and the completeness score \<open>M\<close>.
  \<^item> From a line \<^verbatim>\<open>Data Completeness: M%\<close> with no match after it, it returns neither
    a label nor a score.
  \<^item> \<^verbatim>\<open>showResults\<close> of the wizard shows \<^verbatim>\<open>N%\<close> and \<^verbatim>\<open>M%\<close> for the lines
    \<^verbatim>\<open>Confidence Score: N%\<close> and \<^verbatim>\<open>Data Completeness: M%\<close>.

  \<open>N\<close> and \<open>M\<close> are natural numbers up to \<open>2^53\<close>, written in decimal.
\<close>

theorem score_lines_are_read:
  "(n \<le> 2 ^ 53
      \<and> no_match_in re_confidence pre (js ''Confidence Score: '' @ dec n @ js ''%'' @ post) \<longrightarrow>
      confidence (extractMeta (pre @ js ''Confidence Score: '' @ dec n @ js ''%'' @ post)) = Some n)
   \<and> (m \<le> 2 ^ 53 \<and> L \<noteq> [] \<and> (\<forall>c\<in>set L. is_alpha c)
       \<and> no_match_in re_completeness pre
            (js ''Data Completeness: '' @ L @ js '' ('' @ dec m @ js ''%)'' @ post) \<longrightarrow>
      completenessLabel (extractMeta
          (pre @ js ''Data Completeness: '' @ L @ js '' ('' @ dec m @ js ''%)'' @ post)) = Some L
      \<and> completenessScore (extractMeta
          (pre @ js ''Data Completeness: '' @ L @ js '' ('' @ dec m @ js ''%)'' @ post)) = Some m)
   \<and> (no_match_in re_completeness pre (js ''Data Completeness: '' @ dec m @ js ''%'' @ post)
       \<and> str_match re_completeness post = None \<longrightarrow>
      completenessLabel (extractMeta (pre @ js ''Data Completeness: '' @ dec m @ js ''%'' @ post))
          = None
      \<and> completenessScore (extractMeta (pre @ js ''Data Completeness: '' @ dec m @ js ''%'' @ post))
          = None)
   \<and> (n \<le> 2 ^ 53
       \<and> no_match_in re_confidence pre (js ''Confidence Score: '' @ dec n @ js ''%'' @ post) \<longrightarrow>
      (\<exists>v. showResults (r\<lparr> report := Some (ReportText
                (pre @ js ''Confidence Score: '' @ dec n @ js ''%'' @ post)) \<rparr>) p md = Inr v
           \<and> wr_confidenceScore v = Some (dec n @ js ''%'')))
   \<and> (m \<le> 2 ^ 53 \<and> no_match_in re_completeness_wizard pre
          (js ''Data Completeness: '' @ dec m @ js ''%'' @ post) \<longrightarrow>
      (\<exists>v. showResults (r\<lparr> report := Some (ReportText
                (pre @ js ''Data Completeness: '' @ dec m @ js ''%'' @ post)) \<rparr>) p md = Inr v
           \<and> wr_completenessScore v = Some (dec m @ js ''%'')
           \<and> wr_completenessMeter v = Some (dec m @ js ''%'')))"
proof -
  let ?conf = "js ''Confidence Score: '' @ dec n @ js ''%'' @ post"
  let ?lab = "js ''Data Completeness: '' @ L @ js '' ('' @ dec m @ js ''%)'' @ post"
  let ?bare = "js ''Data Completeness: '' @ dec m @ js ''%'' @ post"
  have c1: "n \<le> 2 ^ 53 \<and> no_match_in re_confidence pre ?conf \<longrightarrow>
      confidence (extractMeta (pre @ ?conf)) = Some n"
    unfolding record_fields
    by (auto simp only: extractMeta_confidence) (simp add: Number_digits_dec)
  have c2: "m \<le> 2 ^ 53 \<and> L \<noteq> [] \<and> (\<forall>c\<in>set L. is_alpha c)
      \<and> no_match_in re_completeness pre ?lab \<longrightarrow>
      completenessLabel (extractMeta (pre @ ?lab)) = Some L
      \<and> completenessScore (extractMeta (pre @ ?lab)) = Some m"
  proof
    assume h: "m \<le> 2 ^ 53 \<and> L \<noteq> [] \<and> (\<forall>c\<in>set L. is_alpha c)
        \<and> no_match_in re_completeness pre ?lab"
    then have "str_match re_completeness (pre @ ?lab)
        = Some ((\<lambda>_. None)(1 := Some L, 2 := Some (dec m)))"
      by (intro extractMeta_labelled) blast+
    then show "completenessLabel (extractMeta (pre @ ?lab)) = Some L
        \<and> completenessScore (extractMeta (pre @ ?lab)) = Some m"
      unfolding record_fields by (simp add: Number_digits_dec dec_nonempty)
  qed
  have c3: "no_match_in re_completeness pre ?bare \<and> str_match re_completeness post = None \<longrightarrow>
      completenessLabel (extractMeta (pre @ ?bare)) = None
      \<and> completenessScore (extractMeta (pre @ ?bare)) = None"
  proof
    assume h: "no_match_in re_completeness pre ?bare \<and> str_match re_completeness post = None"
    then have "str_match re_completeness (pre @ ?bare) = None"
      by (intro extractMeta_bare) blast+
    then show "completenessLabel (extractMeta (pre @ ?bare)) = None
        \<and> completenessScore (extractMeta (pre @ ?bare)) = None"
      unfolding record_fields by simp
  qed
  have c4: "n \<le> 2 ^ 53 \<and> no_match_in re_confidence pre ?conf \<longrightarrow>
      (\<exists>v. showResults (r\<lparr> report := Some (ReportText (pre @ ?conf)) \<rparr>) p md = Inr v
           \<and> wr_confidenceScore v = Some (dec n @ js ''%''))"
  proof
    assume "n \<le> 2 ^ 53 \<and> no_match_in re_confidence pre ?conf"
    then have h: "no_match_in re_confidence pre ?conf" by blast
    from showResults_fields [where r = r and t = "pre @ ?conf" and p = p and md = md]
    obtain v where v: "showResults (r\<lparr> report := Some (ReportText (pre @ ?conf)) \<rparr>) p md = Inr v"
      "wr_confidenceScore v = map_option (\<lambda>c. dec c @ js ''%'')
           (case str_match re_confidence (pre @ ?conf) of None \<Rightarrow> None
            | Some g \<Rightarrow> map_option Number_digits (g 1))"
      by blast
    from v(2) have "wr_confidenceScore v = Some (dec n @ js ''%'')"
      unfolding extractMeta_confidence [OF h] by (simp add: Number_digits_dec)
    with v(1) show "\<exists>v. showResults (r\<lparr> report := Some (ReportText (pre @ ?conf)) \<rparr>) p md = Inr v
           \<and> wr_confidenceScore v = Some (dec n @ js ''%'')"
      by blast
  qed
  have c5: "m \<le> 2 ^ 53 \<and> no_match_in re_completeness_wizard pre ?bare \<longrightarrow>
      (\<exists>v. showResults (r\<lparr> report := Some (ReportText (pre @ ?bare)) \<rparr>) p md = Inr v
           \<and> wr_completenessScore v = Some (dec m @ js ''%'')
           \<and> wr_completenessMeter v = Some (dec m @ js ''%''))"
  proof
    assume "m \<le> 2 ^ 53 \<and> no_match_in re_completeness_wizard pre ?bare"
    then have h: "no_match_in re_completeness_wizard pre ?bare" by blast
    from showResults_fields [where r = r and t = "pre @ ?bare" and p = p and md = md]
    obtain v where v: "showResults (r\<lparr> report := Some (ReportText (pre @ ?bare)) \<rparr>) p md = Inr v"
      "wr_completenessScore v = map_option (\<lambda>c. dec c @ js ''%'')
           (case str_match re_completeness_wizard (pre @ ?bare) of None \<Rightarrow> None
            | Some g \<Rightarrow> map_option Number_digits (g 1))"
      "wr_completenessMeter v = wr_completenessScore v"
      by blast
    from v(2) have "wr_completenessScore v = Some (dec m @ js ''%'')"
      unfolding showResults_bare [OF h] by (simp add: Number_digits_dec)
    with v(1,3) show "\<exists>v. showResults (r\<lparr> report := Some (ReportText (pre @ ?bare)) \<rparr>) p md = Inr v
           \<and> wr_completenessScore v = Some (dec m @ js ''%'')
           \<and> wr_completenessMeter v = Some (dec m @ js ''%'')"
      by auto
  qed
  show ?thesis by (intro conjI c1 c2 c3 c4 c5)
qed

text \<open>The lines of a bulleted section with the scores 82 and 80.\<close>

theorem score_lines_are_read_witness:
  "confidence (extractMeta (js ''- Confidence Score: 82%'')) = Some 82
   \<and> completenessLabel (extractMeta (js ''- Data Completeness: High (80%)'')) = Some (js ''High'')
   \<and> completenessScore (extractMeta (js ''- Data Completeness: High (80%)'')) = Some 80
   \<and> completenessScore (extractMeta (js ''- Data Completeness: 80%'')) = None
   \<and> (\<exists>v. showResults (empty_object\<lparr> report := Some (ReportText (js ''- Confidence Score: 82%'')) \<rparr>)
          (js ''SKU-472'') (js ''deep'') = Inr v \<and> wr_confidenceScore v = Some (js ''82%''))
   \<and> (\<exists>v. showResults
            (empty_object\<lparr> report := Some (ReportText (js ''- Data Completeness: 80%'')) \<rparr>)
          (js ''SKU-472'') (js ''deep'') = Inr v \<and> wr_completenessScore v = Some (js ''80%'')
          \<and> wr_completenessMeter v = Some (js ''80%''))"
proof -
  have h1: "no_match_in re_confidence (js ''- '')
      (js ''Confidence Score: '' @ dec 82 @ js ''%'' @ [])"
    by (simp add: js_simps first_letter_C not_a_letter)
  have h2: "js ''High'' \<noteq> [] \<and> (\<forall>c\<in>set (js ''High''). is_alpha c)
      \<and> no_match_in re_completeness (js ''- '')
           (js ''Data Completeness: '' @ js ''High'' @ js '' ('' @ dec 80 @ js ''%)'' @ [])"
    by (simp add: js_simps first_letter_D not_a_letter)
      (simp add: is_alpha_def is_upper_def is_lower_def cu_def)
  have h3: "no_match_in re_completeness (js ''- '')
        (js ''Data Completeness: '' @ dec 80 @ js ''%'' @ [])
      \<and> str_match re_completeness [] = None"
    by (simp add: js_simps first_letter_D not_a_letter str_match_empty)
  have h5: "no_match_in re_completeness_wizard (js ''- '')
      (js ''Data Completeness: '' @ dec 80 @ js ''%'' @ [])"
    by (simp add: js_simps first_letter_D not_a_letter)
  have h0: "(82::nat) \<le> 2 ^ 53 \<and> (80::nat) \<le> 2 ^ 53"
    by simp
  have e: "js ''- '' @ js ''Confidence Score: '' @ dec 82 @ js ''%'' @ []
        = js ''- Confidence Score: 82%''"
    "js ''- '' @ js ''Data Completeness: '' @ js ''High'' @ js '' ('' @ dec 80 @ js ''%)'' @ []
        = js ''- Data Completeness: High (80%)''"
    "js ''- '' @ js ''Data Completeness: '' @ dec 80 @ js ''%'' @ []
        = js ''- Data Completeness: 80%''"
    "dec 82 @ js ''%'' = js ''82%''" "dec 80 @ js ''%'' = js ''80%''"
    by (simp_all add: dec_samples js_simps)
  from h0 h1 h2 h3 h5
    score_lines_are_read [where pre = "js ''- ''" and n = 82 and post = "[]"
      and L = "js ''High''" and m = 80 and r = empty_object and p = "js ''SKU-472''"
      and md = "js ''deep''"]
  show ?thesis by (simp only: e) blast
qed

subsection \<open>Uploads\<close>

text \<open>The table that \<^verbatim>\<open>handleFiles\<close> and the wizard build from a list of files: the
  last file with a given key wins.\<close>

lemma keys_eval:
  "handleFiles_key E (js ''reviews.csv'') = js ''reviews''"
  "handleFiles_key E (js ''items.csv'') = js ''catalog''"
  "handleFiles_key E (js ''catalog.csv'') = js ''catalog''"
  "handleFiles_key E (js ''competitors.csv'') = js ''catalog''"
  "handleFiles_key E (js ''pricing.csv'') = js ''pricing''"
  by (simp_all add: handleFiles_key_def toLowerCase_def ascii_lower_def is_upper_def js_eval)

lemma keys_distinct:
  "js ''reviews'' \<noteq> js ''catalog''" "js ''reviews'' \<noteq> js ''pricing''"
  "js ''catalog'' \<noteq> js ''reviews''" "js ''catalog'' \<noteq> js ''pricing''"
  "js ''pricing'' \<noteq> js ''reviews''" "js ''pricing'' \<noteq> js ''catalog''"
  by (simp_all add: js_eval)

lemma map_of_foldl_update:
  "map_of (foldl (\<lambda>al f. AList.update (key f) (val f) al) init fs) k
     = (case find (\<lambda>f. key f = k) (rev fs) of Some f \<Rightarrow> Some (val f) | None \<Rightarrow> map_of init k)"
  by (induction fs arbitrary: init rule: rev_induct) (auto simp: update_conv')

lemma parsedData_lookup:
  "map_of (parsedData (handleFiles E (Some parse) fs st)) k
     = map_option parse (find (\<lambda>f. handleFiles_key E (file_name f) = k) (rev fs))"
  by (simp add: handleFiles_def map_of_foldl_update split: option.splits)

lemma fileData_lookup:
  "find (\<lambda>f. replace_first (js ''.csv'') [] (file_name f) = k) (rev fs) = Some f \<Longrightarrow>
     map_of (fileData_of fs) k = Some (csv_data (file_text f))"
  by (simp add: fileData_of_def map_of_foldl_update)

lemma custom_handles:
  assumes "dataMode_checked inp = Some (js ''custom'')"
  shows "catalog (data_sources (build_brief E p inp st))
      = or_handle (map_of (parsedData st) (js ''catalog'')) (Path (js ''catalog.json''))"
    "reviews (data_sources (build_brief E p inp st))
      = or_handle (map_of (parsedData st) (js ''reviews'')) (Path (js ''reviews.json''))"
    "pricing (data_sources (build_brief E p inp st))
      = or_handle (map_of (parsedData st) (js ''pricing'')) (Path (js ''pricing.json''))"
  using assms
  by (auto simp: build_brief_def Let_def or_handle_def default_data_sources_def)

lemma fixed_handles:
  "competitors (data_sources (build_brief E p inp st)) = Path (js ''competitors.json'')"
  "performance_signals (data_sources (build_brief E p inp st))
     = Path (js ''performance_signals.json'')"
  by (simp_all add: build_brief_def Let_def default_data_sources_def)

subsection \<open>The source kind of an upload\<close>

text \<open>
  Claim C1, as stated: the kind under which the rows of an uploaded file enter the
  brief is declared by the caller and never inferred from the name of the file. Two
  files with the same content, one named \<^verbatim>\<open>reviews.csv\<close> and one named
  \<^verbatim>\<open>items.csv\<close>, uploaded through the form of app.js in custom mode, enter the brief
  as reviews and as catalog respectively.
\<close>

theorem kind_differs_with_file_name:
  "\<forall>E. file_text reviews_upload = file_text items_upload
   \<and> reviews (data_sources (build_brief E (js ''sku-472'') sample_inputs
       (handleFiles E (Some sample_parse) [reviews_upload] initial_appState)))
     = Inline (sample_parse reviews_upload)
   \<and> reviews (data_sources (build_brief E (js ''sku-472'') sample_inputs
       (handleFiles E (Some sample_parse) [items_upload] initial_appState)))
     = Path (js ''reviews.json'')
   \<and> catalog (data_sources (build_brief E (js ''sku-472'') sample_inputs
       (handleFiles E (Some sample_parse) [items_upload] initial_appState)))
     = Inline (sample_parse items_upload)"
proof
  fix E
  have m: "dataMode_checked sample_inputs = Some (js ''custom'')"
    by (simp add: sample_inputs_def)
  show "file_text reviews_upload = file_text items_upload
   \<and> reviews (data_sources (build_brief E (js ''sku-472'') sample_inputs
       (handleFiles E (Some sample_parse) [reviews_upload] initial_appState)))
     = Inline (sample_parse reviews_upload)
   \<and> reviews (data_sources (build_brief E (js ''sku-472'') sample_inputs
       (handleFiles E (Some sample_parse) [items_upload] initial_appState)))
     = Path (js ''reviews.json'')
   \<and> catalog (data_sources (build_brief E (js ''sku-472'') sample_inputs
       (handleFiles E (Some sample_parse) [items_upload] initial_appState)))
     = Inline (sample_parse items_upload)"
    by (simp add: custom_handles [OF m] parsedData_lookup reviews_upload_def items_upload_def
        keys_eval keys_distinct or_handle_def)
qed

text \<open>
  Claim C1, amended. In app.js the kind under which the rows of an uploaded file enter
  the brief is determined by the name of the file alone: a name that contains
  \<^verbatim>\<open>review\<close>, in any letter case, makes the rows the reviews; otherwise a name that
  contains \<^verbatim>\<open>price\<close> or \<^verbatim>\<open>pricing\<close> makes them the pricing; any other name makes
  them the catalog. For every list of uploaded files, in custom mode, each of these
  three handles carries inline the rows of the last file of its kind, and is the default
  path when there is no such file; the files of the same kind that come before the last
  one are not sent. The competitors and performance-signals handles are always the
  default paths, and outside custom mode all five are.
\<close>

theorem upload_kind_follows_file_name:
  "(includes_str (toLowerCase E n) (js ''review'') \<longrightarrow> handleFiles_key E n = js ''reviews'')
   \<and> (\<not> includes_str (toLowerCase E n) (js ''review'')
       \<and> (includes_str (toLowerCase E n) (js ''price'')
           \<or> includes_str (toLowerCase E n) (js ''pricing'')) \<longrightarrow>
      handleFiles_key E n = js ''pricing'')
   \<and> (\<not> includes_str (toLowerCase E n) (js ''review'')
       \<and> \<not> includes_str (toLowerCase E n) (js ''price'')
       \<and> \<not> includes_str (toLowerCase E n) (js ''pricing'') \<longrightarrow>
      handleFiles_key E n = js ''catalog'')
   \<and> (dataMode_checked inp = Some (js ''custom'')
       \<and> find (\<lambda>g. handleFiles_key E (file_name g) = js ''reviews'') (rev fs) = Some f \<longrightarrow>
      reviews (data_sources (build_brief E p inp (handleFiles E (Some parse) fs st)))
        = Inline (parse f))
   \<and> (dataMode_checked inp = Some (js ''custom'')
       \<and> find (\<lambda>g. handleFiles_key E (file_name g) = js ''pricing'') (rev fs) = Some f \<longrightarrow>
      pricing (data_sources (build_brief E p inp (handleFiles E (Some parse) fs st)))
        = Inline (parse f))
   \<and> (dataMode_checked inp = Some (js ''custom'')
       \<and> find (\<lambda>g. handleFiles_key E (file_name g) = js ''catalog'') (rev fs) = Some f \<longrightarrow>
      catalog (data_sources (build_brief E p inp (handleFiles E (Some parse) fs st)))
        = Inline (parse f))
   \<and> (find (\<lambda>g. handleFiles_key E (file_name g) = js ''reviews'') (rev fs) = None \<longrightarrow>
      reviews (data_sources (build_brief E p inp (handleFiles E (Some parse) fs st)))
        = Path (js ''reviews.json''))
   \<and> (find (\<lambda>g. handleFiles_key E (file_name g) = js ''pricing'') (rev fs) = None \<longrightarrow>
      pricing (data_sources (build_brief E p inp (handleFiles E (Some parse) fs st)))
        = Path (js ''pricing.json''))
   \<and> (find (\<lambda>g. handleFiles_key E (file_name g) = js ''catalog'') (rev fs) = None \<longrightarrow>
      catalog (data_sources (build_brief E p inp (handleFiles E (Some parse) fs st)))
        = Path (js ''catalog.json''))
   \<and> competitors (data_sources (build_brief E p inp (handleFiles E (Some parse) fs st)))
        = Path (js ''competitors.json'')
   \<and> performance_signals (data_sources (build_brief E p inp (handleFiles E (Some parse) fs st)))
        = Path (js ''performance_signals.json'')
   \<and> (dataMode_checked inp \<noteq> Some (js ''custom'') \<longrightarrow>
      data_sources (build_brief E p inp (handleFiles E (Some parse) fs st))
        = default_data_sources)"
proof -
  let ?st = "handleFiles E (Some parse) fs st"
  let ?ds = "data_sources (build_brief E p inp ?st)"
  let ?last = "\<lambda>k. find (\<lambda>g. handleFiles_key E (file_name g) = k) (rev fs)"
  have k1: "includes_str (toLowerCase E n) (js ''review'') \<longrightarrow> handleFiles_key E n = js ''reviews''"
    by (simp add: handleFiles_key_def)
  have k2: "\<not> includes_str (toLowerCase E n) (js ''review'')
       \<and> (includes_str (toLowerCase E n) (js ''price'')
           \<or> includes_str (toLowerCase E n) (js ''pricing'')) \<longrightarrow>
      handleFiles_key E n = js ''pricing''"
    by (auto simp: handleFiles_key_def)
  have k3: "\<not> includes_str (toLowerCase E n) (js ''review'')
       \<and> \<not> includes_str (toLowerCase E n) (js ''price'')
       \<and> \<not> includes_str (toLowerCase E n) (js ''pricing'') \<longrightarrow>
      handleFiles_key E n = js ''catalog''"
    by (simp add: handleFiles_key_def)
  have a1: "dataMode_checked inp = Some (js ''custom'') \<and> ?last (js ''reviews'') = Some f \<longrightarrow>
      reviews ?ds = Inline (parse f)"
    by (simp add: custom_handles parsedData_lookup or_handle_def)
  have a2: "dataMode_checked inp = Some (js ''custom'') \<and> ?last (js ''pricing'') = Some f \<longrightarrow>
      pricing ?ds = Inline (parse f)"
    by (simp add: custom_handles parsedData_lookup or_handle_def)
  have a3: "dataMode_checked inp = Some (js ''custom'') \<and> ?last (js ''catalog'') = Some f \<longrightarrow>
      catalog ?ds = Inline (parse f)"
    by (simp add: custom_handles parsedData_lookup or_handle_def)
  have d: "dataMode_checked inp \<noteq> Some (js ''custom'') \<longrightarrow> ?ds = default_data_sources"
    by (simp add: build_brief_def Let_def)
  have b1: "?last (js ''reviews'') = None \<longrightarrow> reviews ?ds = Path (js ''reviews.json'')"
  proof (cases "dataMode_checked inp = Some (js ''custom'')")
    case True
    then show ?thesis by (simp add: custom_handles parsedData_lookup or_handle_def)
  next
    case False
    with d show ?thesis by (simp add: default_data_sources_def)
  qed
  have b2: "?last (js ''pricing'') = None \<longrightarrow> pricing ?ds = Path (js ''pricing.json'')"
  proof (cases "dataMode_checked inp = Some (js ''custom'')")
    case True
    then show ?thesis by (simp add: custom_handles parsedData_lookup or_handle_def)
  next
    case False
    with d show ?thesis by (simp add: default_data_sources_def)
  qed
  have b3: "?last (js ''catalog'') = None \<longrightarrow> catalog ?ds = Path (js ''catalog.json'')"
  proof (cases "dataMode_checked inp = Some (js ''custom'')")
    case True
    then show ?thesis by (simp add: custom_handles parsedData_lookup or_handle_def)
  next
    case False
    with d show ?thesis by (simp add: default_data_sources_def)
  qed
  show ?thesis by (intro conjI k1 k2 k3 a1 a2 a3 b1 b2 b3 fixed_handles d)
qed

text \<open>The names of three files, and three uploads: a catalog followed by a file of
  competitors, of which only the second is sent, as the catalog; three files of three
  kinds; and a file of reviews alone, in custom mode and in sample mode.\<close>

theorem upload_kind_follows_file_name_witness:
  "\<forall>E. handleFiles_key E (js ''reviews.csv'') = js ''reviews''
   \<and> handleFiles_key E (js ''pricing.csv'') = js ''pricing''
   \<and> handleFiles_key E (js ''competitors.csv'') = js ''catalog''
   \<and> catalog (data_sources (build_brief E (js ''sku-472'') sample_inputs
       (handleFiles E (Some sample_parse) [catalog_upload, competitors_upload] initial_appState)))
     = Inline (sample_parse competitors_upload)
   \<and> reviews (data_sources (build_brief E (js ''sku-472'') sample_inputs
       (handleFiles E (Some sample_parse) [catalog_upload, competitors_upload] initial_appState)))
     = Path (js ''reviews.json'')
   \<and> reviews (data_sources (build_brief E (js ''sku-472'') sample_inputs
       (handleFiles E (Some sample_parse) [items_upload, reviews_upload, pricing_upload]
          initial_appState)))
     = Inline (sample_parse reviews_upload)
   \<and> pricing (data_sources (build_brief E (js ''sku-472'') sample_inputs
       (handleFiles E (Some sample_parse) [items_upload, reviews_upload, pricing_upload]
          initial_appState)))
     = Inline (sample_parse pricing_upload)
   \<and> pricing (data_sources (build_brief E (js ''sku-472'') sample_inputs
       (handleFiles E (Some sample_parse) [reviews_upload] initial_appState)))
     = Path (js ''pricing.json'')
   \<and> catalog (data_sources (build_brief E (js ''sku-472'') sample_inputs
       (handleFiles E (Some sample_parse) [reviews_upload] initial_appState)))
     = Path (js ''catalog.json'')
   \<and> data_sources (build_brief E (js ''sku-472'') builtin_data_inputs
       (handleFiles E (Some sample_parse) [reviews_upload] initial_appState))
     = default_data_sources"
proof
  fix E
  let ?two = "[catalog_upload, competitors_upload]"
  let ?three = "[items_upload, reviews_upload, pricing_upload]"
  let ?ds = "\<lambda>fs. data_sources (build_brief E (js ''sku-472'') sample_inputs
      (handleFiles E (Some sample_parse) fs initial_appState))"
  let ?last = "\<lambda>k fs. find (\<lambda>g. handleFiles_key E (file_name g) = k) (rev fs)"
  have m: "dataMode_checked sample_inputs = Some (js ''custom'')"
    by (simp add: sample_inputs_def)
  have i1: "includes_str (toLowerCase E (js ''reviews.csv'')) (js ''review'')"
    by (simp add: toLowerCase_def ascii_lower_def is_upper_def js_eval)
  have i2: "\<not> includes_str (toLowerCase E (js ''pricing.csv'')) (js ''review'')
      \<and> (includes_str (toLowerCase E (js ''pricing.csv'')) (js ''price'')
          \<or> includes_str (toLowerCase E (js ''pricing.csv'')) (js ''pricing''))"
    by (simp add: toLowerCase_def ascii_lower_def is_upper_def js_eval)
  have i3: "\<not> includes_str (toLowerCase E (js ''competitors.csv'')) (js ''review'')
      \<and> \<not> includes_str (toLowerCase E (js ''competitors.csv'')) (js ''price'')
      \<and> \<not> includes_str (toLowerCase E (js ''competitors.csv'')) (js ''pricing'')"
    by (simp add: toLowerCase_def ascii_lower_def is_upper_def js_eval)
  have f1: "?last (js ''catalog'') ?two = Some competitors_upload"
    by (simp add: catalog_upload_def competitors_upload_def keys_eval)
  have f2: "?last (js ''reviews'') ?two = None"
    by (simp add: catalog_upload_def competitors_upload_def keys_eval keys_distinct)
  have f3: "?last (js ''reviews'') ?three = Some reviews_upload"
    by (simp add: items_upload_def reviews_upload_def pricing_upload_def keys_eval keys_distinct)
  have f4: "?last (js ''pricing'') ?three = Some pricing_upload"
    by (simp add: items_upload_def reviews_upload_def pricing_upload_def keys_eval keys_distinct)
  have r1: "handleFiles_key E (js ''reviews.csv'') = js ''reviews''"
    using i1 by (rule upload_kind_follows_file_name [THEN conjunct1, THEN mp])
  have r2: "handleFiles_key E (js ''pricing.csv'') = js ''pricing''"
    using i2 by (rule upload_kind_follows_file_name [THEN conjunct2, THEN conjunct1, THEN mp])
  have r3: "handleFiles_key E (js ''competitors.csv'') = js ''catalog''"
    using i3
    by (rule upload_kind_follows_file_name [THEN conjunct2, THEN conjunct2, THEN conjunct1,
          THEN mp])
  have r4: "catalog (?ds ?two) = Inline (sample_parse competitors_upload)"
    by (rule upload_kind_follows_file_name [THEN conjunct2, THEN conjunct2, THEN conjunct2,
          THEN conjunct2, THEN conjunct2, THEN conjunct1, THEN mp]) (intro conjI m f1)
  have r5: "reviews (?ds ?two) = Path (js ''reviews.json'')"
    using f2
    by (rule upload_kind_follows_file_name [THEN conjunct2, THEN conjunct2, THEN conjunct2,
          THEN conjunct2, THEN conjunct2, THEN conjunct2, THEN conjunct1, THEN mp])
  have r6: "reviews (?ds ?three) = Inline (sample_parse reviews_upload)"
    by (rule upload_kind_follows_file_name [THEN conjunct2, THEN conjunct2, THEN conjunct2,
          THEN conjunct1, THEN mp]) (intro conjI m f3)
  have r7: "pricing (?ds ?three) = Inline (sample_parse pricing_upload)"
    by (rule upload_kind_follows_file_name [THEN conjunct2, THEN conjunct2, THEN conjunct2,
          THEN conjunct2, THEN conjunct1, THEN mp]) (intro conjI m f4)
  have f5: "?last (js ''pricing'') [reviews_upload] = None"
    "?last (js ''catalog'') [reviews_upload] = None"
    by (simp_all add: reviews_upload_def keys_eval keys_distinct)
  have r8: "pricing (?ds [reviews_upload]) = Path (js ''pricing.json'')"
    using f5(1)
    by (rule upload_kind_follows_file_name [THEN conjunct2, THEN conjunct2, THEN conjunct2,
          THEN conjunct2, THEN conjunct2, THEN conjunct2, THEN conjunct2, THEN conjunct1,
          THEN mp])
  have r9: "catalog (?ds [reviews_upload]) = Path (js ''catalog.json'')"
    using f5(2)
    by (rule upload_kind_follows_file_name [THEN conjunct2, THEN conjunct2, THEN conjunct2,
          THEN conjunct2, THEN conjunct2, THEN conjunct2, THEN conjunct2, THEN conjunct2,
          THEN conjunct1, THEN mp])
  have n: "dataMode_checked builtin_data_inputs \<noteq> Some (js ''custom'')"
    by (simp add: builtin_data_inputs_def sample_inputs_def js_eval)
  have r10: "data_sources (build_brief E (js ''sku-472'') builtin_data_inputs
       (handleFiles E (Some sample_parse) [reviews_upload] initial_appState))
     = default_data_sources"
    using n
    by (rule upload_kind_follows_file_name [THEN conjunct2, THEN conjunct2, THEN conjunct2,
          THEN conjunct2, THEN conjunct2, THEN conjunct2, THEN conjunct2, THEN conjunct2,
          THEN conjunct2, THEN conjunct2, THEN conjunct2, THEN mp])
  show "handleFiles_key E (js ''reviews.csv'') = js ''reviews''
   \<and> handleFiles_key E (js ''pricing.csv'') = js ''pricing''
   \<and> handleFiles_key E (js ''competitors.csv'') = js ''catalog''
   \<and> catalog (?ds ?two) = Inline (sample_parse competitors_upload)
   \<and> reviews (?ds ?two) = Path (js ''reviews.json'')
   \<and> reviews (?ds ?three) = Inline (sample_parse reviews_upload)
   \<and> pricing (?ds ?three) = Inline (sample_parse pricing_upload)
   \<and> pricing (?ds [reviews_upload]) = Path (js ''pricing.json'')
   \<and> catalog (?ds [reviews_upload]) = Path (js ''catalog.json'')
   \<and> data_sources (build_brief E (js ''sku-472'') builtin_data_inputs
       (handleFiles E (Some sample_parse) [reviews_upload] initial_appState))
     = default_data_sources"
    by (intro conjI r1 r2 r3 r4 r5 r6 r7 r8 r9 r10)
qed

subsection \<open>Inline rows in the brief\<close>

lemma upload_names:
  "replace_first (js ''.csv'') [] (js ''catalog.csv'') = js ''catalog''"
  "replace_first (js ''.csv'') [] (js ''reviews.csv'') = js ''reviews''"
  "replace_first (js ''.csv'') [] (js ''pricing.csv'') = js ''pricing''"
  "replace_first (js ''.csv'') [] (js ''competitors.csv'') = js ''competitors''"
  "replace_first (js ''.csv'') [] (js ''performance.csv'') = js ''performance''"
  by (simp_all add: js_eval)

lemma upload_keys_distinct:
  "js ''catalog'' \<noteq> js ''competitors''" "js ''catalog'' \<noteq> js ''performance''"
  "js ''reviews'' \<noteq> js ''competitors''" "js ''reviews'' \<noteq> js ''performance''"
  "js ''pricing'' \<noteq> js ''competitors''" "js ''pricing'' \<noteq> js ''performance''"
  "js ''competitors'' \<noteq> js ''catalog''" "js ''competitors'' \<noteq> js ''reviews''"
  "js ''competitors'' \<noteq> js ''pricing''" "js ''competitors'' \<noteq> js ''performance''"
  "js ''performance'' \<noteq> js ''catalog''" "js ''performance'' \<noteq> js ''reviews''"
  "js ''performance'' \<noteq> js ''pricing''" "js ''performance'' \<noteq> js ''competitors''"
  by (simp_all add: js_eval)

text \<open>
  Claim C2, as stated: for each of the five kinds, rows supplied for that kind in
  custom or upload mode are carried inline under that kind. In app.js a file of
  competitor listings, uploaded in custom mode under the name \<^verbatim>\<open>competitors.csv\<close>,
  leaves the competitors handle at its default path; its rows are sent as the catalog.
\<close>

theorem competitors_upload_is_not_inline:
  "\<forall>E. competitors (data_sources (build_brief E (js ''sku-472'') sample_inputs
       (handleFiles E (Some sample_parse) [competitors_upload] initial_appState)))
     = Path (js ''competitors.json'')
   \<and> catalog (data_sources (build_brief E (js ''sku-472'') sample_inputs
       (handleFiles E (Some sample_parse) [competitors_upload] initial_appState)))
     = Inline (sample_parse competitors_upload)"
proof
  fix E
  have m: "dataMode_checked sample_inputs = Some (js ''custom'')"
    by (simp add: sample_inputs_def)
  show "competitors (data_sources (build_brief E (js ''sku-472'') sample_inputs
       (handleFiles E (Some sample_parse) [competitors_upload] initial_appState)))
     = Path (js ''competitors.json'')
   \<and> catalog (data_sources (build_brief E (js ''sku-472'') sample_inputs
       (handleFiles E (Some sample_parse) [competitors_upload] initial_appState)))
     = Inline (sample_parse competitors_upload)"
    by (simp add: fixed_handles custom_handles [OF m] parsedData_lookup competitors_upload_def
        keys_eval or_handle_def)
qed

text \<open>
  Claim C2, amended. In app.js, in custom mode, rows held by \<^verbatim>\<open>appState.parsedData\<close>
  for the catalog, the reviews or the pricing are carried inline under that kind, while
  the competitors and performance-signals handles are always the default paths. In the
  wizard, in upload mode, each of the five handles carries inline the rows of the last
  uploaded file whose name, with its first \<^verbatim>\<open>.csv\<close> removed, is the key of the handle:
  \<^verbatim>\<open>catalog\<close>, \<^verbatim>\<open>reviews\<close>, \<^verbatim>\<open>pricing\<close>, \<^verbatim>\<open>competitors\<close>, and \<^verbatim>\<open>performance\<close>
  for the performance signals.
\<close>

theorem supplied_rows_are_inline:
  "(dataMode_checked inp = Some (js ''custom'')
      \<and> map_of (parsedData st) (js ''catalog'') = Some rows \<longrightarrow>
      catalog (data_sources (build_brief E p inp st)) = Inline rows)
   \<and> (dataMode_checked inp = Some (js ''custom'')
      \<and> map_of (parsedData st) (js ''reviews'') = Some rows \<longrightarrow>
      reviews (data_sources (build_brief E p inp st)) = Inline rows)
   \<and> (dataMode_checked inp = Some (js ''custom'')
      \<and> map_of (parsedData st) (js ''pricing'') = Some rows \<longrightarrow>
      pricing (data_sources (build_brief E p inp st)) = Inline rows)
   \<and> competitors (data_sources (build_brief E p inp st)) = Path (js ''competitors.json'')
   \<and> performance_signals (data_sources (build_brief E p inp st))
       = Path (js ''performance_signals.json'')
   \<and> (fd_dataMode fd = js ''upload''
       \<and> find (\<lambda>f. replace_first (js ''.csv'') [] (file_name f) = js ''catalog'')
            (rev (fd_files fd)) = Some g \<longrightarrow>
      catalog (wizard_dataSources fd) = Inline (csv_data (file_text g)))
   \<and> (fd_dataMode fd = js ''upload''
       \<and> find (\<lambda>f. replace_first (js ''.csv'') [] (file_name f) = js ''reviews'')
            (rev (fd_files fd)) = Some g \<longrightarrow>
      reviews (wizard_dataSources fd) = Inline (csv_data (file_text g)))
   \<and> (fd_dataMode fd = js ''upload''
       \<and> find (\<lambda>f. replace_first (js ''.csv'') [] (file_name f) = js ''pricing'')
            (rev (fd_files fd)) = Some g \<longrightarrow>
      pricing (wizard_dataSources fd) = Inline (csv_data (file_text g)))
   \<and> (fd_dataMode fd = js ''upload''
       \<and> find (\<lambda>f. replace_first (js ''.csv'') [] (file_name f) = js ''competitors'')
            (rev (fd_files fd)) = Some g \<longrightarrow>
      competitors (wizard_dataSources fd) = Inline (csv_data (file_text g)))
   \<and> (fd_dataMode fd = js ''upload''
       \<and> find (\<lambda>f. replace_first (js ''.csv'') [] (file_name f) = js ''performance'')
            (rev (fd_files fd)) = Some g \<longrightarrow>
      performance_signals (wizard_dataSources fd) = Inline (csv_data (file_text g)))"
proof -
  have a1: "dataMode_checked inp = Some (js ''custom'')
      \<and> map_of (parsedData st) (js ''catalog'') = Some rows \<longrightarrow>
      catalog (data_sources (build_brief E p inp st)) = Inline rows"
    by (simp add: custom_handles or_handle_def)
  have a2: "dataMode_checked inp = Some (js ''custom'')
      \<and> map_of (parsedData st) (js ''reviews'') = Some rows \<longrightarrow>
      reviews (data_sources (build_brief E p inp st)) = Inline rows"
    by (simp add: custom_handles or_handle_def)
  have a3: "dataMode_checked inp = Some (js ''custom'')
      \<and> map_of (parsedData st) (js ''pricing'') = Some rows \<longrightarrow>
      pricing (data_sources (build_brief E p inp st)) = Inline rows"
    by (simp add: custom_handles or_handle_def)
  have w: "fd_dataMode fd = js ''upload''
       \<and> find (\<lambda>f. replace_first (js ''.csv'') [] (file_name f) = k) (rev (fd_files fd)) = Some g \<longrightarrow>
      fd_files fd \<noteq> [] \<and> map_of (fileData_of (fd_files fd)) k = Some (csv_data (file_text g))"
    for k
    using fileData_lookup [of k "fd_files fd" g] by auto
  have w1: "fd_dataMode fd = js ''upload''
       \<and> find (\<lambda>f. replace_first (js ''.csv'') [] (file_name f) = js ''catalog'')
            (rev (fd_files fd)) = Some g \<longrightarrow>
      catalog (wizard_dataSources fd) = Inline (csv_data (file_text g))"
    using w [of "js ''catalog''"] by (simp add: wizard_dataSources_def Let_def or_handle_def)
  have w2: "fd_dataMode fd = js ''upload''
       \<and> find (\<lambda>f. replace_first (js ''.csv'') [] (file_name f) = js ''reviews'')
            (rev (fd_files fd)) = Some g \<longrightarrow>
      reviews (wizard_dataSources fd) = Inline (csv_data (file_text g))"
    using w [of "js ''reviews''"] by (simp add: wizard_dataSources_def Let_def or_handle_def)
  have w3: "fd_dataMode fd = js ''upload''
       \<and> find (\<lambda>f. replace_first (js ''.csv'') [] (file_name f) = js ''pricing'')
            (rev (fd_files fd)) = Some g \<longrightarrow>
      pricing (wizard_dataSources fd) = Inline (csv_data (file_text g))"
    using w [of "js ''pricing''"] by (simp add: wizard_dataSources_def Let_def or_handle_def)
  have w4: "fd_dataMode fd = js ''upload''
       \<and> find (\<lambda>f. replace_first (js ''.csv'') [] (file_name f) = js ''competitors'')
            (rev (fd_files fd)) = Some g \<longrightarrow>
      competitors (wizard_dataSources fd) = Inline (csv_data (file_text g))"
    using w [of "js ''competitors''"] by (simp add: wizard_dataSources_def Let_def or_handle_def)
  have w5: "fd_dataMode fd = js ''upload''
       \<and> find (\<lambda>f. replace_first (js ''.csv'') [] (file_name f) = js ''performance'')
            (rev (fd_files fd)) = Some g \<longrightarrow>
      performance_signals (wizard_dataSources fd) = Inline (csv_data (file_text g))"
    using w [of "js ''performance''"] by (simp add: wizard_dataSources_def Let_def or_handle_def)
  show ?thesis by (intro conjI a1 a2 a3 fixed_handles w1 w2 w3 w4 w5)
qed

text \<open>Three files uploaded through app.js, and the five files uploaded through the
  wizard.\<close>

theorem supplied_rows_are_inline_witness:
  "\<forall>E. catalog (data_sources (build_brief E (js ''sku-472'') sample_inputs
       (handleFiles E (Some sample_parse) [items_upload, reviews_upload, pricing_upload]
          initial_appState)))
     = Inline (sample_parse items_upload)
   \<and> reviews (data_sources (build_brief E (js ''sku-472'') sample_inputs
       (handleFiles E (Some sample_parse) [items_upload, reviews_upload, pricing_upload]
          initial_appState)))
     = Inline (sample_parse reviews_upload)
   \<and> pricing (data_sources (build_brief E (js ''sku-472'') sample_inputs
       (handleFiles E (Some sample_parse) [items_upload, reviews_upload, pricing_upload]
          initial_appState)))
     = Inline (sample_parse pricing_upload)
   \<and> catalog (wizard_dataSources (upload_formData five_uploads))
     = Inline (csv_data (file_text catalog_upload))
   \<and> reviews (wizard_dataSources (upload_formData five_uploads))
     = Inline (csv_data (file_text reviews_upload))
   \<and> pricing (wizard_dataSources (upload_formData five_uploads))
     = Inline (csv_data (file_text pricing_upload))
   \<and> competitors (wizard_dataSources (upload_formData five_uploads))
     = Inline (csv_data (file_text competitors_upload))
   \<and> performance_signals (wizard_dataSources (upload_formData five_uploads))
     = Inline (csv_data (file_text performance_upload))"
proof
  fix E
  let ?st = "handleFiles E (Some sample_parse) [items_upload, reviews_upload, pricing_upload]
      (initial_appState :: csv_row list appState)"
  let ?fd = "upload_formData five_uploads"
  let ?key = "\<lambda>f. replace_first (js ''.csv'') [] (file_name f)"
  have m: "dataMode_checked sample_inputs = Some (js ''custom'')"
    by (simp add: sample_inputs_def)
  have a: "map_of (parsedData ?st) (js ''catalog'') = Some (sample_parse items_upload)"
    "map_of (parsedData ?st) (js ''reviews'') = Some (sample_parse reviews_upload)"
    "map_of (parsedData ?st) (js ''pricing'') = Some (sample_parse pricing_upload)"
    by (simp_all add: parsedData_lookup items_upload_def reviews_upload_def pricing_upload_def
        keys_eval keys_distinct)
  have w: "fd_dataMode ?fd = js ''upload''"
    by (simp add: upload_formData_def)
  have n: "?key catalog_upload = js ''catalog''" "?key reviews_upload = js ''reviews''"
    "?key pricing_upload = js ''pricing''" "?key competitors_upload = js ''competitors''"
    "?key performance_upload = js ''performance''"
    by (simp_all add: catalog_upload_def reviews_upload_def pricing_upload_def
        competitors_upload_def performance_upload_def upload_names)
  have fs: "fd_files ?fd = five_uploads"
    by (simp add: upload_formData_def)
  have f: "find (\<lambda>f. ?key f = js ''catalog'') (rev (fd_files ?fd)) = Some catalog_upload"
    "find (\<lambda>f. ?key f = js ''reviews'') (rev (fd_files ?fd)) = Some reviews_upload"
    "find (\<lambda>f. ?key f = js ''pricing'') (rev (fd_files ?fd)) = Some pricing_upload"
    "find (\<lambda>f. ?key f = js ''competitors'') (rev (fd_files ?fd)) = Some competitors_upload"
    "find (\<lambda>f. ?key f = js ''performance'') (rev (fd_files ?fd)) = Some performance_upload"
    unfolding fs by (simp_all add: five_uploads_def n keys_distinct upload_keys_distinct)
  note t = supplied_rows_are_inline [where inp = sample_inputs and st = ?st
      and p = "js ''sku-472''" and fd = ?fd and E = E]
  have r1: "catalog (data_sources (build_brief E (js ''sku-472'') sample_inputs ?st))
      = Inline (sample_parse items_upload)"
    by (rule t [THEN conjunct1, THEN mp]) (intro conjI m a)
  have r2: "reviews (data_sources (build_brief E (js ''sku-472'') sample_inputs ?st))
      = Inline (sample_parse reviews_upload)"
    by (rule t [THEN conjunct2, THEN conjunct1, THEN mp]) (intro conjI m a)
  have r3: "pricing (data_sources (build_brief E (js ''sku-472'') sample_inputs ?st))
      = Inline (sample_parse pricing_upload)"
    by (rule t [THEN conjunct2, THEN conjunct2, THEN conjunct1, THEN mp]) (intro conjI m a)
  note u = t [THEN conjunct2, THEN conjunct2, THEN conjunct2, THEN conjunct2, THEN conjunct2]
  have r4: "catalog (wizard_dataSources ?fd) = Inline (csv_data (file_text catalog_upload))"
    by (rule u [THEN conjunct1, THEN mp]) (intro conjI w f)
  have r5: "reviews (wizard_dataSources ?fd) = Inline (csv_data (file_text reviews_upload))"
    by (rule u [THEN conjunct2, THEN conjunct1, THEN mp]) (intro conjI w f)
  have r6: "pricing (wizard_dataSources ?fd) = Inline (csv_data (file_text pricing_upload))"
    by (rule u [THEN conjunct2, THEN conjunct2, THEN conjunct1, THEN mp]) (intro conjI w f)
  have r7: "competitors (wizard_dataSources ?fd)
      = Inline (csv_data (file_text competitors_upload))"
    by (rule u [THEN conjunct2, THEN conjunct2, THEN conjunct2, THEN conjunct1, THEN mp])
      (intro conjI w f)
  have r8: "performance_signals (wizard_dataSources ?fd)
      = Inline (csv_data (file_text performance_upload))"
    by (rule u [THEN conjunct2, THEN conjunct2, THEN conjunct2, THEN conjunct2, THEN mp])
      (intro conjI w f)
  show "catalog (data_sources (build_brief E (js ''sku-472'') sample_inputs ?st))
     = Inline (sample_parse items_upload)
   \<and> reviews (data_sources (build_brief E (js ''sku-472'') sample_inputs ?st))
     = Inline (sample_parse reviews_upload)
   \<and> pricing (data_sources (build_brief E (js ''sku-472'') sample_inputs ?st))
     = Inline (sample_parse pricing_upload)
   \<and> catalog (wizard_dataSources ?fd) = Inline (csv_data (file_text catalog_upload))
   \<and> reviews (wizard_dataSources ?fd) = Inline (csv_data (file_text reviews_upload))
   \<and> pricing (wizard_dataSources ?fd) = Inline (csv_data (file_text pricing_upload))
   \<and> competitors (wizard_dataSources ?fd) = Inline (csv_data (file_text competitors_upload))
   \<and> performance_signals (wizard_dataSources ?fd)
     = Inline (csv_data (file_text performance_upload))"
    by (intro conjI r1 r2 r3 r4 r5 r6 r7 r8)
qed

end
